(* ===== verification/Prelude.thy ===== *)
theory Prelude
  imports Complex_Main "HOL-Library.Monad_Syntax"
begin

text \<open>
  Shared vocabulary of the development. Python's exceptions are the left
  summand of a sum type and \<open>py_bind\<close> threads them through a block of
  statements, so that a raise anywhere in the block is the value of the
  block. The Python \<open>str\<close> methods the analysis module calls
  (\<open>strip\<close>, \<open>lower\<close>, \<open>endswith\<close>, \<open>replace\<close>, \<open>in\<close>) are given
  their CPython meaning on byte strings; the lemmas about them are shared by
  the orchestrator (response cleaning) and the pipeline (temporary file names).
\<close>

named_theorems py_simps "evaluation rules of the Python value model"

section \<open>Exceptions as values\<close>

fun py_bind :: "'e + 'a \<Rightarrow> ('a \<Rightarrow> 'e + 'b) \<Rightarrow> 'e + 'b" where
  "py_bind (Inl e) f = Inl e"
| "py_bind (Inr x) f = f x"

lemma py_bind_eq_Inr [simp]:
  "py_bind m f = Inr y \<longleftrightarrow> (\<exists>x. m = Inr x \<and> f x = Inr y)"
  by (cases m) auto

lemma py_bind_Inl_iff:
  "py_bind m f = Inl e \<longleftrightarrow> m = Inl e \<or> (\<exists>x. m = Inr x \<and> f x = Inl e)"
  by (cases m) auto

section \<open>Python string methods on byte strings\<close>

text \<open>\<open>str.isspace\<close> on the ASCII range: TAB, LF, VT, FF, CR, the four
  information separators 0x1c..0x1f, and SPACE.\<close>

definition py_isspace :: "char \<Rightarrow> bool" where
  "py_isspace c \<longleftrightarrow> (let n = of_char c :: nat in (9 \<le> n \<and> n \<le> 13) \<or> (28 \<le> n \<and> n \<le> 32))"

definition py_strip :: "string \<Rightarrow> string" where
  "py_strip s = rev (dropWhile py_isspace (rev (dropWhile py_isspace s)))"

definition py_lower_char :: "char \<Rightarrow> char" where
  "py_lower_char c =
     (let n = of_char c :: nat in if 65 \<le> n \<and> n \<le> 90 then char_of (n + 32) else c)"

definition py_lower :: "string \<Rightarrow> string" where
  "py_lower s = map py_lower_char s"

definition py_endswith :: "string \<Rightarrow> string \<Rightarrow> bool" where
  "py_endswith s suf \<longleftrightarrow> length suf \<le> length s \<and> drop (length s - length suf) s = suf"

fun py_startswith :: "string \<Rightarrow> string \<Rightarrow> bool" where
  "py_startswith s [] = True"
| "py_startswith [] (c # p) = False"
| "py_startswith (d # s) (c # p) = (d = c \<and> py_startswith s p)"

text \<open>\<open>sub in s\<close>.\<close>

fun py_in :: "string \<Rightarrow> string \<Rightarrow> bool" where
  "py_in sub [] = (sub = [])"
| "py_in sub (c # s) = (py_startswith (c # s) sub \<or> py_in sub s)"

text \<open>\<open>s.replace(old, new)\<close> for a non-empty \<open>old\<close>: scan left to right and
  replace every non-overlapping occurrence.\<close>

function replace_nonempty :: "string \<Rightarrow> string \<Rightarrow> string \<Rightarrow> string" where
  "replace_nonempty old new [] = []"
| "replace_nonempty old new (c # s) =
     (if old \<noteq> [] \<and> py_startswith (c # s) old
      then new @ replace_nonempty old new (drop (length old) (c # s))
      else c # replace_nonempty old new s)"
  by pat_completeness auto
termination
  by (relation "measure (\<lambda>(old, new, s). length s)") auto

text \<open>With an empty \<open>old\<close>, CPython inserts \<open>new\<close> before every character
  and at the end.\<close>

definition py_replace :: "string \<Rightarrow> string \<Rightarrow> string \<Rightarrow> string" where
  "py_replace s old new =
     (if old = [] then new @ concat (map (\<lambda>c. c # new) s) else replace_nonempty old new s)"

section \<open>Shared lemmas\<close>

lemma py_startswith_iff: "py_startswith s p \<longleftrightarrow> take (length p) s = p"
  by (induction s p rule: py_startswith.induct) auto

lemma py_startswith_append [simp]: "py_startswith (p @ s) p"
  by (simp add: py_startswith_iff)

lemma py_in_iff_sublist: "py_in sub s \<longleftrightarrow> (\<exists>a b. s = a @ sub @ b)"
proof (induction s)
  case Nil
  then show ?case by simp
next
  case (Cons c s)
  have "py_startswith (c # s) sub \<longleftrightarrow> (\<exists>b. c # s = sub @ b)"
    by (metis append_eq_conv_conj py_startswith_iff)
  moreover have "(\<exists>a b. c # s = a @ sub @ b) \<longleftrightarrow>
      (\<exists>b. c # s = sub @ b) \<or> (\<exists>a b. s = a @ sub @ b)"
    by (auto simp: Cons_eq_append_conv)
  ultimately show ?case using Cons.IH by simp
qed

lemma py_in_append_left: "py_in sub s \<Longrightarrow> py_in sub (a @ s)"
  by (auto simp: py_in_iff_sublist) (metis append.assoc)

lemma replace_nonempty_absent:
  "\<not> py_in old s \<Longrightarrow> replace_nonempty old new s = s"
  by (induction old new s rule: replace_nonempty.induct) auto

lemma py_replace_absent:
  "old \<noteq> [] \<Longrightarrow> \<not> py_in old s \<Longrightarrow> py_replace s old new = s"
  by (simp add: py_replace_def replace_nonempty_absent)

lemma replace_nonempty_append_occ:
  assumes "old \<noteq> []"
  shows "replace_nonempty old new (old @ s) = new @ replace_nonempty old new s"
proof -
  obtain c r where old: "old = c # r" using assms by (cases old) auto
  show ?thesis by (simp add: old)
qed

lemma take_Cons_append_take:
  "take n (c # a @ s) = take n (c # a @ take (n - 1) s)"
  by (cases n) (auto simp: min_def)

lemma py_in_of_take:
  "take (length old) x = old \<Longrightarrow> py_in old x"
  by (simp add: py_in_iff_sublist) (metis append_Nil append_take_drop_id)

text \<open>A prefix that holds no occurrence of \<open>old\<close>, not even one running into
  what follows it, is copied unchanged by \<open>replace\<close>.\<close>

lemma replace_nonempty_append_plain:
  assumes "\<not> py_in old (a @ take (length old - 1) s)"
  shows "replace_nonempty old new (a @ s) = a @ replace_nonempty old new s"
  using assms
proof (induction a)
  case Nil
  then show ?case by simp
next
  case (Cons c a)
  have "\<not> py_startswith (c # a @ s) old"
  proof
    assume "py_startswith (c # a @ s) old"
    then have "take (length old) (c # a @ s) = old"
      by (simp add: py_startswith_iff)
    then have "take (length old) (c # a @ take (length old - 1) s) = old"
      by (metis take_Cons_append_take)
    then have "py_in old (c # a @ take (length old - 1) s)"
      by (rule py_in_of_take)
    with Cons.prems show False by simp
  qed
  moreover have "\<not> py_in old (a @ take (length old - 1) s)"
    using Cons.prems by auto
  ultimately show ?case using Cons.IH by simp
qed

text \<open>A prefix without the first character of \<open>old\<close> is copied unchanged.\<close>

lemma replace_nonempty_append_no_head:
  assumes "old \<noteq> []" "hd old \<notin> set a"
  shows "replace_nonempty old new (a @ s) = a @ replace_nonempty old new s"
  using assms(2)
proof (induction a)
  case (Cons c a)
  from assms(1) Cons.prems have "\<not> py_startswith (c # a @ s) old"
    by (cases old) auto
  with Cons show ?case by simp
qed simp

text \<open>\<open>find_one\<close> on a collection that grew at its end.\<close>

lemma find_append: "find P (xs @ ys) = (case find P xs of None \<Rightarrow> find P ys | Some x \<Rightarrow> Some x)"
  by (induction xs) auto

text \<open>Evaluation of the string methods on literals.\<close>

lemmas py_str_eval = py_lower_def py_lower_char_def char_of_def bit_simps
  py_endswith_def py_replace_def py_strip_def py_isspace_def

lemma py_strip_idem_ends:
  "s = [] \<or> (\<not> py_isspace (hd s) \<and> \<not> py_isspace (last s)) \<Longrightarrow> py_strip s = s"
proof (cases s rule: rev_cases)
  case (snoc ys y)
  assume h: "s = [] \<or> (\<not> py_isspace (hd s) \<and> \<not> py_isspace (last s))"
  then have "dropWhile py_isspace s = s"
    by (cases s) auto
  moreover have "dropWhile py_isspace (rev s) = rev s"
    using h snoc by simp
  ultimately show ?thesis by (simp add: py_strip_def)
qed (simp add: py_strip_def)

lemma py_strip_pad:
  assumes "list_all py_isspace pre" "list_all py_isspace suf" "d \<noteq> []"
    and "\<not> py_isspace (hd d)" "\<not> py_isspace (last d)"
  shows "py_strip (pre @ d @ suf) = d"
proof -
  have "dropWhile py_isspace (pre @ d @ suf) = d @ suf"
    using assms by (cases d) (simp_all add: dropWhile_append list_all_iff)
  moreover have "dropWhile py_isspace (rev suf @ rev d) = rev d"
    using assms by (cases d rule: rev_cases) (simp_all add: dropWhile_append list_all_iff)
  ultimately show ?thesis by (simp add: py_strip_def)
qed

end
