(* ===== verification/PyValue.thy ===== *)
theory PyValue
  imports Prelude
begin

text \<open>
  The Python values that flow between the extraction and the calculation:
  what \<open>json.loads\<close> returns (None, bools, ints, floats, strings, lists and
  dicts with string keys), with the semantics of the operators that
  \<open>DrawnSteelCalculator.calculate_from_dimensions\<close> applies to them.
  Python's numeric tower is kept: \<open>bool\<close> is an \<open>int\<close>, \<open>int op int\<close>
  stays an \<open>int\<close>, any float operand makes a float, \<open>/\<close> always gives a
  float. Floats are modelled as exact reals (rounding error, infinities and
  NaN are not modelled). Sequences repeat under \<open>*\<close> by an int and
  concatenate under \<open>+\<close>, as in CPython; every other combination raises
  \<open>TypeError\<close>. A dict is the association list of a JSON object; the
  objects \<open>json.loads\<close> builds have distinct keys.
\<close>

datatype pyval =
    PNone
  | PBool bool
  | PInt int
  | PFloat real
  | PStr string
  | PList "pyval list"
  | PDict "(string \<times> pyval) list"

datatype pyexc =
    KeyError string
  | TypeError
  | AttributeError
  | ZeroDivisionError
  | UnboundLocalError string
  | ValueError string
  | HTTPException int string
  | DuplicateKeyError

type_synonym 'a pyres = "pyexc + 'a"

section \<open>Truth values and numbers\<close>

fun py_truth :: "pyval \<Rightarrow> bool" where
  "py_truth PNone = False"
| "py_truth (PBool b) = b"
| "py_truth (PInt i) = (i \<noteq> 0)"
| "py_truth (PFloat r) = (r \<noteq> 0)"
| "py_truth (PStr s) = (s \<noteq> [])"
| "py_truth (PList xs) = (xs \<noteq> [])"
| "py_truth (PDict kvs) = (kvs \<noteq> [])"

text \<open>\<open>a or b\<close>.\<close>

definition py_or :: "pyval \<Rightarrow> pyval \<Rightarrow> pyval" where
  "py_or a b = (if py_truth a then a else b)"

text \<open>The integral values (\<open>bool\<close> and \<open>int\<close>) and the numeric values.\<close>

fun py_int :: "pyval \<Rightarrow> int option" where
  "py_int (PBool b) = Some (if b then 1 else 0)"
| "py_int (PInt i) = Some i"
| "py_int _ = None"

fun py_num :: "pyval \<Rightarrow> real option" where
  "py_num (PBool b) = Some (if b then 1 else 0)"
| "py_num (PInt i) = Some (of_int i)"
| "py_num (PFloat r) = Some r"
| "py_num _ = None"

section \<open>Operators\<close>

fun py_mul :: "pyval \<Rightarrow> pyval \<Rightarrow> pyval pyres" where
  "py_mul (PStr s) b =
     (case py_int b of Some n \<Rightarrow> Inr (PStr (concat (replicate (nat n) s))) | None \<Rightarrow> Inl TypeError)"
| "py_mul (PList xs) b =
     (case py_int b of Some n \<Rightarrow> Inr (PList (concat (replicate (nat n) xs))) | None \<Rightarrow> Inl TypeError)"
| "py_mul a (PStr s) =
     (case py_int a of Some n \<Rightarrow> Inr (PStr (concat (replicate (nat n) s))) | None \<Rightarrow> Inl TypeError)"
| "py_mul a (PList xs) =
     (case py_int a of Some n \<Rightarrow> Inr (PList (concat (replicate (nat n) xs))) | None \<Rightarrow> Inl TypeError)"
| "py_mul a b =
     (case (py_int a, py_int b) of
        (Some i, Some j) \<Rightarrow> Inr (PInt (i * j))
      | _ \<Rightarrow> (case (py_num a, py_num b) of
               (Some x, Some y) \<Rightarrow> Inr (PFloat (x * y))
             | _ \<Rightarrow> Inl TypeError))"

fun py_add :: "pyval \<Rightarrow> pyval \<Rightarrow> pyval pyres" where
  "py_add (PStr s) (PStr t) = Inr (PStr (s @ t))"
| "py_add (PList xs) (PList ys) = Inr (PList (xs @ ys))"
| "py_add a b =
     (case (py_int a, py_int b) of
        (Some i, Some j) \<Rightarrow> Inr (PInt (i + j))
      | _ \<Rightarrow> (case (py_num a, py_num b) of
               (Some x, Some y) \<Rightarrow> Inr (PFloat (x + y))
             | _ \<Rightarrow> Inl TypeError))"

definition py_sub :: "pyval \<Rightarrow> pyval \<Rightarrow> pyval pyres" where
  "py_sub a b =
     (case (py_int a, py_int b) of
        (Some i, Some j) \<Rightarrow> Inr (PInt (i - j))
      | _ \<Rightarrow> (case (py_num a, py_num b) of
               (Some x, Some y) \<Rightarrow> Inr (PFloat (x - y))
             | _ \<Rightarrow> Inl TypeError))"

text \<open>True division: always a float, \<open>ZeroDivisionError\<close> on a zero divisor.\<close>

definition py_truediv :: "pyval \<Rightarrow> pyval \<Rightarrow> pyval pyres" where
  "py_truediv a b =
     (case (py_num a, py_num b) of
        (Some x, Some y) \<Rightarrow> if y = 0 then Inl ZeroDivisionError else Inr (PFloat (x / y))
      | _ \<Rightarrow> Inl TypeError)"

text \<open>\<open>x ** 2\<close> with the literal exponent 2.\<close>

definition py_pow2 :: "pyval \<Rightarrow> pyval pyres" where
  "py_pow2 a =
     (case py_int a of
        Some i \<Rightarrow> Inr (PInt (i ^ 2))
      | None \<Rightarrow> (case a of PFloat x \<Rightarrow> Inr (PFloat (x ^ 2)) | _ \<Rightarrow> Inl TypeError))"

text \<open>\<open>round(x, n)\<close>: CPython rounds a float to the nearest multiple of
  \<open>10\<^sup>-\<^sup>n\<close>, ties to even; an int is returned unchanged (a bool as its int).\<close>

definition round_half_even :: "real \<Rightarrow> int" where
  "round_half_even y =
     (let f = \<lfloor>y\<rfloor>; d = y - of_int f in
      if d < 1/2 then f else if 1/2 < d then f + 1 else if even f then f else f + 1)"

definition round_digits :: "nat \<Rightarrow> real \<Rightarrow> real" where
  "round_digits n x = of_int (round_half_even (x * 10 ^ n)) / 10 ^ n"

definition py_round :: "pyval \<Rightarrow> nat \<Rightarrow> pyval pyres" where
  "py_round a n =
     (case a of
        PFloat x \<Rightarrow> Inr (PFloat (round_digits n x))
      | _ \<Rightarrow> (case py_int a of Some i \<Rightarrow> Inr (PInt i) | None \<Rightarrow> Inl TypeError))"

section \<open>Dict access\<close>

text \<open>\<open>d.get(k, default)\<close>: only a dict has \<open>get\<close>.\<close>

definition py_get :: "pyval \<Rightarrow> string \<Rightarrow> pyval \<Rightarrow> pyval pyres" where
  "py_get d k dflt =
     (case d of
        PDict kvs \<Rightarrow> Inr (case map_of kvs k of Some v \<Rightarrow> v | None \<Rightarrow> dflt)
      | _ \<Rightarrow> Inl AttributeError)"

text \<open>\<open>d[k]\<close> with a string key: \<open>KeyError\<close> on a dict without the key,
  \<open>TypeError\<close> on a list, a string or a scalar.\<close>

definition py_getitem :: "pyval \<Rightarrow> string \<Rightarrow> pyval pyres" where
  "py_getitem d k =
     (case d of
        PDict kvs \<Rightarrow> (case map_of kvs k of Some v \<Rightarrow> Inr v | None \<Rightarrow> Inl (KeyError k))
      | _ \<Rightarrow> Inl TypeError)"

section \<open>Lemmas\<close>

lemma py_int_num: "py_int a = Some i \<Longrightarrow> py_num a = Some (of_int i)"
  by (cases a) auto

lemma py_num_cases:
  "py_num a = Some x \<Longrightarrow> (\<exists>b. a = PBool b) \<or> (\<exists>i. a = PInt i) \<or> a = PFloat x"
  by (cases a) auto

lemma py_int_None_num:
  "py_num a = Some x \<Longrightarrow> py_int a = None \<Longrightarrow> a = PFloat x"
  by (cases a) auto

text \<open>The numeric results of the operators: whatever the mix of bool, int and
  float, the result is a number with the real value of the operation.\<close>

lemma py_mul_num [py_simps]:
  assumes "py_num a = Some x" "py_num b = Some y"
  shows "\<exists>v. py_mul a b = Inr v \<and> py_num v = Some (x * y)"
  using assms by (cases a; cases b) auto

lemma py_add_num [py_simps]:
  assumes "py_num a = Some x" "py_num b = Some y"
  shows "\<exists>v. py_add a b = Inr v \<and> py_num v = Some (x + y)"
  using assms by (cases a; cases b) auto

lemma py_sub_num [py_simps]:
  assumes "py_num a = Some x" "py_num b = Some y"
  shows "\<exists>v. py_sub a b = Inr v \<and> py_num v = Some (x - y)"
  using assms by (cases a; cases b) (auto simp: py_sub_def)

lemma py_pow2_num [py_simps]:
  assumes "py_num a = Some x"
  shows "\<exists>v. py_pow2 a = Inr v \<and> py_num v = Some (x ^ 2)"
  using assms by (cases a) (auto simp: py_pow2_def)

text \<open>With a float operand the result is a float.\<close>

lemma py_mul_float [py_simps]:
  "py_num b = Some y \<Longrightarrow> py_mul (PFloat x) b = Inr (PFloat (x * y))"
  "py_num a = Some x \<Longrightarrow> py_mul a (PFloat y) = Inr (PFloat (x * y))"
  by (cases b; simp; fail) (cases a; simp)

lemma py_sub_float [py_simps]:
  "py_num a = Some x \<Longrightarrow> py_sub a (PFloat y) = Inr (PFloat (x - y))"
  by (cases a) (auto simp: py_sub_def)

lemma py_truediv_float [py_simps]:
  "py_num a = Some x \<Longrightarrow> y \<noteq> 0 \<Longrightarrow> py_truediv a (PFloat y) = Inr (PFloat (x / y))"
  by (simp add: py_truediv_def)

lemma py_round_float [py_simps]: "py_round (PFloat x) n = Inr (PFloat (round_digits n x))"
  by (simp add: py_round_def)

lemma py_or_num:
  "py_num a = Some x \<Longrightarrow> py_num (py_or a (PFloat 0)) = Some x"
  by (cases a) (auto simp: py_or_def)

end
