(* ===== verification/Calculator.thy ===== *)
theory Calculator
  imports PyValue
begin

text \<open>
  \<open>DrawnSteelCalculator\<close> (src/backend/core/analysis.py, lines 9--61): the
  deterministic geometry-to-weight engine. The class is the record
  \<open>calculator\<close> of its two constants; \<open>calculate_weight\<close> and
  \<open>calculate_from_dimensions\<close> are translated statement by statement over the
  Python value model, so that a missing key, a \<open>None\<close> in a required field
  or a string where a number belongs raises exactly what CPython raises. The
  shape-dependent blocks of \<open>calculate_from_dimensions\<close> (cutout area, wall
  area) are their own definitions. The abstract specification of the spec's
  section 4.1 is \<open>compute_weight\<close> over the record \<open>dimension_set\<close> and a
  \<open>material\<close> of configurable constants, and \<open>dims_of\<close> is the spec's
  normalisation of an extracted mapping into a dimension set.
\<close>

section \<open>The code\<close>

record calculator =
  DENSITY_G_CM3 :: real
  EFFECTIVE_THICKNESS_MM :: real

definition calculator_init :: calculator where
  "calculator_init = \<lparr>DENSITY_G_CM3 = 7.85, EFFECTIVE_THICKNESS_MM = 1.50\<rparr>"

definition calculate_weight :: "calculator \<Rightarrow> pyval \<Rightarrow> pyval pyres" where
  "calculate_weight self surface_area_mm2 =
     py_bind (py_mul surface_area_mm2 (PFloat (EFFECTIVE_THICKNESS_MM self))) (\<lambda>volume_mm3.
     py_bind (py_truediv volume_mm3 (PFloat 1000)) (\<lambda>volume_cm3.
     py_bind (py_mul volume_cm3 (PFloat (DENSITY_G_CM3 self))) (\<lambda>weight_grams.
     py_bind (py_truediv weight_grams (PFloat 1000)) (\<lambda>weight_kg.
     py_round weight_kg 3))))"

text \<open>Step 2 of \<open>calculate_from_dimensions\<close>: the cutout area.\<close>

definition cutout_area_of :: "pyval \<Rightarrow> pyval \<Rightarrow> pyval pyres" where
  "cutout_area_of dims shape_type =
     (if shape_type = PStr ''round'' then
        py_bind (py_get dims ''cutout_diameter'' PNone) (\<lambda>c_dia0.
        let c_dia = (if c_dia0 = PNone then PFloat 0 else c_dia0) in
        py_bind (py_truediv c_dia (PFloat 2)) (\<lambda>radius.
        py_bind (py_pow2 radius) (\<lambda>radius_sq.
        py_mul (PFloat pi) radius_sq)))
      else
        py_bind (py_get dims ''draw_width'' PNone) (\<lambda>dw.
        py_bind (py_get dims ''draw_height'' PNone) (\<lambda>dh.
        py_mul (py_or dw (PFloat 0)) (py_or dh (PFloat 0)))))"

text \<open>Step 3: the wall area.\<close>

definition wall_area_of :: "pyval \<Rightarrow> pyval \<Rightarrow> pyval pyres" where
  "wall_area_of dims shape_type =
     (if shape_type = PStr ''round'' then
        py_bind (py_getitem dims ''draw_diameter'') (\<lambda>draw_diameter.
        py_bind (py_mul (PFloat pi) draw_diameter) (\<lambda>circumference.
        py_bind (py_getitem dims ''draw_depth'') (\<lambda>draw_depth.
        py_mul circumference draw_depth)))
      else
        py_bind (py_get dims ''draw_width'' PNone) (\<lambda>dw.
        py_bind (py_get dims ''draw_height'' PNone) (\<lambda>dh.
        py_bind (py_add (py_or dw (PFloat 0)) (py_or dh (PFloat 0))) (\<lambda>half_perimeter.
        py_bind (py_mul (PInt 2) half_perimeter) (\<lambda>perimeter.
        py_bind (py_getitem dims ''draw_depth'') (\<lambda>draw_depth.
        py_mul perimeter draw_depth))))))"

definition calculate_from_dimensions :: "calculator \<Rightarrow> pyval \<Rightarrow> pyval pyres" where
  "calculate_from_dimensions self dims =
     py_bind (py_get dims ''shape_type'' (PStr ''rectangular'')) (\<lambda>shape_type.
     py_bind (py_getitem dims ''outer_width'') (\<lambda>outer_width.
     py_bind (py_getitem dims ''outer_height'') (\<lambda>outer_height.
     py_bind (py_mul outer_width outer_height) (\<lambda>gross_area.
     py_bind (cutout_area_of dims shape_type) (\<lambda>cutout_area.
     py_bind (wall_area_of dims shape_type) (\<lambda>wall_area.
     let overhead = PFloat 350 in
     py_bind (py_sub gross_area cutout_area) (\<lambda>a1.
     py_bind (py_add a1 wall_area) (\<lambda>a2.
     py_bind (py_sub a2 overhead) (\<lambda>net_area.
     calculate_weight self net_area)))))))))"

section \<open>The specification\<close>

datatype shape = Rectangular | Round

record dimension_set =
  ds_shape :: shape
  ds_outer_width :: real
  ds_outer_height :: real
  ds_draw_depth :: real
  ds_draw_width :: real
  ds_draw_height :: real
  ds_draw_diameter :: real
  ds_cutout_diameter :: real

record material =
  density :: real
  thickness :: real
  overhead_area :: real

definition steel :: material where
  "steel = \<lparr>density = 7.85, thickness = 1.5, overhead_area = 350\<rparr>"

definition cutout_area :: "dimension_set \<Rightarrow> real" where
  "cutout_area D =
     (case ds_shape D of
        Round \<Rightarrow> pi * (ds_cutout_diameter D / 2) ^ 2
      | Rectangular \<Rightarrow> ds_draw_width D * ds_draw_height D)"

definition wall_area :: "dimension_set \<Rightarrow> real" where
  "wall_area D =
     (case ds_shape D of
        Round \<Rightarrow> pi * ds_draw_diameter D * ds_draw_depth D
      | Rectangular \<Rightarrow> 2 * (ds_draw_width D + ds_draw_height D) * ds_draw_depth D)"

definition net_area :: "material \<Rightarrow> dimension_set \<Rightarrow> real" where
  "net_area m D =
     ds_outer_width D * ds_outer_height D - cutout_area D + wall_area D - overhead_area m"

definition compute_weight :: "material \<Rightarrow> dimension_set \<Rightarrow> real" where
  "compute_weight m D = round_digits 3 (net_area m D * thickness m / 1000 * density m / 1000)"

text \<open>Normalisation of an extracted mapping (spec sections 3 and 4.4): the
  required fields must be numbers; an optional field that is absent or
  \<open>null\<close> is 0; the fields the shape does not use are set to 0. The shape is
  \<open>Round\<close> exactly when the mapping says \<open>"round"\<close>.\<close>

fun req_field :: "pyval option \<Rightarrow> real option" where
  "req_field None = None"
| "req_field (Some v) = py_num v"

fun opt_field :: "pyval option \<Rightarrow> real option" where
  "opt_field None = Some 0"
| "opt_field (Some PNone) = Some 0"
| "opt_field (Some v) = py_num v"

fun dims_of :: "pyval \<Rightarrow> dimension_set option" where
  "dims_of (PDict kvs) = do {
     w \<leftarrow> req_field (map_of kvs ''outer_width'');
     h \<leftarrow> req_field (map_of kvs ''outer_height'');
     z \<leftarrow> req_field (map_of kvs ''draw_depth'');
     if map_of kvs ''shape_type'' = Some (PStr ''round'') then do {
       dd \<leftarrow> req_field (map_of kvs ''draw_diameter'');
       c \<leftarrow> opt_field (map_of kvs ''cutout_diameter'');
       Some \<lparr>ds_shape = Round, ds_outer_width = w, ds_outer_height = h, ds_draw_depth = z,
             ds_draw_width = 0, ds_draw_height = 0, ds_draw_diameter = dd,
             ds_cutout_diameter = c\<rparr> }
     else do {
       dw \<leftarrow> opt_field (map_of kvs ''draw_width'');
       dh \<leftarrow> opt_field (map_of kvs ''draw_height'');
       Some \<lparr>ds_shape = Rectangular, ds_outer_width = w, ds_outer_height = h, ds_draw_depth = z,
             ds_draw_width = dw, ds_draw_height = dh, ds_draw_diameter = 0,
             ds_cutout_diameter = 0\<rparr> } }"
| "dims_of _ = None"

text \<open>The mapping an extractor reports for a dimension set, every number a float.\<close>

definition dims_dict :: "dimension_set \<Rightarrow> pyval" where
  "dims_dict D = PDict
     [(''shape_type'', PStr (case ds_shape D of Round \<Rightarrow> ''round'' | Rectangular \<Rightarrow> ''rectangular'')),
      (''outer_width'', PFloat (ds_outer_width D)),
      (''outer_height'', PFloat (ds_outer_height D)),
      (''draw_depth'', PFloat (ds_draw_depth D)),
      (''draw_width'', PFloat (ds_draw_width D)),
      (''draw_height'', PFloat (ds_draw_height D)),
      (''draw_diameter'', PFloat (ds_draw_diameter D)),
      (''cutout_diameter'', PFloat (ds_cutout_diameter D))]"


text \<open>The Maclaurin polynomial of \<open>cos\<close> of degree 6, used to bound \<open>pi\<close>
  where a scenario's rounding depends on its digits.\<close>

definition cos_taylor8 :: "real \<Rightarrow> real" where
  "cos_taylor8 x = 1 - x^2/2 + x^4/24 - x^6/720"
section \<open>Lemmas\<close>

subsection \<open>Rounding\<close>

lemma round_half_even_err: "\<bar>of_int (round_half_even y) - y\<bar> \<le> 1/2"
proof -
  have "of_int \<lfloor>y\<rfloor> \<le> y" "y < of_int \<lfloor>y\<rfloor> + 1" by linarith+
  then show ?thesis by (auto simp: round_half_even_def Let_def)
qed

lemma round_half_even_of_int [simp]: "round_half_even (of_int k) = k"
  by (simp add: round_half_even_def)

lemma round_half_even_mono:
  assumes "y \<le> y'" shows "round_half_even y \<le> round_half_even y'"
proof (rule ccontr)
  assume "\<not> ?thesis"
  then have lt: "round_half_even y' + 1 \<le> round_half_even y" by simp
  have "\<bar>of_int (round_half_even y) - y\<bar> \<le> 1/2" "\<bar>of_int (round_half_even y') - y'\<bar> \<le> 1/2"
    by (rule round_half_even_err)+
  moreover have "of_int (round_half_even y') + 1 \<le> (of_int (round_half_even y) :: real)"
    using lt by linarith
  ultimately have "y = y'" using assms by linarith
  with lt show False by simp
qed

lemma round_digits_mono: "x \<le> x' \<Longrightarrow> round_digits n x \<le> round_digits n x'"
  unfolding round_digits_def
  by (intro divide_right_mono) (simp_all add: round_half_even_mono)

lemma round_digits_err: "\<bar>round_digits n x - x\<bar> \<le> 1 / (2 * 10 ^ n)"
proof -
  have p: "(0::real) < 10 ^ n" by simp
  have "\<bar>of_int (round_half_even (x * 10 ^ n)) - x * 10 ^ n\<bar> \<le> 1/2"
    by (rule round_half_even_err)
  moreover have "(round_digits n x - x) * 10 ^ n = of_int (round_half_even (x * 10 ^ n)) - x * 10 ^ n"
    using p by (simp add: round_digits_def field_simps)
  ultimately have "\<bar>round_digits n x - x\<bar> * 10 ^ n \<le> 1/2"
    by (metis abs_mult abs_of_pos p)
  then show ?thesis using p by (simp add: field_simps)
qed

lemma round_digits_idem: "round_digits n (round_digits n x) = round_digits n x"
  by (simp add: round_digits_def)

text \<open>A value within half a unit of an integer rounds to it.\<close>

lemma round_digits_nonpos: "x \<le> 0 \<Longrightarrow> round_digits n x \<le> 0"
  using round_digits_mono[of x 0 n] by (simp add: round_digits_def round_half_even_def)

lemma round_digits_neg: "x * 10 ^ n < - 1/2 \<Longrightarrow> round_digits n x < 0"
proof -
  assume a: "x * 10 ^ n < - 1/2"
  have "of_int (round_half_even (x * 10 ^ n)) < (0::real)"
    using round_half_even_err[of "x * 10 ^ n"] a by linarith
  then show ?thesis by (simp add: round_digits_def divide_neg_pos)
qed

lemma round_half_even_near:
  "of_int k - 1/2 < y \<Longrightarrow> y < of_int k + 1/2 \<Longrightarrow> round_half_even y = k"
proof -
  assume "of_int k - 1/2 < y" "y < of_int k + 1/2"
  moreover have "of_int (round_half_even y) - y \<le> 1/2 \<and> - (of_int (round_half_even y) - y) \<le> 1/2"
    using round_half_even_err[of y] by (simp only: abs_le_iff)
  ultimately have "real_of_int (round_half_even y) < of_int (k + 1)" "real_of_int (k - 1) < of_int (round_half_even y)"
    by simp_all
  then show ?thesis by (simp only: of_int_less_iff)
qed

subsection \<open>Bounds on pi\<close>

text \<open>\<open>3.1305 < pi < 3.19\<close>, from the sign of \<open>cos\<close> at 1.5653 and 1.595, each
  bounded by the degree-6 polynomial and the Lagrange remainder.\<close>

lemma cos_taylor8_sum: "(\<Sum>m<8. cos_coeff m * x ^ m) = cos_taylor8 x"
  by (simp add: cos_coeff_def lessThan_nat_numeral fact_numeral cos_taylor8_def)
lemma cos_taylor8_err: "0 < x \<Longrightarrow> \<bar>cos x - cos_taylor8 x\<bar> \<le> x ^ 8 / 40320"
proof -
  assume "0 < x"
  from Maclaurin_cos_expansion2[OF this, of 8] obtain t where
    "cos x = cos_taylor8 x + cos (t + 1/2 * real 8 * pi) / fact 8 * x ^ 8"
    by (auto simp: cos_taylor8_sum)
  moreover have "\<bar>cos (t + 1/2 * real 8 * pi) / fact 8 * x ^ 8\<bar> \<le> x ^ 8 / 40320"
    using \<open>0 < x\<close> by (simp add: abs_mult fact_numeral divide_le_cancel abs_cos_le_one)
  ultimately show ?thesis by simp
qed
lemma taylor_a: "0 < cos_taylor8 1.5653 - 1.5653 ^ 8 / 40320"
  by (simp add: cos_taylor8_def power_divide)
lemma taylor_b: "cos_taylor8 1.595 + 1.595 ^ 8 / 40320 < 0"
  by (simp add: cos_taylor8_def power_divide)
lemma pi_gt_31305: "3.1305 < pi"
proof -
  have e: "\<bar>cos 1.5653 - cos_taylor8 1.5653\<bar> \<le> 1.5653 ^ 8 / 40320" by (rule cos_taylor8_err) simp
  have "0 < cos (1.5653::real)" using e taylor_a by (simp only: abs_le_iff) linarith
  show ?thesis
  proof (rule ccontr)
    assume "\<not> 3.1305 < pi"
    then have "pi/2 \<le> 1.5653" by simp
    then have "cos (1.5653::real) \<le> cos (pi/2)"
      using pi_ge_two by (subst cos_mono_le_eq) auto
    with \<open>0 < cos 1.5653\<close> show False by simp
  qed
qed
lemma pi_lt_319: "pi < 3.19"
proof -
  have e: "\<bar>cos 1.595 - cos_taylor8 1.595\<bar> \<le> 1.595 ^ 8 / 40320" by (rule cos_taylor8_err) simp
  have "cos (1.595::real) < 0" using e taylor_b by (simp only: abs_le_iff) linarith
  show ?thesis
  proof (rule ccontr)
    assume "\<not> pi < 3.19"
    then have "1.595 \<le> pi/2" by simp
    then have "0 \<le> cos (1.595::real)" using pi_ge_two by (intro cos_ge_zero) auto
    with \<open>cos 1.595 < 0\<close> show False by simp
  qed
qed
subsection \<open>Numeric evaluation of the steps\<close>

lemma req_field_Some: "req_field m = Some x \<longleftrightarrow> (\<exists>v. m = Some v \<and> py_num v = Some x)"
  by (cases m) auto

lemma opt_field_or:
  "opt_field m = Some a \<Longrightarrow> py_num (py_or (case m of Some v \<Rightarrow> v | None \<Rightarrow> PNone) (PFloat 0)) = Some a"
proof (cases m)
  case (Some v)
  assume o: "opt_field m = Some a"
  show ?thesis
  proof (cases "v = PNone")
    case False
    with o Some have "py_num v = Some a" by (cases v) auto
    with Some show ?thesis by (simp add: py_or_num)
  qed (use o Some in \<open>simp add: py_or_def\<close>)
qed (simp add: py_or_def)

lemma calculate_weight_num:
  "py_num v = Some x \<Longrightarrow> calculate_weight self v =
     Inr (PFloat (round_digits 3 (x * EFFECTIVE_THICKNESS_MM self / 1000 * DENSITY_G_CM3 self / 1000)))"
  by (simp add: calculate_weight_def py_simps py_truediv_def)

lemma cutout_round_num:
  assumes "opt_field (map_of kvs ''cutout_diameter'') = Some c"
  shows "\<exists>v. cutout_area_of (PDict kvs) (PStr ''round'') = Inr v \<and> py_num v = Some (pi * (c / 2) ^ 2)"
proof (cases "map_of kvs ''cutout_diameter''")
  case None
  with assms show ?thesis by (simp add: cutout_area_of_def py_get_def py_pow2_def py_simps)
next
  case (Some v)
  show ?thesis
  proof (cases "v = PNone")
    case True
    with Some assms show ?thesis by (simp add: cutout_area_of_def py_get_def py_pow2_def py_simps)
  next
    case False
    with Some assms have "py_num v = Some c" by (cases v) auto
    with Some False show ?thesis by (simp add: cutout_area_of_def py_get_def py_pow2_def py_simps)
  qed
qed

lemma cutout_rect_num:
  assumes "st \<noteq> PStr ''round''"
    and "opt_field (map_of kvs ''draw_width'') = Some a" "opt_field (map_of kvs ''draw_height'') = Some b"
  shows "\<exists>v. cutout_area_of (PDict kvs) st = Inr v \<and> py_num v = Some (a * b)"
  using assms opt_field_or[OF assms(2)] opt_field_or[OF assms(3)] py_mul_num
  by (simp add: cutout_area_of_def py_get_def)

lemma wall_round_num:
  assumes "req_field (map_of kvs ''draw_diameter'') = Some dd" "req_field (map_of kvs ''draw_depth'') = Some z"
  shows "\<exists>v. wall_area_of (PDict kvs) (PStr ''round'') = Inr v \<and> py_num v = Some (pi * dd * z)"
  using assms by (auto simp: req_field_Some wall_area_of_def py_getitem_def py_simps)

lemma wall_rect_num:
  assumes "st \<noteq> PStr ''round''"
    and "opt_field (map_of kvs ''draw_width'') = Some a" "opt_field (map_of kvs ''draw_height'') = Some b"
    and "req_field (map_of kvs ''draw_depth'') = Some z"
  shows "\<exists>v. wall_area_of (PDict kvs) st = Inr v \<and> py_num v = Some (2 * (a + b) * z)"
proof -
  obtain s where s: "py_add (py_or (case map_of kvs ''draw_width'' of Some v \<Rightarrow> v | None \<Rightarrow> PNone) (PFloat 0))
      (py_or (case map_of kvs ''draw_height'' of Some v \<Rightarrow> v | None \<Rightarrow> PNone) (PFloat 0)) = Inr s"
      "py_num s = Some (a + b)"
    using py_add_num[OF opt_field_or[OF assms(2)] opt_field_or[OF assms(3)]] by blast
  obtain p where p: "py_mul (PInt 2) s = Inr p" "py_num p = Some (2 * (a + b))"
    using py_mul_num[of "PInt 2" 2 s] s(2) by auto
  obtain dv where dv: "map_of kvs ''draw_depth'' = Some dv" "py_num dv = Some z"
    using assms(4) by (auto simp: req_field_Some)
  obtain w where "py_mul p dv = Inr w" "py_num w = Some (2 * (a + b) * z)"
    using py_mul_num[OF p(2) dv(2)] by blast
  with assms(1) s p dv show ?thesis
    by (simp add: wall_area_of_def py_get_def py_getitem_def)
qed

lemma calculate_from_dimensions_num:
  assumes "py_get dims ''shape_type'' (PStr ''rectangular'') = Inr st"
    and "py_getitem dims ''outer_width'' = Inr a" "py_num a = Some w"
    and "py_getitem dims ''outer_height'' = Inr b" "py_num b = Some h"
    and "cutout_area_of dims st = Inr c" "py_num c = Some cc"
    and "wall_area_of dims st = Inr l" "py_num l = Some ll"
  shows "calculate_from_dimensions self dims = Inr (PFloat (round_digits 3
           ((w * h - cc + ll - 350) * EFFECTIVE_THICKNESS_MM self / 1000 * DENSITY_G_CM3 self / 1000)))"
proof -
  obtain g where g: "py_mul a b = Inr g" "py_num g = Some (w * h)"
    using py_mul_num[OF assms(3,5)] by blast
  obtain a1 where a1: "py_sub g c = Inr a1" "py_num a1 = Some (w * h - cc)"
    using py_sub_num[OF g(2) assms(7)] by blast
  obtain a2 where a2: "py_add a1 l = Inr a2" "py_num a2 = Some (w * h - cc + ll)"
    using py_add_num[OF a1(2) assms(9)] by blast
  show ?thesis
    using assms g a1 a2
    by (simp add: calculate_from_dimensions_def py_sub_float calculate_weight_num)
qed

lemma calculate_from_dimensions_dims_of:
  assumes "dims_of d = Some D"
  shows "calculate_from_dimensions calculator_init d = Inr (PFloat (compute_weight steel D))"
proof -
  obtain kvs where d: "d = PDict kvs" using assms by (cases d) auto
  obtain w h z where req: "req_field (map_of kvs ''outer_width'') = Some w"
      "req_field (map_of kvs ''outer_height'') = Some h" "req_field (map_of kvs ''draw_depth'') = Some z"
    using assms d by (auto split: Option.bind_splits)
  obtain a b where ab: "map_of kvs ''outer_width'' = Some a" "py_num a = Some w"
      "map_of kvs ''outer_height'' = Some b" "py_num b = Some h"
    using req(1,2) by (auto simp: req_field_Some)
  show ?thesis
  proof (cases "map_of kvs ''shape_type'' = Some (PStr ''round'')")
    case True
    obtain dd c where f: "req_field (map_of kvs ''draw_diameter'') = Some dd"
        "opt_field (map_of kvs ''cutout_diameter'') = Some c"
      and D: "D = \<lparr>ds_shape = Round, ds_outer_width = w, ds_outer_height = h, ds_draw_depth = z,
             ds_draw_width = 0, ds_draw_height = 0, ds_draw_diameter = dd, ds_cutout_diameter = c\<rparr>"
      using assms d req True by (auto split: Option.bind_splits)
    obtain cv where cv: "cutout_area_of (PDict kvs) (PStr ''round'') = Inr cv" "py_num cv = Some (pi * (c / 2) ^ 2)"
      using cutout_round_num[OF f(2)] by blast
    obtain lv where lv: "wall_area_of (PDict kvs) (PStr ''round'') = Inr lv" "py_num lv = Some (pi * dd * z)"
      using wall_round_num[OF f(1) req(3)] by blast
    show ?thesis
      using calculate_from_dimensions_num[OF _ _ ab(2) _ ab(4) cv lv] True ab
      by (simp add: d D py_get_def py_getitem_def calculator_init_def steel_def compute_weight_def
          net_area_def cutout_area_def wall_area_def)
  next
    case False
    define st where "st = (case map_of kvs ''shape_type'' of Some v \<Rightarrow> v | None \<Rightarrow> PStr ''rectangular'')"
    have st: "st \<noteq> PStr ''round''" using False by (auto simp: st_def split: option.splits)
    obtain dw dh where f: "opt_field (map_of kvs ''draw_width'') = Some dw"
        "opt_field (map_of kvs ''draw_height'') = Some dh"
      and D: "D = \<lparr>ds_shape = Rectangular, ds_outer_width = w, ds_outer_height = h, ds_draw_depth = z,
             ds_draw_width = dw, ds_draw_height = dh, ds_draw_diameter = 0, ds_cutout_diameter = 0\<rparr>"
      using assms d req False by (auto split: Option.bind_splits)
    obtain cv where cv: "cutout_area_of (PDict kvs) st = Inr cv" "py_num cv = Some (dw * dh)"
      using cutout_rect_num[OF st f] by blast
    obtain lv where lv: "wall_area_of (PDict kvs) st = Inr lv" "py_num lv = Some (2 * (dw + dh) * z)"
      using wall_rect_num[OF st f req(3)] by blast
    have "py_get (PDict kvs) ''shape_type'' (PStr ''rectangular'') = Inr st"
      by (simp add: py_get_def st_def)
    then show ?thesis
      using calculate_from_dimensions_num[OF _ _ ab(2) _ ab(4) cv lv] ab
      by (simp add: d D py_getitem_def calculator_init_def steel_def compute_weight_def
          net_area_def cutout_area_def wall_area_def)
  qed
qed


subsection \<open>Evaluation and shared facts\<close>

lemmas calc_eval = calculate_from_dimensions_def cutout_area_of_def wall_area_of_def py_get_def
  py_getitem_def py_or_def py_sub_def calculate_weight_def calculator_init_def py_truediv_def
  py_round_def py_pow2_def Let_def

lemma wall_rect_perimeter:
  assumes "st \<noteq> PStr ''round''"
    and "opt_field (map_of kvs ''draw_width'') = Some a" "opt_field (map_of kvs ''draw_height'') = Some b"
  shows "\<exists>p. py_num p = Some (2 * (a + b)) \<and>
           wall_area_of (PDict kvs) st = py_bind (py_getitem (PDict kvs) ''draw_depth'') (py_mul p)"
proof -
  obtain s where s: "py_add (py_or (case map_of kvs ''draw_width'' of Some v \<Rightarrow> v | None \<Rightarrow> PNone) (PFloat 0))
      (py_or (case map_of kvs ''draw_height'' of Some v \<Rightarrow> v | None \<Rightarrow> PNone) (PFloat 0)) = Inr s"
      "py_num s = Some (a + b)"
    using py_add_num[OF opt_field_or[OF assms(2)] opt_field_or[OF assms(3)]] by blast
  obtain p where p: "py_mul (PInt 2) s = Inr p" "py_num p = Some (2 * (a + b))"
    using py_mul_num[of "PInt 2" 2 s] s(2) by auto
  show ?thesis
    using assms(1) s p by (auto simp: wall_area_of_def py_get_def)
qed

lemma dims_of_dims_dict:
  "\<exists>D'. dims_of (dims_dict D) = Some D' \<and> net_area m D' = net_area m D \<and> ds_shape D' = ds_shape D"
  by (cases "ds_shape D")
     (auto simp: dims_dict_def net_area_def cutout_area_def wall_area_def)

lemma compute_weight_mono_net:
  "net_area steel D \<le> net_area steel D' \<Longrightarrow> compute_weight steel D \<le> compute_weight steel D'"
  unfolding compute_weight_def steel_def
  by (rule round_digits_mono) (simp add: divide_right_mono)

lemma compute_weight_net_eq:
  "net_area m D = net_area m D' \<Longrightarrow> compute_weight m D = compute_weight m D'"
  by (simp add: compute_weight_def)

lemma area_steps_non_round:
  "st \<noteq> PStr ''round'' \<Longrightarrow> cutout_area_of d st = cutout_area_of d (PStr ''rectangular'')"
  "st \<noteq> PStr ''round'' \<Longrightarrow> wall_area_of d st = wall_area_of d (PStr ''rectangular'')"
  by (simp_all add: cutout_area_of_def wall_area_of_def)

lemma area_steps_shape_key:
  "cutout_area_of (PDict ((''shape_type'', v) # kvs)) st = cutout_area_of (PDict kvs) st"
  "wall_area_of (PDict ((''shape_type'', v) # kvs)) st = wall_area_of (PDict kvs) st"
  by (simp_all add: cutout_area_of_def wall_area_of_def py_get_def py_getitem_def)

lemma py_truediv_float_result: "py_truediv a b = Inr v \<Longrightarrow> \<exists>x. v = PFloat x"
  by (auto simp: py_truediv_def split: option.splits if_splits)

lemma calculate_weight_float: "calculate_weight self a = Inr v \<Longrightarrow> \<exists>x. v = PFloat x"
  by (auto simp: calculate_weight_def py_round_def dest!: py_truediv_float_result)

lemma calculate_from_dimensions_weight:
  "calculate_from_dimensions self d = Inr v \<Longrightarrow> \<exists>a. calculate_weight self a = Inr v"
  by (auto simp: calculate_from_dimensions_def Let_def)

section \<open>Properties\<close>

text \<open>C1 (refinement): on every extracted mapping that normalises to a dimension set, \<open>calculate_from_dimensions\<close> of the freshly constructed calculator returns the float the specification's formula gives for steel, whatever mix of Python ints, bools and floats the mapping holds.\<close>

theorem calculate_from_dimensions_refines:
  "dims_of d = Some D \<Longrightarrow> calculate_from_dimensions calculator_init d = Inr (PFloat (compute_weight steel D))"
  by (rule calculate_from_dimensions_dims_of)

theorem calculate_from_dimensions_refines_witness:
  "dims_of (PDict [(''outer_width'', PInt 100), (''outer_height'', PFloat 80), (''draw_depth'', PInt 10)]) =
     Some \<lparr>ds_shape = Rectangular, ds_outer_width = 100, ds_outer_height = 80, ds_draw_depth = 10,
           ds_draw_width = 0, ds_draw_height = 0, ds_draw_diameter = 0, ds_cutout_diameter = 0\<rparr> \<and>
   calculate_from_dimensions calculator_init
     (PDict [(''outer_width'', PInt 100), (''outer_height'', PFloat 80), (''draw_depth'', PInt 10)]) =
   Inr (PFloat (compute_weight steel \<lparr>ds_shape = Rectangular, ds_outer_width = 100, ds_outer_height = 80,
     ds_draw_depth = 10, ds_draw_width = 0, ds_draw_height = 0, ds_draw_diameter = 0, ds_cutout_diameter = 0\<rparr>))"
proof -
  have h: "dims_of (PDict [(''outer_width'', PInt 100), (''outer_height'', PFloat 80), (''draw_depth'', PInt 10)]) =
     Some \<lparr>ds_shape = Rectangular, ds_outer_width = 100, ds_outer_height = 80, ds_draw_depth = 10,
           ds_draw_width = 0, ds_draw_height = 0, ds_draw_diameter = 0, ds_cutout_diameter = 0\<rparr>"
    by simp
  show ?thesis using h calculate_from_dimensions_refines[OF h] by simp
qed

text \<open>C2 (functional): the spec's round scenario (150 x 150 outer, draw
  diameter 80, depth 20, cutout diameter 30, all JSON integers) yields
  0.312 kg: the exact mass \<open>(22150 + 1375 pi) 0.011775 / 1000\<close> kg lies
  within half a gram of 0.312 kg.\<close>

theorem round_scenario_weight:
  "calculate_from_dimensions calculator_init
     (PDict [(''outer_width'', PInt 150), (''outer_height'', PInt 150), (''shape_type'', PStr ''round''),
             (''draw_diameter'', PInt 80), (''draw_depth'', PInt 20), (''cutout_diameter'', PInt 30)]) =
   Inr (PFloat 0.312)"
proof -
  have "round_half_even ((10432650000 + 647625000 * pi) / 40000000) = 312"
    using pi_gt_31305 pi_lt_319 by (intro round_half_even_near) simp_all
  then show ?thesis by (simp add: calc_eval round_digits_def)
qed

text \<open>C3 (type): whatever the calculator's constants and the extracted
  mapping, \<open>calculate_from_dimensions\<close> returns a Python float when it
  returns: \<open>round(x, 3)\<close> is applied to the result of a true division, never
  to an int, even when every dimension is a JSON integer.\<close>

theorem calculate_from_dimensions_float:
  "calculate_from_dimensions self d = Inr v \<Longrightarrow> \<exists>x. v = PFloat x"
  by (blast dest: calculate_from_dimensions_weight calculate_weight_float)

theorem calculate_from_dimensions_float_witness:
  "\<exists>x. PFloat 0.085 = PFloat x"
proof -
  have "calculate_from_dimensions calculator_init
     (PDict [(''outer_width'', PInt 100), (''outer_height'', PInt 80), (''shape_type'', PStr ''rectangular''),
             (''draw_width'', PInt 60), (''draw_height'', PInt 40), (''draw_depth'', PInt 10)]) =
   Inr (PFloat 0.085)"
    by (simp add: calc_eval round_digits_def round_half_even_def)
  then show ?thesis by (rule calculate_from_dimensions_float)
qed
text \<open>C4 (functional): for a rectangular part with non-negative draw width and height, a deeper draw never gives a smaller computed weight.\<close>

theorem weight_mono_draw_depth:
  assumes "ds_shape D = Rectangular" "0 \<le> ds_draw_width D" "0 \<le> ds_draw_height D" "ds_draw_depth D \<le> z'"
  shows "\<exists>w w'. calculate_from_dimensions calculator_init (dims_dict D) = Inr (PFloat w) \<and>
           calculate_from_dimensions calculator_init (dims_dict (D\<lparr>ds_draw_depth := z'\<rparr>)) = Inr (PFloat w') \<and>
           w \<le> w'"
proof -
  obtain D1 where D1: "dims_of (dims_dict D) = Some D1" "net_area steel D1 = net_area steel D"
    using dims_of_dims_dict by blast
  obtain D2 where D2: "dims_of (dims_dict (D\<lparr>ds_draw_depth := z'\<rparr>)) = Some D2"
      "net_area steel D2 = net_area steel (D\<lparr>ds_draw_depth := z'\<rparr>)"
    using dims_of_dims_dict by blast
  have "2 * (ds_draw_width D + ds_draw_height D) * ds_draw_depth D \<le> 2 * (ds_draw_width D + ds_draw_height D) * z'"
    using assms(2-4) by (simp add: mult_left_mono)
  then have "net_area steel D \<le> net_area steel (D\<lparr>ds_draw_depth := z'\<rparr>)"
    using assms(1) by (simp add: net_area_def cutout_area_def wall_area_def)
  then have "compute_weight steel D1 \<le> compute_weight steel D2"
    using D1(2) D2(2) by (simp add: compute_weight_mono_net)
  then show ?thesis
    using calculate_from_dimensions_dims_of[OF D1(1)] calculate_from_dimensions_dims_of[OF D2(1)] by blast
qed

theorem weight_mono_draw_depth_witness:
  "\<exists>w w'. calculate_from_dimensions calculator_init (dims_dict \<lparr>ds_shape = Rectangular, ds_outer_width = 100,
       ds_outer_height = 80, ds_draw_depth = 10, ds_draw_width = 60, ds_draw_height = 40, ds_draw_diameter = 0,
       ds_cutout_diameter = 0\<rparr>) = Inr (PFloat w) \<and>
     calculate_from_dimensions calculator_init (dims_dict (\<lparr>ds_shape = Rectangular, ds_outer_width = 100,
       ds_outer_height = 80, ds_draw_depth = 10, ds_draw_width = 60, ds_draw_height = 40, ds_draw_diameter = 0,
       ds_cutout_diameter = 0\<rparr>\<lparr>ds_draw_depth := 20\<rparr>)) = Inr (PFloat w') \<and> w \<le> w'"
  by (rule weight_mono_draw_depth) simp_all

text \<open>A flat rectangular blank (depth 0, no draw or cutout fields) weighs the gross area minus the overhead, scaled by thickness and density and rounded to three decimals.\<close>

theorem flat_blank_weight:
  "calculate_from_dimensions calculator_init
     (PDict [(''outer_width'', PFloat w), (''outer_height'', PFloat h), (''draw_depth'', PFloat 0)]) =
   Inr (PFloat (round_digits 3 ((w * h - 350) * 1.5 / 1000 * 7.85 / 1000)))"
  by (simp add: calc_eval)

text \<open>A mapping without \<open>outer_width\<close> raises \<open>KeyError('outer_width')\<close>, whatever else it holds.\<close>

theorem missing_outer_width_key_error:
  "map_of kvs ''outer_width'' = None \<Longrightarrow>
   calculate_from_dimensions self (PDict kvs) = Inl (KeyError ''outer_width'')"
  by (simp add: calculate_from_dimensions_def py_get_def py_getitem_def)

theorem missing_outer_width_key_error_witness:
  "map_of [(''outer_height'', PInt 80), (''draw_depth'', PInt 10)] ''outer_width'' = None \<and>
   calculate_from_dimensions calculator_init (PDict [(''outer_height'', PInt 80), (''draw_depth'', PInt 10)]) =
     Inl (KeyError ''outer_width'')"
  using missing_outer_width_key_error[of "[(''outer_height'', PInt 80), (''draw_depth'', PInt 10)]"] by simp

text \<open>A rectangular mapping with numeric outer dimensions and usable draw fields but no \<open>draw_depth\<close> raises \<open>KeyError('draw_depth')\<close>.\<close>

theorem missing_draw_depth_key_error:
  assumes "map_of kvs ''draw_depth'' = None" "map_of kvs ''shape_type'' \<noteq> Some (PStr ''round'')"
    and "req_field (map_of kvs ''outer_width'') = Some w" "req_field (map_of kvs ''outer_height'') = Some h"
    and "opt_field (map_of kvs ''draw_width'') = Some a" "opt_field (map_of kvs ''draw_height'') = Some b"
  shows "calculate_from_dimensions self (PDict kvs) = Inl (KeyError ''draw_depth'')"
proof -
  define st where "st = (case map_of kvs ''shape_type'' of Some v \<Rightarrow> v | None \<Rightarrow> PStr ''rectangular'')"
  have st: "st \<noteq> PStr ''round''" using assms(2) by (auto simp: st_def split: option.splits)
  obtain ov hv where o: "map_of kvs ''outer_width'' = Some ov" "py_num ov = Some w"
      "map_of kvs ''outer_height'' = Some hv" "py_num hv = Some h"
    using assms(3,4) by (auto simp: req_field_Some)
  obtain g where g: "py_mul ov hv = Inr g" "py_num g = Some (w * h)"
    using py_mul_num[OF o(2,4)] by blast
  obtain cv where cv: "cutout_area_of (PDict kvs) st = Inr cv" "py_num cv = Some (a * b)"
    using cutout_rect_num[OF st assms(5,6)] by blast
  obtain p where "wall_area_of (PDict kvs) st = py_bind (py_getitem (PDict kvs) ''draw_depth'') (py_mul p)"
    using wall_rect_perimeter[OF st assms(5,6)] by blast
  then have "wall_area_of (PDict kvs) st = Inl (KeyError ''draw_depth'')"
    using assms(1) by (simp add: py_getitem_def)
  then show ?thesis
    using o g cv by (simp add: calculate_from_dimensions_def py_get_def py_getitem_def st_def[symmetric])
qed

theorem missing_draw_depth_key_error_witness:
  "calculate_from_dimensions calculator_init
     (PDict [(''outer_width'', PInt 100), (''outer_height'', PInt 80), (''draw_width'', PInt 60)]) =
   Inl (KeyError ''draw_depth'')"
  by (rule missing_draw_depth_key_error[where w = 100 and h = 80 and a = 60 and b = 0]) simp_all

text \<open>C5 (functional): any \<open>shape_type\<close> other than the exact string \<open>'round'\<close> (absent, null, \<open>'Round'\<close>, \<open>'square'\<close>) is computed as a rectangular part; no UnknownShapeType error exists in the code.\<close>

theorem non_round_shape_is_rectangular:
  assumes "map_of kvs ''shape_type'' \<noteq> Some (PStr ''round'')"
  shows "calculate_from_dimensions self (PDict kvs) =
         calculate_from_dimensions self (PDict ((''shape_type'', PStr ''rectangular'') # kvs))"
proof -
  have "(case map_of kvs ''shape_type'' of Some v \<Rightarrow> v | None \<Rightarrow> PStr ''rectangular'') \<noteq> PStr ''round''"
    using assms by (auto split: option.split)
  from area_steps_non_round[OF this] show ?thesis
    by (simp add: calculate_from_dimensions_def py_get_def py_getitem_def area_steps_shape_key)
qed

theorem non_round_shape_is_rectangular_witness:
  "calculate_from_dimensions calculator_init
     (PDict [(''shape_type'', PStr ''Round''), (''outer_width'', PInt 150), (''outer_height'', PInt 150),
             (''draw_depth'', PInt 20), (''draw_diameter'', PInt 80), (''cutout_diameter'', PInt 30)]) =
   calculate_from_dimensions calculator_init
     (PDict [(''shape_type'', PStr ''rectangular''), (''shape_type'', PStr ''Round''), (''outer_width'', PInt 150),
             (''outer_height'', PInt 150), (''draw_depth'', PInt 20), (''draw_diameter'', PInt 80),
             (''cutout_diameter'', PInt 30)])"
  by (rule non_round_shape_is_rectangular) simp

text \<open>An optional field given as JSON null counts as 0.0: \<open>draw_width\<close> and \<open>cutout_diameter\<close> set to null give the same result as set to 0.0.\<close>

theorem null_optional_as_zero:
  "calculate_from_dimensions self (PDict ((''draw_width'', PNone) # kvs)) =
     calculate_from_dimensions self (PDict ((''draw_width'', PFloat 0) # kvs)) \<and>
   calculate_from_dimensions self (PDict ((''cutout_diameter'', PNone) # kvs)) =
     calculate_from_dimensions self (PDict ((''cutout_diameter'', PFloat 0) # kvs))"
  by (simp add: calculate_from_dimensions_def cutout_area_of_def wall_area_of_def py_get_def py_getitem_def
      py_or_def)

text \<open>C6 (error): a required field present but null (\<open>outer_width\<close>) raises TypeError, not a missing-field error.\<close>

theorem null_required_type_error:
  "map_of kvs ''outer_width'' = Some PNone \<Longrightarrow> map_of kvs ''outer_height'' = Some v \<Longrightarrow>
   calculate_from_dimensions self (PDict kvs) = Inl TypeError"
  by (cases v) (simp_all add: calculate_from_dimensions_def py_get_def py_getitem_def)

theorem null_required_type_error_witness:
  "calculate_from_dimensions calculator_init
     (PDict [(''outer_width'', PNone), (''outer_height'', PInt 80), (''draw_depth'', PInt 10)]) = Inl TypeError"
  by (rule null_required_type_error[where v = "PInt 80"]) simp_all

text \<open>C7 (functional): the net area is not clamped at zero: on every mapping that normalises to a dimension set with a negative net area the code reports a weight of at most 0 kg, and a negative weight once the deficit exceeds 43 mm^2 (half a gram after rounding).\<close>

theorem negative_net_area_not_clamped:
  assumes "dims_of d = Some D" "net_area steel D < 0"
  shows "\<exists>w. calculate_from_dimensions calculator_init d = Inr (PFloat w) \<and> w \<le> 0 \<and>
             (net_area steel D \<le> -43 \<longrightarrow> w < 0)"
proof -
  have "compute_weight steel D \<le> 0"
    using assms(2) by (simp add: compute_weight_def steel_def round_digits_nonpos)
  moreover have "net_area steel D \<le> -43 \<Longrightarrow> compute_weight steel D < 0"
    by (simp add: compute_weight_def steel_def round_digits_neg)
  ultimately show ?thesis using calculate_from_dimensions_dims_of[OF assms(1)] by blast
qed

theorem negative_net_area_not_clamped_witness:
  "\<exists>w. calculate_from_dimensions calculator_init
     (PDict [(''outer_width'', PInt 10), (''outer_height'', PInt 10), (''draw_depth'', PInt 0)]) = Inr (PFloat w) \<and>
     w < 0"
proof -
  have d: "dims_of (PDict [(''outer_width'', PInt 10), (''outer_height'', PInt 10), (''draw_depth'', PInt 0)]) =
     Some \<lparr>ds_shape = Rectangular, ds_outer_width = 10, ds_outer_height = 10, ds_draw_depth = 0,
           ds_draw_width = 0, ds_draw_height = 0, ds_draw_diameter = 0, ds_cutout_diameter = 0\<rparr>"
    by simp
  have n: "net_area steel \<lparr>ds_shape = Rectangular, ds_outer_width = 10, ds_outer_height = 10, ds_draw_depth = 0,
           ds_draw_width = 0, ds_draw_height = 0, ds_draw_diameter = 0, ds_cutout_diameter = 0\<rparr> = -250"
    by (simp add: net_area_def steel_def cutout_area_def wall_area_def)
  show ?thesis using negative_net_area_not_clamped[OF d] n by auto
qed

end
