(* ===== verification/Orchestrator.thy ===== *)
theory Orchestrator
  imports PyValue "HOL-Library.Sublist"
begin

text \<open>
  \<open>extract_dimensions_with_gemini\<close> (src/backend/core/analysis.py, lines
  64--139): the ordered fallback over four Gemini models. The collaborators
  are an explicit environment: whether \<open>genai.Client\<close> accepts the key, what
  \<open>generate_content\<close> does for each model name (raise with a message, or
  return a response whose \<open>text\<close> is None or a string), and \<open>json.loads\<close>
  (a value, or the message of its \<open>JSONDecodeError\<close>). \<open>Image.open\<close> reads an
  explicit file store. Each model is called once per run, so a function of the
  model name is a faithful record of the responses. The diagnostic prints
  become the attempt trace the function returns. The spec's state machine
  (section 4.2) is the step relation \<open>orch_step\<close>; \<open>try_models\<close> is shown to
  compute its unique terminal state, and \<open>first_success\<close> is the reference
  "first success wins" definition it is equivalent to.
\<close>

section \<open>Files and collaborators\<close>

text \<open>A file on disk as far as the program can tell: a PDF with its page
  count, a raster image PIL can open, or anything else.\<close>

datatype disk_file = PdfDoc nat | RasterImage | OtherFile

type_synonym fstore = "string \<Rightarrow> disk_file option"

definition image_opens :: "fstore \<Rightarrow> string \<Rightarrow> bool" where
  "image_opens fs p \<longleftrightarrow> fs p = Some RasterImage"

datatype gen_outcome = GenRaise string | GenText "string option"

record vision_env =
  client_ok :: "string option \<Rightarrow> bool"
  generate :: "string \<Rightarrow> gen_outcome"
  json_loads :: "string \<Rightarrow> string + pyval"

text \<open>The classification each attempt prints.\<close>

datatype attempt = Parsed | EmptyText | QuotaLimit | ModelNotFound | OtherError string

type_synonym attempt_log = "(string \<times> attempt) list"

section \<open>The code\<close>

definition models_to_try :: "string list" where
  "models_to_try =
     [''gemini-2.0-flash'', ''gemini-2.0-flash-lite-preview-02-05'', ''gemini-2.5-flash'',
      ''gemini-flash-latest'']"

definition clean_response :: "string \<Rightarrow> string" where
  "clean_response text = py_strip (py_replace (py_replace text ''```json'' []) ''```'' [])"

definition classify_error :: "string \<Rightarrow> attempt" where
  "classify_error error_str =
     (if py_in ''429'' error_str then QuotaLimit
      else if py_in ''404'' error_str then ModelNotFound
      else OtherError error_str)"

text \<open>The \<open>for model_name in models_to_try\<close> loop. A parse error raised by
  \<open>json.loads\<close> is caught by the same \<open>except Exception\<close> as a service error.\<close>

fun try_models :: "vision_env \<Rightarrow> string list \<Rightarrow> attempt_log \<times> pyval" where
  "try_models env [] = ([], PDict [])"
| "try_models env (model_name # ms) =
     (let next = (\<lambda>a. let (trace, r) = try_models env ms in ((model_name, a) # trace, r)) in
      case generate env model_name of
        GenRaise e \<Rightarrow> next (classify_error e)
      | GenText None \<Rightarrow> next EmptyText
      | GenText (Some text) \<Rightarrow>
          if text = [] then next EmptyText
          else (case json_loads env (clean_response text) of
                  Inr v \<Rightarrow> ([(model_name, Parsed)], v)
                | Inl e \<Rightarrow> next (classify_error e)))"

definition strip_key :: "string option \<Rightarrow> string option" where
  "strip_key api_key = (case api_key of Some k \<Rightarrow> if k \<noteq> [] then Some (py_strip k) else Some k | None \<Rightarrow> None)"

definition extract_dimensions_with_gemini ::
  "vision_env \<Rightarrow> fstore \<Rightarrow> string \<Rightarrow> string option \<Rightarrow> attempt_log \<times> pyval" where
  "extract_dimensions_with_gemini env fs image_path api_key =
     (if \<not> client_ok env (strip_key api_key) then ([], PDict [])
      else if \<not> image_opens fs image_path then ([], PDict [])
      else try_models env models_to_try)"

section \<open>The specification\<close>

text \<open>One attempt on its own: its classification and, on success, the parsed value.\<close>

definition attempt_of :: "vision_env \<Rightarrow> string \<Rightarrow> attempt \<times> pyval option" where
  "attempt_of env m =
     (case generate env m of
        GenRaise e \<Rightarrow> (classify_error e, None)
      | GenText None \<Rightarrow> (EmptyText, None)
      | GenText (Some text) \<Rightarrow>
          if text = [] then (EmptyText, None)
          else (case json_loads env (clean_response text) of
                  Inr v \<Rightarrow> (Parsed, Some v)
                | Inl e \<Rightarrow> (classify_error e, None)))"

definition fails :: "vision_env \<Rightarrow> string \<Rightarrow> bool" where
  "fails env m \<longleftrightarrow> snd (attempt_of env m) = None"

text \<open>First success wins: the models tried are the failing prefix and the
  first success; the result is that success's value, or \<open>{}\<close>.\<close>

definition first_success :: "vision_env \<Rightarrow> string list \<Rightarrow> attempt_log \<times> pyval" where
  "first_success env ms =
     (let failed = takeWhile (fails env) ms; rest = dropWhile (fails env) ms in
      (map (\<lambda>m. (m, fst (attempt_of env m))) (failed @ take 1 rest),
       case rest of [] \<Rightarrow> PDict [] | m # _ \<Rightarrow> (case snd (attempt_of env m) of Some v \<Rightarrow> v | None \<Rightarrow> PDict [])))"

text \<open>The state machine of the spec: \<open>Pending \<rightarrow> TryModel\<^sub>i* \<rightarrow> Succeeded | Exhausted\<close>.\<close>

datatype ostate =
    Running "string list" attempt_log
  | Succeeded attempt_log pyval
  | Exhausted attempt_log

inductive orch_step :: "vision_env \<Rightarrow> ostate \<Rightarrow> ostate \<Rightarrow> bool" for env where
  fail: "attempt_of env m = (a, None) \<Longrightarrow>
     orch_step env (Running (m # ms) trace) (Running ms (trace @ [(m, a)]))"
| succeed: "attempt_of env m = (a, Some v) \<Longrightarrow>
     orch_step env (Running (m # ms) trace) (Succeeded (trace @ [(m, a)]) v)"
| exhaust: "orch_step env (Running [] trace) (Exhausted trace)"

fun terminal :: "ostate \<Rightarrow> bool" where
  "terminal (Running _ _) = False"
| "terminal _ = True"

fun state_log :: "ostate \<Rightarrow> attempt_log" where
  "state_log (Running _ trace) = trace"
| "state_log (Succeeded trace _) = trace"
| "state_log (Exhausted trace) = trace"

fun outcome_of :: "ostate \<Rightarrow> attempt_log \<times> pyval" where
  "outcome_of (Running _ trace) = (trace, PDict [])"
| "outcome_of (Succeeded trace v) = (trace, v)"
| "outcome_of (Exhausted trace) = (trace, PDict [])"


text \<open>The invariant of every reachable state: the trace names the models tried,
  in list order, each once, and the models still to try are the rest.\<close>

fun orch_inv :: "string list \<Rightarrow> ostate \<Rightarrow> bool" where
  "orch_inv ms (Running rest trace) = (map fst trace @ rest = ms)"
| "orch_inv ms (Succeeded trace v) = prefix (map fst trace) ms"
| "orch_inv ms (Exhausted trace) = (map fst trace = ms)"

text \<open>The number of steps a state can still take.\<close>

fun ostate_measure :: "ostate \<Rightarrow> nat" where
  "ostate_measure (Running ms trace) = Suc (length ms)"
| "ostate_measure _ = 0"

text \<open>A concrete run for the scenarios of the spec's section 8: the first
  model answers prose, the second hits its quota, the third is not found and
  the fourth answers fenced JSON. \<open>json.loads\<close> is stubbed to accept exactly
  that JSON text, as a test double would.\<close>

definition scenario_json :: string where
  "scenario_json = ''{\"outer_width\": 100}''"

definition scenario_env :: vision_env where
  "scenario_env = \<lparr>client_ok = (\<lambda>k. True),
     generate = (\<lambda>m. if m = ''gemini-2.0-flash'' then GenText (Some ''The width is 100 mm.'')
                     else if m = ''gemini-2.0-flash-lite-preview-02-05'' then GenRaise ''429 RESOURCE_EXHAUSTED''
                     else if m = ''gemini-2.5-flash'' then GenRaise ''404 NOT_FOUND''
                     else GenText (Some (''```json'' @ scenario_json @ ''```''))),
     json_loads = (\<lambda>s. if s = scenario_json then Inr (PDict [(''outer_width'', PInt 100)])
                        else Inl ''Expecting value: line 1 column 1 (char 0)'')\<rparr>"

definition quota_env :: vision_env where
  "quota_env = \<lparr>client_ok = (\<lambda>k. True), generate = (\<lambda>m. GenRaise ''429 Quota exceeded''),
     json_loads = (\<lambda>s. Inl ''unused'')\<rparr>"

section \<open>Lemmas\<close>

inductive_cases orch_step_RunningE: "orch_step env (Running ms trace) s"
inductive_cases orch_step_SucceededE: "orch_step env (Succeeded trace v) s"
inductive_cases orch_step_ExhaustedE: "orch_step env (Exhausted trace) s"

lemma try_models_Cons:
  "try_models env (m # ms) =
     (case attempt_of env m of
        (a, Some v) \<Rightarrow> ([(m, a)], v)
      | (a, None) \<Rightarrow> ((m, a) # fst (try_models env ms), snd (try_models env ms)))"
  by (auto simp: attempt_of_def Let_def split: gen_outcome.split option.split sum.split prod.split)

lemma try_models_first_success_eq: "try_models env ms = first_success env ms"
proof (induction ms)
  case Nil
  then show ?case by (simp add: first_success_def)
next
  case (Cons m ms)
  show ?case
  proof (cases "fails env m")
    case True
    then obtain a where a: "attempt_of env m = (a, None)"
      by (cases "attempt_of env m") (simp add: fails_def)
    with True Cons.IH show ?thesis
      by (simp add: try_models_Cons first_success_def Let_def del: try_models.simps)
  next
    case False
    then obtain a v where a: "attempt_of env m = (a, Some v)"
      by (cases "attempt_of env m") (auto simp: fails_def)
    with False show ?thesis
      by (simp add: try_models_Cons first_success_def del: try_models.simps)
  qed
qed

lemma orch_step_terminal_stuck: "terminal s \<Longrightarrow> \<not> orch_step env s t"
  by (cases s) (auto elim: orch_step_SucceededE orch_step_ExhaustedE)

lemma orch_run_reaches:
  "\<exists>s. (orch_step env)\<^sup>*\<^sup>* (Running ms trace) s \<and> terminal s \<and>
       outcome_of s = (trace @ fst (try_models env ms), snd (try_models env ms))"
proof (induction ms arbitrary: trace)
  case Nil
  have "orch_step env (Running [] trace) (Exhausted trace)" by (rule orch_step.exhaust)
  then show ?case by (intro exI[of _ "Exhausted trace"]) auto
next
  case (Cons m ms)
  obtain a r where ar: "attempt_of env m = (a, r)" by fastforce
  show ?case
  proof (cases r)
    case None
    with ar have st: "orch_step env (Running (m # ms) trace) (Running ms (trace @ [(m, a)]))"
      by (simp add: orch_step.fail)
    from Cons.IH[of "trace @ [(m, a)]"] obtain s where
      "(orch_step env)\<^sup>*\<^sup>* (Running ms (trace @ [(m, a)])) s" "terminal s"
      "outcome_of s = ((trace @ [(m, a)]) @ fst (try_models env ms), snd (try_models env ms))"
      by blast
    with st ar None show ?thesis
      by (intro exI[of _ s]) (auto simp: try_models_Cons simp del: try_models.simps intro: converse_rtranclp_into_rtranclp)
  next
    case (Some v)
    with ar have "orch_step env (Running (m # ms) trace) (Succeeded (trace @ [(m, a)]) v)"
      by (simp add: orch_step.succeed)
    with ar Some show ?thesis
      by (intro exI[of _ "Succeeded (trace @ [(m, a)]) v"]) (auto simp: try_models_Cons simp del: try_models.simps)
  qed
qed

lemma orch_step_deterministic: "orch_step env s t \<Longrightarrow> orch_step env s t' \<Longrightarrow> t = t'"
  by (induction rule: orch_step.induct) (auto elim: orch_step_RunningE)

lemma orch_terminal_unique:
  assumes "(orch_step env)\<^sup>*\<^sup>* s t" "terminal t" "(orch_step env)\<^sup>*\<^sup>* s t'" "terminal t'"
  shows "t = t'"
  using assms
proof (induction arbitrary: t' rule: converse_rtranclp_induct)
  case base
  then show ?case
    by (auto elim: converse_rtranclpE dest: orch_step_terminal_stuck)
next
  case (step s u)
  from step.prems(2) consider (refl) "t' = s"
    | (more) u' where "orch_step env s u'" "(orch_step env)\<^sup>*\<^sup>* u' t'"
    by (blast elim: converse_rtranclpE)
  then show ?case
  proof cases
    case refl
    with step.prems(3) step.hyps(1) show ?thesis by (auto dest: orch_step_terminal_stuck)
  next
    case more
    with step.hyps(1) have "u' = u" by (auto dest: orch_step_deterministic)
    with step more show ?thesis by blast
  qed
qed

lemma orch_run_determined:
  "(orch_step env)\<^sup>*\<^sup>* (Running ms trace) s \<Longrightarrow> terminal s \<Longrightarrow>
   outcome_of s = (trace @ fst (try_models env ms), snd (try_models env ms))"
  using orch_run_reaches[of env ms trace] orch_terminal_unique by metis

lemma orch_step_inv: "orch_step env s t \<Longrightarrow> orch_inv ms s \<Longrightarrow> orch_inv ms t"
  by (induction rule: orch_step.induct) (auto simp: prefix_def)

lemma orch_reachable_inv:
  "(orch_step env)\<^sup>*\<^sup>* (Running ms []) s \<Longrightarrow> orch_inv ms s"
  by (induction rule: rtranclp_induct) (auto intro: orch_step_inv)

lemma orch_inv_log_prefix: "orch_inv ms s \<Longrightarrow> prefix (map fst (state_log s)) ms"
  by (cases s) (auto simp: prefix_def)

lemma distinct_models_to_try: "distinct models_to_try"
  by (simp add: models_to_try_def)


lemma clean_fenced:
  "CHR ''`'' \<notin> set body \<Longrightarrow> clean_response (''```json'' @ body @ ''```'') = py_strip body"
proof -
  assume b: "CHR ''`'' \<notin> set body"
  have r1: "replace_nonempty ''```json'' [] (''```json'' @ body @ ''```'') = body @ ''```''"
    using b by (simp add: replace_nonempty_append_occ[of "''```json''"] replace_nonempty_append_no_head)
  have r2: "replace_nonempty ''```'' [] (body @ ''```'') = body"
    using b by (simp add: replace_nonempty_append_no_head)
  show ?thesis using r1 r2 by (simp add: clean_response_def py_replace_def)
qed

lemma scenario_attempts:
  "attempt_of scenario_env ''gemini-2.0-flash'' = (OtherError ''Expecting value: line 1 column 1 (char 0)'', None)"
  "attempt_of scenario_env ''gemini-2.0-flash-lite-preview-02-05'' = (QuotaLimit, None)"
  "attempt_of scenario_env ''gemini-2.5-flash'' = (ModelNotFound, None)"
  "attempt_of scenario_env ''gemini-flash-latest'' = (Parsed, Some (PDict [(''outer_width'', PInt 100)]))"
  by (simp_all add: attempt_of_def scenario_env_def classify_error_def clean_response_def py_str_eval
      scenario_json_def)

lemma fst_outcome_of: "fst (outcome_of s) = state_log s"
  by (cases s) simp_all

lemma orch_step_measure: "orch_step env s t \<Longrightarrow> ostate_measure t < ostate_measure s"
  by (induction rule: orch_step.induct) auto

section \<open>Properties\<close>

text \<open>C8 (equivalence): once the client accepts the key and the image opens, extraction is exactly the reference definition: the failing models are tried in list order, then the first success, whose parsed JSON is the result; \<open>{}\<close> when every model fails.\<close>

theorem extract_first_success:
  "client_ok env (strip_key api_key) \<Longrightarrow> image_opens fs image_path \<Longrightarrow>
   extract_dimensions_with_gemini env fs image_path api_key = first_success env models_to_try"
  by (simp add: extract_dimensions_with_gemini_def try_models_first_success_eq)

theorem extract_first_success_witness:
  "extract_dimensions_with_gemini scenario_env (\<lambda>p. Some RasterImage) ''part.png'' (Some ''key'') =
   first_success scenario_env models_to_try"
  by (rule extract_first_success) (simp_all add: scenario_env_def image_opens_def)

text \<open>C9 (liveness): from Pending, the orchestration state machine always reaches a terminal state (Succeeded or Exhausted), and that state's outcome is what \<open>try_models\<close> returns.\<close>

theorem orchestration_terminates:
  "\<exists>s. (orch_step env)\<^sup>*\<^sup>* (Running models_to_try []) s \<and> terminal s \<and>
       outcome_of s = try_models env models_to_try"
  using orch_run_reaches[of env models_to_try "[]"] by simp

text \<open>The orchestration machine has no infinite run: every
  step either consumes a model of the list or ends in a terminal state, so
  the step relation is well-founded whatever the recorded responses.\<close>

theorem orch_step_wf: "wfp (\<lambda>t s. orch_step env s t)"
proof -
  have "{(t, s). orch_step env s t} \<subseteq> measure ostate_measure"
    by (auto dest: orch_step_measure)
  then have "wf {(t, s). orch_step env s t}" by (rule wf_subset[OF wf_measure])
  then show ?thesis by (simp add: wfp_def)
qed

text \<open>In every reachable state of the orchestration machine, the models in the attempt log are a prefix of the configured list, each attempted at most once.\<close>

theorem orch_reachable_log:
  "(orch_step env)\<^sup>*\<^sup>* (Running models_to_try []) s \<Longrightarrow>
   prefix (map fst (state_log s)) models_to_try \<and> distinct (map fst (state_log s))"
  using orch_inv_log_prefix[OF orch_reachable_inv] distinct_models_to_try
  by (metis distinct_append prefix_def)

theorem orch_reachable_log_witness:
  "prefix (map fst (state_log (Running [''gemini-2.0-flash-lite-preview-02-05'', ''gemini-2.5-flash'', ''gemini-flash-latest'']
       [(''gemini-2.0-flash'', OtherError ''Expecting value: line 1 column 1 (char 0)'')]))) models_to_try"
proof -
  have "orch_step scenario_env (Running models_to_try [])
      (Running [''gemini-2.0-flash-lite-preview-02-05'', ''gemini-2.5-flash'', ''gemini-flash-latest'']
       [(''gemini-2.0-flash'', OtherError ''Expecting value: line 1 column 1 (char 0)'')])"
    using orch_step.fail[of scenario_env "''gemini-2.0-flash''" _ _ "[]"] scenario_attempts(1)
    by (simp add: models_to_try_def)
  then show ?thesis using orch_reachable_log by blast
qed

text \<open>C11 (invariant): the attempt log extraction returns names a prefix of
  \<open>models_to_try\<close>, each model at most once: the loop never retries a model,
  skips one or goes back. The proof runs the orchestration machine to the
  terminal state whose outcome is the loop's and applies the machine's
  invariant there.\<close>

theorem extraction_log_models:
  "prefix (map fst (fst (extract_dimensions_with_gemini env fs image_path api_key))) models_to_try \<and>
   distinct (map fst (fst (extract_dimensions_with_gemini env fs image_path api_key)))"
proof (cases "client_ok env (strip_key api_key) \<and> image_opens fs image_path")
  case True
  obtain s where s: "(orch_step env)\<^sup>*\<^sup>* (Running models_to_try []) s"
      "outcome_of s = try_models env models_to_try"
    using orch_run_reaches[of env models_to_try "[]"] by auto
  have "fst (extract_dimensions_with_gemini env fs image_path api_key) = state_log s"
    using True s(2) by (simp add: extract_dimensions_with_gemini_def fst_outcome_of[symmetric])
  then show ?thesis using orch_reachable_log[OF s(1)] by simp
next
  case False
  then show ?thesis by (auto simp: extract_dimensions_with_gemini_def)
qed

text \<open>Every terminal state the machine can reach carries the trace and result of \<open>try_models\<close>; the fallback is deterministic given the recorded responses.\<close>

theorem orch_terminal_outcome:
  "(orch_step env)\<^sup>*\<^sup>* (Running ms []) s \<Longrightarrow> terminal s \<Longrightarrow> outcome_of s = try_models env ms"
  using orch_run_determined[of env ms "[]" s] by simp

theorem orch_terminal_outcome_witness:
  "outcome_of (Exhausted []) = try_models scenario_env []"
  by (rule orch_terminal_outcome) (auto intro: orch_step.exhaust)

text \<open>The spec's scenario: the first model answers prose, the second hits its quota (429), the third is not found (404), the fourth answers fenced JSON; the result is exactly the fourth model's content, with four attempts logged and classified.\<close>

theorem scenario_fourth_model_wins:
  "try_models scenario_env models_to_try =
     ([(''gemini-2.0-flash'', OtherError ''Expecting value: line 1 column 1 (char 0)''),
       (''gemini-2.0-flash-lite-preview-02-05'', QuotaLimit), (''gemini-2.5-flash'', ModelNotFound),
       (''gemini-flash-latest'', Parsed)],
      PDict [(''outer_width'', PInt 100)])"
  by (simp add: models_to_try_def try_models_Cons scenario_attempts del: try_models.simps)

text \<open>C12 (error): when every configured model fails, extraction returns the empty dict \<open>{}\<close> after exactly one logged attempt per model.\<close>

theorem all_models_fail_exhausted:
  assumes "\<forall>m \<in> set models_to_try. fails env m"
    and "client_ok env (strip_key api_key)" "image_opens fs image_path"
  shows "extract_dimensions_with_gemini env fs image_path api_key =
     (map (\<lambda>m. (m, fst (attempt_of env m))) models_to_try, PDict [])"
proof -
  have t: "takeWhile (fails env) models_to_try = models_to_try"
    and d: "dropWhile (fails env) models_to_try = []"
    using assms(1) by (simp_all add: takeWhile_eq_all_conv dropWhile_eq_Nil_conv)
  have "first_success env models_to_try = (map (\<lambda>m. (m, fst (attempt_of env m))) models_to_try, PDict [])"
    unfolding first_success_def Let_def t d by simp
  then show ?thesis
    using assms(2,3) by (simp add: extract_dimensions_with_gemini_def try_models_first_success_eq)
qed

theorem all_models_fail_exhausted_witness:
  "extract_dimensions_with_gemini quota_env (\<lambda>p. Some RasterImage) ''part.png'' None =
     (map (\<lambda>m. (m, QuotaLimit)) models_to_try, PDict [])"
proof -
  have "\<forall>m \<in> set models_to_try. fails quota_env m"
    by (simp add: fails_def attempt_of_def quota_env_def)
  moreover have "fst (attempt_of quota_env m) = QuotaLimit" for m
    by (simp add: attempt_of_def quota_env_def classify_error_def)
  ultimately show ?thesis
    using all_models_fail_exhausted[of quota_env None "\<lambda>p. Some RasterImage" "''part.png''"]
    by (simp add: quota_env_def strip_key_def image_opens_def)
qed

text \<open>C13 (functional): when the first model returns text that \<open>json.loads\<close> accepts, that value is returned at once, after one attempt, whatever it is (\<open>{}\<close> included) and whatever the later models would answer.\<close>

theorem first_parse_stops_fallback:
  "generate env ''gemini-2.0-flash'' = GenText (Some resp) \<Longrightarrow> resp \<noteq> [] \<Longrightarrow>
   json_loads env (clean_response resp) = Inr v \<Longrightarrow>
   try_models env models_to_try = ([(''gemini-2.0-flash'', Parsed)], v)"
  by (simp add: models_to_try_def)

theorem first_parse_stops_fallback_witness:
  "try_models (scenario_env\<lparr>generate := (\<lambda>m. GenText (Some ''{}'')),
                            json_loads := (\<lambda>s. Inr (PDict []))\<rparr>) models_to_try =
   ([(''gemini-2.0-flash'', Parsed)], PDict [])"
proof -
  have ne: "''{}'' \<noteq> []" by simp
  show ?thesis
    by (rule first_parse_stops_fallback[where resp = "''{}''"]) (simp_all add: ne)
qed

text \<open>A response of the form \<open>```json\<close> + body + \<open>```\<close>, the body free of backticks, is cleaned to the stripped body.\<close>

theorem clean_response_fenced:
  "CHR ''`'' \<notin> set body \<Longrightarrow> clean_response (''```json'' @ body @ ''```'') = py_strip body"
  by (rule clean_fenced)

theorem clean_response_fenced_witness:
  "clean_response (''```json'' @ ''\<newline>{}\<newline>'' @ ''```'') = ''{}''"
  using clean_response_fenced[of "''\<newline>{}\<newline>''"] by (simp add: py_str_eval)

text \<open>C14 (error): a JSON parse error whose message mentions 404 (and not 429) is logged as model-not-found, and the next model is tried.\<close>

theorem parse_error_logged_as_not_found:
  "generate env m = GenText (Some resp) \<Longrightarrow> resp \<noteq> [] \<Longrightarrow>
   json_loads env (clean_response resp) = Inl e \<Longrightarrow> py_in ''404'' e \<Longrightarrow> \<not> py_in ''429'' e \<Longrightarrow>
   try_models env (m # ms) = ((m, ModelNotFound) # fst (try_models env ms), snd (try_models env ms))"
  by (simp add: classify_error_def split: prod.split)

theorem parse_error_logged_as_not_found_witness:
  "try_models (scenario_env\<lparr>generate := (\<lambda>m. GenText (Some ''{\"a\": 1 \"b\": 2}'')),
       json_loads := (\<lambda>s. Inl ''Expecting ',' delimiter: line 1 column 404 (char 403)'')\<rparr>) [''m''] =
   ([(''m'', ModelNotFound)], PDict [])"
  using parse_error_logged_as_not_found[of "scenario_env\<lparr>generate := (\<lambda>m. GenText (Some ''{\"a\": 1 \"b\": 2}'')),
       json_loads := (\<lambda>s. Inl ''Expecting ',' delimiter: line 1 column 404 (char 403)'')\<rparr>" "''m''"
       "''{\"a\": 1 \"b\": 2}''" "''Expecting ',' delimiter: line 1 column 404 (char 403)''" "[]"]
  by simp


end
