(* ===== verification/Json.thy ===== *)
theory Json
  imports PyValue
begin

text \<open>
  \<open>json.loads\<close> as src/backend/core/analysis.py line 125 calls it, modelled
  on CPython's C scanner (Modules/_json.c: \<open>scan_once_unicode\<close>,
  \<open>_parse_object_unicode\<close>, \<open>_parse_array_unicode\<close>,
  \<open>scanstring_unicode\<close>, \<open>_match_number_unicode\<close>) and
  \<open>json.decoder.JSONDecoder.decode\<close>. The scanner works on the suffix of
  the document still to read; a position is the document's length minus the
  suffix's, so the errors carry CPython's message and index, and
  \<open>decode_error_str\<close> renders \<open>str(e)\<close> with line and column. Every
  call spends a unit of fuel; \<open>2 n + 1\<close> units are enough for a document
  of length \<open>n\<close> (\<open>json_decode_no_fuel\<close>). Outside the model, and
  reported as \<open>JUnsupported\<close>: \<open>\\u\<close> escapes, NaN and the infinities,
  and ints beyond \<open>int()\<close>'s 4300-digit limit. Not modelled: the
  \<open>RecursionError\<close> of documents nested deeper than the interpreter's
  recursion limit, and the byte-order-mark check of \<open>loads\<close> (the strings
  here are byte strings). \<open>json_dumps\<close> writes the printable values the
  way \<open>json.dumps\<close> does, and \<open>json_decode_dumps\<close> reads them back.
\<close>

section \<open>Scanner results\<close>

text \<open>How a scan ends besides a value: a \<open>JSONDecodeError\<close> with its message
  and position (the scanner's \<open>StopIteration(idx)\<close> becomes "Expecting value"
  at \<open>idx\<close>, as \<open>raw_decode\<close> and the object and array loops turn it into);
  an input outside the modelled subset; or the fuel running out.\<close>

datatype jfail = JErr string nat | JUnsupported | JNoFuel

type_synonym 'a jscan = "jfail + ('a \<times> string)"

abbreviation quote_char :: char where "quote_char \<equiv> CHR 0x22"
abbreviation bslash_char :: char where "bslash_char \<equiv> CHR 0x5C"

text \<open>\<open>IS_WHITESPACE\<close>: space, tab, newline, carriage return.\<close>

definition is_ws :: "char \<Rightarrow> bool" where
  "is_ws c \<longleftrightarrow> c = CHR '' '' \<or> c = CHR 0x09 \<or> c = CHR 0x0A \<or> c = CHR 0x0D"

definition skip_ws :: "string \<Rightarrow> string" where
  "skip_ws s = dropWhile is_ws s"

definition is_digit :: "char \<Rightarrow> bool" where
  "is_digit c \<longleftrightarrow> (let n = of_char c :: nat in 48 \<le> n \<and> n \<le> 57)"

definition digits_val :: "string \<Rightarrow> nat" where
  "digits_val ds = foldl (\<lambda>a c. 10 * a + (of_char c - 48)) 0 ds"

section \<open>Numbers (\<open>_match_number_unicode\<close>)\<close>

text \<open>The integer part: a non-zero digit and all digits after it, or a
  single \<open>0\<close>.\<close>

definition int_digits :: "string \<Rightarrow> (string \<times> string) option" where
  "int_digits s =
     (case s of
        [] \<Rightarrow> None
      | c # t \<Rightarrow>
          if c = CHR ''0'' then Some ([c], t)
          else if is_digit c then Some (c # takeWhile is_digit t, dropWhile is_digit t)
          else None)"

text \<open>A fraction: a point followed by at least one digit, otherwise none.\<close>

definition frac_digits :: "string \<Rightarrow> string \<times> string" where
  "frac_digits s =
     (case s of
        c # d # t \<Rightarrow>
          if c = CHR ''.'' \<and> is_digit d then (d # takeWhile is_digit t, dropWhile is_digit t) else ([], s)
      | _ \<Rightarrow> ([], s))"

text \<open>An exponent: \<open>e\<close> or \<open>E\<close> not at the end, a sign if a character
  follows it, and at least one digit; otherwise the scan backtracks to the
  \<open>e\<close>. The result is the exponent's value.\<close>

definition exponent :: "string \<Rightarrow> int option \<times> string" where
  "exponent s =
     (case s of
        e # c # t \<Rightarrow>
          if e = CHR ''e'' \<or> e = CHR ''E'' then
            (let (neg, u) = (if (c = CHR ''-'' \<or> c = CHR ''+'') \<and> t \<noteq> [] then (c = CHR ''-'', t) else (False, c # t));
                 ds = takeWhile is_digit u in
             if ds = [] then (None, s)
             else (Some ((if neg then -1 else 1) * int (digits_val ds)), dropWhile is_digit u))
          else (None, s)
      | _ \<Rightarrow> (None, s))"

text \<open>The value \<open>m \<cdot> 10\<^sup>e\<close> as \<open>float()\<close> reads it (exactly).\<close>

definition dec_real :: "int \<Rightarrow> int \<Rightarrow> real" where
  "dec_real m e = (if 0 \<le> e then of_int m * 10 ^ nat e else of_int m / 10 ^ nat (- e))"

text \<open>A number starting the suffix \<open>s\<close> of a document of length \<open>n\<close>: an
  int unless it has a fraction or an exponent. An int of more than 4300
  digits makes \<open>int()\<close> raise \<open>ValueError\<close>, outside the model.\<close>

definition match_number :: "nat \<Rightarrow> string \<Rightarrow> pyval jscan" where
  "match_number n s =
     (let (neg, s1) = (if s \<noteq> [] \<and> hd s = CHR ''-'' then (True, tl s) else (False, s)) in
      case int_digits s1 of
        None \<Rightarrow> Inl (JErr ''Expecting value'' (n - length s))
      | Some (ids, s2) \<Rightarrow>
          (let (fds, s3) = frac_digits s2; (ex, s4) = exponent s3;
               m = (if neg then -1 else 1) * int (digits_val (ids @ fds)) in
           if fds = [] \<and> ex = None then
             (if 4300 < length ids then Inl JUnsupported else Inr (PInt m, s4))
           else Inr (PFloat (dec_real m ((case ex of None \<Rightarrow> 0 | Some e \<Rightarrow> e) - int (length fds))), s4)))"

text \<open>The other cases of \<open>scan_once_unicode\<close>: the named constants, then a
  number. NaN and the infinities are outside the model (floats are reals).\<close>

definition scan_literal :: "nat \<Rightarrow> string \<Rightarrow> pyval jscan" where
  "scan_literal n s =
     (if take 4 s = ''null'' then Inr (PNone, drop 4 s)
      else if take 4 s = ''true'' then Inr (PBool True, drop 4 s)
      else if take 5 s = ''false'' then Inr (PBool False, drop 5 s)
      else if take 3 s = ''NaN'' \<or> take 8 s = ''Infinity'' \<or> take 9 s = ''-Infinity'' then Inl JUnsupported
      else match_number n s)"

section \<open>Strings (\<open>scanstring_unicode\<close>)\<close>

definition esc_char :: "char \<Rightarrow> char option" where
  "esc_char c =
     (if c = quote_char \<or> c = bslash_char \<or> c = CHR ''/'' then Some c
      else if c = CHR ''b'' then Some (CHR 0x08) else if c = CHR ''f'' then Some (CHR 0x0C)
      else if c = CHR ''n'' then Some (CHR 0x0A) else if c = CHR ''r'' then Some (CHR 0x0D)
      else if c = CHR ''t'' then Some (CHR 0x09) else None)"

text \<open>The characters after an opening quote at position \<open>b\<close>, collected in
  reverse in \<open>acc\<close>. \<open>\\uXXXX\<close> escapes are outside the model (the strings
  of the model are byte strings).\<close>

fun scan_str :: "nat \<Rightarrow> nat \<Rightarrow> string \<Rightarrow> string \<Rightarrow> string jscan" where
  "scan_str n b acc [] = Inl (JErr ''Unterminated string starting at'' b)"
| "scan_str n b acc (c # cs) =
     (if c = quote_char then Inr (rev acc, cs)
      else if c = bslash_char then
        (case cs of
           [] \<Rightarrow> Inl (JErr ''Unterminated string starting at'' b)
         | e # cs' \<Rightarrow>
             if e = CHR ''u'' then Inl JUnsupported
             else (case esc_char e of
                     None \<Rightarrow> Inl (JErr (''Invalid '' @ [bslash_char] @ ''escape'') (n - length (c # cs)))
                   | Some d \<Rightarrow> scan_str n b (d # acc) cs'))
      else if of_char c < (32::nat) then Inl (JErr ''Invalid control character at'' (n - length (c # cs)))
      else scan_str n b (c # acc) cs)"

section \<open>Values, objects and arrays\<close>

text \<open>\<open>d[key] = value\<close> on the dict being built: a repeated key keeps its
  first position and takes the last value.\<close>

fun dict_set :: "(string \<times> pyval) list \<Rightarrow> string \<Rightarrow> pyval \<Rightarrow> (string \<times> pyval) list" where
  "dict_set [] k v = [(k, v)]"
| "dict_set ((k', v') # kvs) k v = (if k' = k then (k, v) # kvs else (k', v') # dict_set kvs k v)"

text \<open>\<open>scan_once_unicode\<close>, \<open>_parse_object_unicode\<close> and
  \<open>_parse_array_unicode\<close> over the suffix of a document of length \<open>n\<close>; the
  loops start at a key or an element, after the whitespace. Each call
  spends one unit of fuel.\<close>

fun scan_once :: "nat \<Rightarrow> nat \<Rightarrow> string \<Rightarrow> pyval jscan"
and parse_object :: "nat \<Rightarrow> nat \<Rightarrow> (string \<times> pyval) list \<Rightarrow> string \<Rightarrow> pyval jscan"
and parse_array :: "nat \<Rightarrow> nat \<Rightarrow> pyval list \<Rightarrow> string \<Rightarrow> pyval jscan" where
  "scan_once 0 n s = Inl JNoFuel"
| "scan_once (Suc f) n s =
     (case s of
        [] \<Rightarrow> Inl (JErr ''Expecting value'' n)
      | c # t \<Rightarrow>
          if c = quote_char then
            (case scan_str n (n - length s) [] t of Inl e \<Rightarrow> Inl e | Inr (str, r) \<Rightarrow> Inr (PStr str, r))
          else if c = CHR ''{'' then
            (let t' = skip_ws t in
             if t' \<noteq> [] \<and> hd t' = CHR ''}'' then Inr (PDict [], tl t') else parse_object f n [] t')
          else if c = CHR ''['' then
            (let t' = skip_ws t in
             if t' \<noteq> [] \<and> hd t' = CHR '']'' then Inr (PList [], tl t') else parse_array f n [] t')
          else scan_literal n s)"
| "parse_object 0 n acc s = Inl JNoFuel"
| "parse_object (Suc f) n acc s =
     (if s = [] \<or> hd s \<noteq> quote_char
      then Inl (JErr ''Expecting property name enclosed in double quotes'' (n - length s))
      else
        (case scan_str n (n - length s) [] (tl s) of
           Inl e \<Rightarrow> Inl e
         | Inr (key, r) \<Rightarrow>
             (let r1 = skip_ws r in
              if r1 = [] \<or> hd r1 \<noteq> CHR '':'' then Inl (JErr ''Expecting ':' delimiter'' (n - length r1))
              else
                (case scan_once f n (skip_ws (tl r1)) of
                   Inl e \<Rightarrow> Inl e
                 | Inr (v, r2) \<Rightarrow>
                     (let acc' = dict_set acc key v; r3 = skip_ws r2 in
                      if r3 \<noteq> [] \<and> hd r3 = CHR ''}'' then Inr (PDict acc', tl r3)
                      else if r3 = [] \<or> hd r3 \<noteq> CHR '','' then Inl (JErr ''Expecting ',' delimiter'' (n - length r3))
                      else parse_object f n acc' (skip_ws (tl r3)))))))"
| "parse_array 0 n acc s = Inl JNoFuel"
| "parse_array (Suc f) n acc s =
     (case scan_once f n s of
        Inl e \<Rightarrow> Inl e
      | Inr (v, r) \<Rightarrow>
          (let acc' = acc @ [v]; r1 = skip_ws r in
           if r1 \<noteq> [] \<and> hd r1 = CHR '']'' then Inr (PList acc', tl r1)
           else if r1 = [] \<or> hd r1 \<noteq> CHR '','' then Inl (JErr ''Expecting ',' delimiter'' (n - length r1))
           else parse_array f n acc' (skip_ws (tl r1))))"

section \<open>\<open>json.loads\<close>\<close>

text \<open>\<open>JSONDecoder.decode\<close>: skip leading whitespace, scan one value, skip
  trailing whitespace, and require the end of the document. The fuel
  \<open>2 n + 1\<close> is enough (lemma \<open>json_decode_no_fuel\<close>).\<close>

definition json_decode :: "string \<Rightarrow> jfail + pyval" where
  "json_decode s =
     (case scan_once (2 * length s + 1) (length s) (skip_ws s) of
        Inl e \<Rightarrow> Inl e
      | Inr (v, r) \<Rightarrow> (let r' = skip_ws r in
          if r' = [] then Inr v else Inl (JErr ''Extra data'' (length s - length r'))))"

text \<open>\<open>str(n)\<close> of a natural number.\<close>

fun nat_str :: "nat \<Rightarrow> string" where
  "nat_str n = (if n < 10 then [char_of (48 + n)] else nat_str (n div 10) @ [char_of (48 + n mod 10)])"

declare nat_str.simps [simp del]

text \<open>\<open>str(JSONDecodeError(msg, doc, pos))\<close>: the line is one more than the
  newlines preceding \<open>pos\<close>, the column counts from the last of them.\<close>

definition decode_error_str :: "string \<Rightarrow> string \<Rightarrow> nat \<Rightarrow> string" where
  "decode_error_str doc msg pos =
     (let preceding = take pos doc; lineno = Suc (count_list preceding (CHR 0x0A));
          colno = (if CHR 0x0A \<in> set preceding then pos - (length preceding - Suc (length (takeWhile (\<lambda>c. c \<noteq> CHR 0x0A) (rev preceding)))) else Suc pos) in
      msg @ '': line '' @ nat_str lineno @ '' column '' @ nat_str colno @ '' (char '' @ nat_str pos @ '')'')"

text \<open>\<open>json.loads\<close> as the orchestrator sees it: the value, or the message
  of the exception (\<open>str(e)\<close>). Inputs outside the modelled subset give
  the marker \<open>unsupported\<close>, which no claim relies on.\<close>

definition json_loads_str :: "string \<Rightarrow> string + pyval" where
  "json_loads_str s =
     (case json_decode s of
        Inr v \<Rightarrow> Inr v
      | Inl (JErr msg pos) \<Rightarrow> Inl (decode_error_str s msg pos)
      | Inl _ \<Rightarrow> Inl ''unsupported'')"

section \<open>\<open>json.dumps\<close> on the printable values\<close>

text \<open>The JSON text of a value as \<open>json.dumps\<close> writes it with its default
  separators, for the values it writes without escapes: printable ASCII
  strings without quote or backslash, ints as \<open>str()\<close>, integral floats
  below \<open>10\<^sup>1\<^sup>6\<close> as \<open>repr()\<close> (\<open>150.0\<close>). It stands for the
  answers the extraction prompt asks the model for.\<close>

definition int_str :: "int \<Rightarrow> string" where
  "int_str i = (if i < 0 then CHR ''-'' # nat_str (nat (- i)) else nat_str (nat i))"

definition plain_char :: "char \<Rightarrow> bool" where
  "plain_char c \<longleftrightarrow> (let k = of_char c :: nat in 32 \<le> k \<and> k \<le> 126) \<and> c \<noteq> quote_char \<and> c \<noteq> bslash_char"

fun join_items :: "string list \<Rightarrow> string" where
  "join_items [] = []"
| "join_items [x] = x"
| "join_items (x # y # ys) = x @ '', '' @ join_items (y # ys)"

fun json_dumps :: "pyval \<Rightarrow> string" where
  "json_dumps PNone = ''null''"
| "json_dumps (PBool b) = (if b then ''true'' else ''false'')"
| "json_dumps (PInt i) = int_str i"
| "json_dumps (PFloat x) = int_str \<lfloor>x\<rfloor> @ ''.0''"
| "json_dumps (PStr s) = quote_char # s @ [quote_char]"
| "json_dumps (PList vs) = ''['' @ join_items (map json_dumps vs) @ '']''"
| "json_dumps (PDict kvs) =
     ''{'' @ join_items (map (\<lambda>(k, v). quote_char # k @ quote_char # '': '' @ json_dumps v) kvs) @ ''}''"


fun json_printable :: "pyval \<Rightarrow> bool" where
  "json_printable (PInt i) = (length (nat_str (nat \<bar>i\<bar>)) \<le> 4300)"
| "json_printable (PFloat x) = (x = of_int \<lfloor>x\<rfloor> \<and> \<bar>x\<bar> < 10 ^ 16)"
| "json_printable (PStr s) = list_all plain_char s"
| "json_printable (PList vs) = (\<forall>v\<in>set vs. json_printable v)"
| "json_printable (PDict kvs) =
     (distinct (map fst kvs) \<and> (\<forall>kv\<in>set kvs. list_all plain_char (fst kv) \<and> json_printable (snd kv)))"
| "json_printable PNone = True"
| "json_printable (PBool b) = True"

text \<open>What may follow a value inside a printed document.\<close>

definition json_stop :: "string \<Rightarrow> bool" where
  "json_stop r \<longleftrightarrow> r = [] \<or> hd r = CHR '','' \<or> hd r = CHR '']'' \<or> hd r = CHR ''}''"

section \<open>Lemmas\<close>

lemma length_skip_ws: "length (skip_ws s) \<le> length s"
  by (simp add: skip_ws_def length_dropWhile_le)

lemma scan_str_shorter: "scan_str n b acc s = Inr (x, r) \<Longrightarrow> length r < length s"
proof (induction n b acc s rule: scan_str.induct)
  case (2 n b acc c cs)
  then show ?case
    by (cases cs) (fastforce split: if_splits option.splits)+
qed simp

lemma int_digits_shorter: "int_digits s = Some (a, r) \<Longrightarrow> length r < length s"
  by (cases s) (auto simp: int_digits_def length_dropWhile_le le_imp_less_Suc split: if_splits)

lemma frac_digits_shorter: "frac_digits s = (a, r) \<Longrightarrow> length r \<le> length s"
  by (auto simp: frac_digits_def length_dropWhile_le le_SucI split: list.splits if_splits)

lemma exponent_shorter: "exponent s = (a, r) \<Longrightarrow> length r \<le> length s"
  by (auto simp: exponent_def Let_def length_dropWhile_le le_SucI split: list.splits if_splits prod.splits)

lemma match_number_shorter: "match_number n s = Inr (x, r) \<Longrightarrow> length r < length s"
proof -
  assume h: "match_number n s = Inr (x, r)"
  obtain neg s1 where s1: "(if s \<noteq> [] \<and> hd s = CHR ''-'' then (True, tl s) else (False, s)) = (neg, s1)"
    by (metis surj_pair)
  then have l1: "length s1 \<le> length s" by (auto split: if_splits)
  from h s1 obtain ids s2 where i: "int_digits s1 = Some (ids, s2)"
    by (auto simp: match_number_def split: option.splits)
  obtain fds s3 where f: "frac_digits s2 = (fds, s3)" by (metis surj_pair)
  obtain ex s4 where e: "exponent s3 = (ex, s4)" by (metis surj_pair)
  from h s1 i f e have "r = s4" by (auto simp: match_number_def Let_def split: if_splits)
  with int_digits_shorter[OF i] frac_digits_shorter[OF f] exponent_shorter[OF e] l1 show ?thesis by simp
qed

lemma scan_literal_shorter: "s \<noteq> [] \<Longrightarrow> scan_literal n s = Inr (x, r) \<Longrightarrow> length r < length s"
  by (auto simp: scan_literal_def split: if_splits dest: match_number_shorter)

lemma scan_shorter:
  "(scan_once f n s = Inr (v, r) \<longrightarrow> length r < length s) \<and>
   (parse_object f n acc s = Inr (v, r) \<longrightarrow> length r < length s) \<and>
   (parse_array f n xs s = Inr (v, r) \<longrightarrow> length r < length s)"
proof (induction f arbitrary: s acc xs v r)
  case 0 then show ?case by simp
next
  case (Suc f)
  have IH1: "\<And>s v r. scan_once f n s = Inr (v, r) \<Longrightarrow> length r < length s"
    and IH2: "\<And>s acc v r. parse_object f n acc s = Inr (v, r) \<Longrightarrow> length r < length s"
    and IH3: "\<And>s xs v r. parse_array f n xs s = Inr (v, r) \<Longrightarrow> length r < length s"
    using Suc.IH by blast+
  note sk = length_skip_ws
  show ?case
  proof (intro conjI impI)
    assume h: "scan_once (Suc f) n s = Inr (v, r)"
    then obtain c t where s: "s = c # t" by (cases s) auto
    show "length r < length s"
      using h sk[of t] scan_literal_shorter[of s n]
      unfolding s
      by (auto simp: Let_def split: if_splits sum.splits prod.splits dest!: scan_str_shorter IH2 IH3)
  next
    assume h: "parse_object (Suc f) n acc s = Inr (v, r)"
    then obtain key r0 where s: "s \<noteq> []" "hd s = quote_char"
      and k: "scan_str n (n - length s) [] (tl s) = Inr (key, r0)"
      by (auto split: if_splits sum.splits)
    with h obtain v' r2 where c: "skip_ws r0 \<noteq> []" "hd (skip_ws r0) = CHR '':''"
      and sv: "scan_once f n (skip_ws (tl (skip_ws r0))) = Inr (v', r2)"
      by (auto simp: Let_def split: if_splits sum.splits)
    have l: "length (skip_ws r2) < length s"
      using scan_str_shorter[OF k] IH1[OF sv] sk[of r0] sk[of r2] sk[of "tl (skip_ws r0)"] s c
      by simp
    from h s k c sv have "(skip_ws r2 \<noteq> [] \<and> r = tl (skip_ws r2)) \<or>
       (skip_ws r2 \<noteq> [] \<and> (\<exists>acc'. parse_object f n acc' (skip_ws (tl (skip_ws r2))) = Inr (v, r)))"
      by (auto simp: Let_def split: if_splits)
    then show "length r < length s"
      using l sk[of "tl (skip_ws r2)"] by (auto dest!: IH2)
  next
    assume h: "parse_array (Suc f) n xs s = Inr (v, r)"
    then obtain v' r0 where sv: "scan_once f n s = Inr (v', r0)"
      by (auto split: sum.splits)
    have l: "length (skip_ws r0) < length s" using IH1[OF sv] sk[of r0] by simp
    from h sv have "(skip_ws r0 \<noteq> [] \<and> r = tl (skip_ws r0)) \<or>
       (skip_ws r0 \<noteq> [] \<and> (\<exists>xs'. parse_array f n xs' (skip_ws (tl (skip_ws r0))) = Inr (v, r)))"
      by (auto simp: Let_def split: if_splits)
    then show "length r < length s"
      using l sk[of "tl (skip_ws r0)"] by (auto dest!: IH3)
  qed
qed
lemma scan_str_fuel: "scan_str n b acc s \<noteq> Inl JNoFuel"
proof (induction n b acc s rule: scan_str.induct)
  case (2 n b acc c cs)
  then show ?case by (cases cs) (auto split: option.split)
qed simp

lemma match_number_fuel: "match_number n s \<noteq> Inl JNoFuel"
  unfolding match_number_def by (simp add: split_def Let_def split: option.split)

lemma scan_literal_fuel: "scan_literal n s \<noteq> Inl JNoFuel"
  by (simp add: scan_literal_def match_number_fuel)

lemma scan_fuel:
  "(2 * length s < f \<longrightarrow> scan_once f n s \<noteq> Inl JNoFuel) \<and>
   (2 * length s + 1 < f \<longrightarrow> parse_object f n acc s \<noteq> Inl JNoFuel) \<and>
   (2 * length s + 1 < f \<longrightarrow> parse_array f n xs s \<noteq> Inl JNoFuel)"
proof (induction f arbitrary: s acc xs)
  case 0 then show ?case by simp
next
  case (Suc f)
  have IH1: "\<And>s. 2 * length s < f \<Longrightarrow> scan_once f n s \<noteq> Inl JNoFuel"
    and IH2: "\<And>s acc. 2 * length s + 1 < f \<Longrightarrow> parse_object f n acc s \<noteq> Inl JNoFuel"
    and IH3: "\<And>s xs. 2 * length s + 1 < f \<Longrightarrow> parse_array f n xs s \<noteq> Inl JNoFuel"
    using Suc.IH by blast+
  have P1: "\<And>s v r. scan_once f n s = Inr (v, r) \<Longrightarrow> length r < length s"
    and P3: "\<And>s acc v r. parse_object f n acc s = Inr (v, r) \<Longrightarrow> length r < length s"
    using scan_shorter by blast+
  note sk = length_skip_ws
  show ?case
  proof (intro conjI impI)
    assume b: "2 * length s < Suc f"
    show "scan_once (Suc f) n s \<noteq> Inl JNoFuel"
    proof (cases s)
      case (Cons c t)
      have "2 * length (skip_ws t) + 1 < f" using b sk[of t] Cons by simp
      then have "parse_object f n [] (skip_ws t) \<noteq> Inl JNoFuel" "parse_array f n [] (skip_ws t) \<noteq> Inl JNoFuel"
        using IH2 IH3 by blast+
      then show ?thesis using Cons scan_str_fuel[of n "n - length s" "[]" t] scan_literal_fuel[of n s]
        by (auto simp: Let_def split: sum.splits)
    qed simp
  next
    assume b: "2 * length s + 1 < Suc f"
    show "parse_object (Suc f) n acc s \<noteq> Inl JNoFuel"
    proof (cases "s = [] \<or> hd s \<noteq> quote_char")
      case False
      then have s: "s \<noteq> []" "hd s = quote_char" by auto
      show ?thesis
      proof (cases "scan_str n (n - length s) [] (tl s)")
        case (Inl e) then show ?thesis using s scan_str_fuel by auto
      next
        case (Inr kr)
        then obtain key r0 where k: "scan_str n (n - length s) [] (tl s) = Inr (key, r0)" by (cases kr) auto
        let ?t = "skip_ws (tl (skip_ws r0))"
        have lt: "length ?t < length s"
          using scan_str_shorter[OF k] sk[of r0] sk[of "tl (skip_ws r0)"] s by simp
        show ?thesis
        proof (cases "scan_once f n ?t")
          case (Inl e)
          then have "e \<noteq> JNoFuel" using IH1[of ?t] lt b by auto
          then show ?thesis using s k Inl by (auto simp: Let_def)
        next
          case (Inr vr)
          then obtain v r2 where sv: "scan_once f n ?t = Inr (v, r2)" by (cases vr) auto
          have "2 * length (skip_ws (tl (skip_ws r2))) + 1 < f"
            using P1[OF sv] lt b sk[of r2] sk[of "tl (skip_ws r2)"] by simp
          then show ?thesis using s k sv IH2 by (auto simp: Let_def)
        qed
      qed
    qed auto
  next
    assume b: "2 * length s + 1 < Suc f"
    show "parse_array (Suc f) n xs s \<noteq> Inl JNoFuel"
    proof (cases "scan_once f n s")
      case (Inl e)
      then have "e \<noteq> JNoFuel" using IH1[of s] b by auto
      then show ?thesis using Inl by auto
    next
      case (Inr vr)
      then obtain v r0 where sv: "scan_once f n s = Inr (v, r0)" by (cases vr) auto
      have "2 * length (skip_ws (tl (skip_ws r0))) + 1 < f"
        using P1[OF sv] b sk[of r0] sk[of "tl (skip_ws r0)"] by simp
      then show ?thesis using sv IH3 by (auto simp: Let_def)
    qed
  qed
qed

text \<open>The model of \<open>json.loads\<close> always answers: on every
  document of length \<open>n\<close> the fuel \<open>2 n + 1\<close> is enough, so
  \<open>json_decode\<close> returns a value, a \<open>JSONDecodeError\<close> or the mark of an
  input outside the model, and never runs out of fuel.\<close>

theorem json_decode_no_fuel: "json_decode s \<noteq> Inl JNoFuel"
proof -
  have "2 * length (skip_ws s) < 2 * length s + 1" using length_skip_ws[of s] by simp
  then have "scan_once (2 * length s + 1) (length s) (skip_ws s) \<noteq> Inl JNoFuel"
    using scan_fuel by blast
  then show ?thesis unfolding json_decode_def
    by (cases "scan_once (2 * length s + 1) (length s) (skip_ws s)") (auto simp: Let_def simp del: scan_once.simps split: if_splits)
qed
lemma is_digit_char: "d < 10 \<Longrightarrow> is_digit (char_of (48 + d :: nat))"
  by (simp add: is_digit_def of_char_of)

lemma stop_not_digit: "json_stop r \<Longrightarrow> r \<noteq> [] \<Longrightarrow> \<not> is_digit (hd r)"
  by (auto simp: json_stop_def is_digit_def)

lemma nat_str_digits: "c \<in> set (nat_str k) \<Longrightarrow> is_digit c"
proof (induction k rule: nat_str.induct)
  case (1 n) then show ?case by (cases "n < 10") (auto simp: is_digit_char nat_str.simps[of n])
qed

lemma nat_str_ne [simp]: "nat_str k \<noteq> []"
  by (simp add: nat_str.simps[of k])

lemma digits_val_snoc: "digits_val (xs @ [c]) = 10 * digits_val xs + (of_char c - 48)"
  by (simp add: digits_val_def)

lemma digits_val_nat_str [simp]: "digits_val (nat_str k) = k"
proof (induction k rule: nat_str.induct)
  case (1 n)
  then show ?case
    by (cases "n < 10") (simp_all add: nat_str.simps[of n] digits_val_snoc, simp add: digits_val_def)
qed
lemma nat_str_0: "nat_str 0 = ''0''"
  by (simp add: nat_str.simps py_str_eval)

lemma nat_str_hd: "0 < k \<Longrightarrow> hd (nat_str k) \<noteq> CHR ''0''"
proof (induction k rule: nat_str.induct)
  case (1 n)
  show ?case
  proof (cases "n < 10")
    case True
    have "char_of (48 + n :: nat) \<noteq> CHR ''0''"
    proof
      assume "char_of (48 + n :: nat) = CHR ''0''"
      then have "of_char (char_of (48 + n :: nat)) = (of_char (CHR ''0'') :: nat)" by simp
      with True 1(2) show False by (simp add: of_char_of)
    qed
    with True show ?thesis by (auto simp: nat_str.simps[of n])
  next
    case False
    then show ?thesis using 1 by (simp add: nat_str.simps[of n])
  qed
qed

lemma takeWhile_digits:
  "(\<And>c. c \<in> set xs \<Longrightarrow> is_digit c) \<Longrightarrow> r = [] \<or> \<not> is_digit (hd r) \<Longrightarrow>
   takeWhile is_digit (xs @ r) = xs \<and> dropWhile is_digit (xs @ r) = r"
  by (cases r) auto

lemma int_digits_nat_str:
  assumes "r = [] \<or> \<not> is_digit (hd r)"
  shows "int_digits (nat_str k @ r) = Some (nat_str k, r)"
proof (cases "k = 0")
  case True then show ?thesis by (simp add: nat_str_0 int_digits_def)
next
  case False
  obtain c cs where cs: "nat_str k = c # cs" by (cases "nat_str k") auto
  have d: "\<And>x. x \<in> set (c # cs) \<Longrightarrow> is_digit x" using nat_str_digits cs by metis
  have "c \<noteq> CHR ''0''" using nat_str_hd[of k] False cs by simp
  with d[of c] takeWhile_digits[of cs r] d assms show ?thesis by (simp add: int_digits_def cs)
qed

lemma stop_no_number:
  "json_stop r \<Longrightarrow> frac_digits r = ([], r) \<and> exponent r = (None, r)"
  by (auto simp: json_stop_def frac_digits_def exponent_def split: list.split)

lemma match_number_int:
  assumes "json_stop r" "length (nat_str (nat \<bar>i\<bar>)) \<le> 4300"
  shows "match_number n (int_str i @ r) = Inr (PInt i, r)"
proof -
  have r: "r = [] \<or> \<not> is_digit (hd r)" using stop_not_digit[OF assms(1)] by auto
  show ?thesis
  proof (cases "i < 0")
    case True
    then show ?thesis using assms int_digits_nat_str[OF r, of "nat (- i)"] stop_no_number[OF assms(1)]
      by (simp add: match_number_def int_str_def)
  next
    case False
    have "hd (nat_str (nat i)) \<noteq> CHR ''-''" using nat_str_digits[of "hd (nat_str (nat i))" "nat i"]
      by (auto simp: is_digit_def)
    then show ?thesis using False assms int_digits_nat_str[OF r, of "nat i"] stop_no_number[OF assms(1)]
      by (simp add: match_number_def int_str_def)
  qed
qed
lemma frac_point_zero: "json_stop r \<Longrightarrow> frac_digits (''.0'' @ r) = (''0'', r)"
  using takeWhile_digits[of "[]" r] stop_not_digit[of r]
  by (auto simp: frac_digits_def is_digit_def)

lemma match_number_float:
  assumes "json_stop r"
  shows "match_number n (int_str k @ ''.0'' @ r) = Inr (PFloat (of_int k), r)"
proof -
  have p: "''.0'' @ r = [] \<or> \<not> is_digit (hd (''.0'' @ r))" by (simp add: is_digit_def)
  have e: "exponent r = (None, r)" using stop_no_number[OF assms] by simp
  have z: "digits_val (nat_str m @ ''0'') = 10 * m" for m
    using digits_val_snoc[of "nat_str m" "CHR ''0''"] by simp
  show ?thesis
  proof (cases "k < 0")
    case True
    then show ?thesis using int_digits_nat_str[OF p, of "nat (- k)"] frac_point_zero[OF assms] e z
      by (simp add: match_number_def int_str_def dec_real_def)
  next
    case False
    have "hd (nat_str (nat k)) \<noteq> CHR ''-''" using nat_str_digits[of "hd (nat_str (nat k))" "nat k"]
      by (auto simp: is_digit_def)
    then show ?thesis using False int_digits_nat_str[OF p, of "nat k"] frac_point_zero[OF assms] e z
      by (simp add: match_number_def int_str_def dec_real_def)
  qed
qed
lemma skip_ws_id: "x \<noteq> [] \<Longrightarrow> \<not> is_ws (hd x) \<Longrightarrow> skip_ws x = x"
  by (cases x) (simp_all add: skip_ws_def)

lemma skip_ws_space: "x \<noteq> [] \<Longrightarrow> \<not> is_ws (hd x) \<Longrightarrow> skip_ws (CHR '' '' # x) = x"
  by (simp add: skip_ws_def is_ws_def skip_ws_id[unfolded skip_ws_def])

lemma int_str_start:
  "int_str i \<noteq> [] \<and> (is_digit (hd (int_str i)) \<or>
     (hd (int_str i) = CHR ''-'' \<and> tl (int_str i) \<noteq> [] \<and> is_digit (hd (tl (int_str i)))))"
  using nat_str_digits[of "hd (nat_str (nat i))" "nat i"] nat_str_digits[of "hd (nat_str (nat (- i)))" "nat (- i)"]
  by (auto simp: int_str_def)

lemma digit_not_ws: "is_digit c \<Longrightarrow> \<not> is_ws c"
  by (auto simp: is_digit_def is_ws_def)

lemma int_str_not_ws: "int_str i \<noteq> [] \<and> \<not> is_ws (hd (int_str i))"
  using int_str_start[of i] digit_not_ws by (auto simp: is_ws_def)

lemma json_dumps_start: "json_dumps v \<noteq> [] \<and> \<not> is_ws (hd (json_dumps v))"
  by (cases v) (simp_all add: int_str_not_ws hd_append, simp_all add: is_ws_def)

lemma digit_not_letter:
  "is_digit c \<Longrightarrow> c \<noteq> CHR ''n'' \<and> c \<noteq> CHR ''t'' \<and> c \<noteq> CHR ''f'' \<and> c \<noteq> CHR ''N'' \<and> c \<noteq> CHR ''I'' \<and> c \<noteq> CHR ''-''"
  by (auto simp: is_digit_def)

lemma scan_literal_number:
  "s \<noteq> [] \<Longrightarrow> is_digit (hd s) \<or> (hd s = CHR ''-'' \<and> tl s \<noteq> [] \<and> is_digit (hd (tl s))) \<Longrightarrow>
   scan_literal n s = match_number n s"
proof (cases s)
  case (Cons c t)
  assume h: "is_digit (hd s) \<or> (hd s = CHR ''-'' \<and> tl s \<noteq> [] \<and> is_digit (hd (tl s)))"
  show ?thesis
  proof (cases "is_digit c")
    case True
    then show ?thesis using digit_not_letter[of c] Cons by (simp add: scan_literal_def)
  next
    case False
    with h Cons obtain d u where "c = CHR ''-''" "t = d # u" "is_digit d" by (cases t) auto
    then show ?thesis using digit_not_letter[of d] Cons by (simp add: scan_literal_def)
  qed
qed simp

lemma scan_str_plain:
  "list_all plain_char k \<Longrightarrow> scan_str n b acc (k @ quote_char # r) = Inr (rev acc @ k, r)"
  by (induction k arbitrary: acc) (auto simp: plain_char_def)

lemma dict_set_new: "k \<notin> set (map fst acc) \<Longrightarrow> dict_set acc k v = acc @ [(k, v)]"
  by (induction acc) auto

lemma join_items_Cons: "join_items (x # xs) = x @ (if xs = [] then [] else '', '' @ join_items xs)"
  by (cases xs) auto
lemma skip_ws_sep:
  "x \<noteq> [] \<Longrightarrow> \<not> is_ws (hd x) \<Longrightarrow> skip_ws ('', '' @ x) = '', '' @ x \<and> skip_ws (tl ('', '' @ x)) = x"
proof -
  assume x: "x \<noteq> []" "\<not> is_ws (hd x)"
  have "\<not> is_ws (CHR '','')" by (simp add: is_ws_def)
  then show ?thesis using x by (simp add: skip_ws_id skip_ws_space)
qed

lemma join_items_start:
  "vs \<noteq> [] \<Longrightarrow> join_items (map json_dumps vs) @ r \<noteq> [] \<and> \<not> is_ws (hd (join_items (map json_dumps vs) @ r))"
  using json_dumps_start[of "hd vs"] by (cases vs) (auto simp: join_items_Cons hd_append)

lemma array_loop:
  assumes IH: "\<And>x r f. x \<in> set vs \<Longrightarrow> json_stop r \<Longrightarrow> 2 * length (json_dumps x @ r) < f \<Longrightarrow>
      scan_once f n (json_dumps x @ r) = Inr (x, r)"
    and "vs \<noteq> []" "2 * length (join_items (map json_dumps vs) @ '']'' @ r) + 1 < f"
  shows "parse_array f n acc (join_items (map json_dumps vs) @ '']'' @ r) = Inr (PList (acc @ vs), r)"
  using assms
proof (induction vs arbitrary: acc f)
  case Nil then show ?case by simp
next
  case (Cons v vs)
  obtain f' where f: "f = Suc f'" using Cons.prems(3) by (cases f) auto
  show ?case
  proof (cases "vs = []")
    case True
    have "scan_once f' n (json_dumps v @ '']'' @ r) = Inr (v, '']'' @ r)"
      using Cons.prems(3) f True by (intro Cons.prems(1)) (auto simp: json_stop_def)
    then show ?thesis using f True by (simp add: skip_ws_def is_ws_def)
  next
    case False
    let ?X = "join_items (map json_dumps vs) @ '']'' @ r"
    have X: "?X \<noteq> []" "\<not> is_ws (hd ?X)" using join_items_start[OF False] by auto
    have sv: "scan_once f' n (json_dumps v @ '', '' @ ?X) = Inr (v, '', '' @ ?X)"
      using Cons.prems(3) f False by (intro Cons.prems(1)) (auto simp: json_stop_def join_items_Cons)
    have ih: "parse_array f' n (acc @ [v]) ?X = Inr (PList ((acc @ [v]) @ vs), r)"
      using Cons.prems(3) f False by (intro Cons.IH) (auto intro: Cons.prems(1) simp: join_items_Cons)
    show ?thesis using f False sv ih skip_ws_sep[OF X] by (simp add: join_items_Cons)
  qed
qed
lemma skip_ws_colon:
  "x \<noteq> [] \<Longrightarrow> \<not> is_ws (hd x) \<Longrightarrow> skip_ws ('': '' @ x) = '': '' @ x \<and> skip_ws (tl ('': '' @ x)) = x"
proof -
  assume x: "x \<noteq> []" "\<not> is_ws (hd x)"
  have "\<not> is_ws (CHR '':'')" by (simp add: is_ws_def)
  then show ?thesis using x by (simp add: skip_ws_id skip_ws_space)
qed

lemma object_loop:
  fixes kvs :: "(string \<times> pyval) list"
  defines "item \<equiv> (\<lambda>(k, v). quote_char # k @ quote_char # '': '' @ json_dumps v)"
  assumes IH: "\<And>k x r f. (k, x) \<in> set kvs \<Longrightarrow> json_stop r \<Longrightarrow> 2 * length (json_dumps x @ r) < f \<Longrightarrow>
      scan_once f n (json_dumps x @ r) = Inr (x, r)"
    and K: "\<forall>kv\<in>set kvs. list_all plain_char (fst kv)" and D: "distinct (map fst (acc @ kvs))"
    and "kvs \<noteq> []" "2 * length (join_items (map item kvs) @ ''}'' @ r) + 1 < f"
  shows "parse_object f n acc (join_items (map item kvs) @ ''}'' @ r) = Inr (PDict (acc @ kvs), r)"
  using assms(2-)
proof (induction kvs arbitrary: acc f)
  case Nil then show ?case by simp
next
  case (Cons kx kvs)
  obtain k x where kx: "kx = (k, x)" by (cases kx)
  obtain f' where f: "f = Suc f'" using Cons.prems(5) by (cases f) auto
  define REST where "REST = (if kvs = [] then ''}'' @ r else '', '' @ join_items (map item kvs) @ ''}'' @ r)"
  have s: "join_items (map item (kx # kvs)) @ ''}'' @ r = quote_char # k @ quote_char # '': '' @ json_dumps x @ REST"
    by (simp add: kx item_def REST_def join_items_Cons)
  have pk: "list_all plain_char k" using Cons.prems(2) kx by auto
  have st: "json_stop REST" by (simp add: REST_def json_stop_def)
  have len: "length (json_dumps x @ REST) < length (join_items (map item (kx # kvs)) @ ''}'' @ r)"
    unfolding s by simp
  have sv: "scan_once f' n (json_dumps x @ REST) = Inr (x, REST)"
    using Cons.prems(5) f st len kx by (intro Cons.prems(1)) auto
  have new: "k \<notin> set (map fst acc)" using Cons.prems(3) kx by auto
  have c: "skip_ws ('': '' @ json_dumps x @ REST) = '': '' @ json_dumps x @ REST \<and>
      skip_ws (tl ('': '' @ json_dumps x @ REST)) = json_dumps x @ REST"
    using skip_ws_colon[of "json_dumps x @ REST"] json_dumps_start[of x] by (simp add: hd_append)
  show ?case
  proof (cases "kvs = []")
    case True
    then have "skip_ws REST = ''}'' @ r" by (simp add: REST_def skip_ws_def is_ws_def)
    then show ?thesis unfolding s using f sv c True new
      by (simp add: scan_str_plain[OF pk] dict_set_new REST_def) (simp add: kx)
  next
    case False
    let ?X = "join_items (map item kvs) @ ''}'' @ r"
    obtain a b rest where kvs: "kvs = (a, b) # rest" using False by (cases kvs) auto
    have "?X \<noteq> [] \<and> hd ?X = quote_char" by (simp add: kvs item_def join_items_Cons)
    moreover have "\<not> is_ws quote_char" by (simp add: is_ws_def)
    ultimately have X: "?X \<noteq> []" "\<not> is_ws (hd ?X)" by auto
    have ih: "parse_object f' n (acc @ [(k, x)]) ?X = Inr (PDict ((acc @ [(k, x)]) @ kvs), r)"
      using Cons.prems f False kx by (intro Cons.IH) (auto simp: s REST_def join_items_Cons)
    show ?thesis unfolding s using f sv c False new skip_ws_sep[OF X] ih
      by (simp add: scan_str_plain[OF pk] dict_set_new REST_def) (simp add: kx)
  qed
qed
lemma scan_once_other:
  "s \<noteq> [] \<Longrightarrow> hd s \<noteq> quote_char \<Longrightarrow> hd s \<noteq> CHR ''{'' \<Longrightarrow> hd s \<noteq> CHR ''['' \<Longrightarrow>
   scan_once (Suc f) n s = scan_literal n s"
  by (cases s) auto

lemma scan_once_int_str:
  "scan_once (Suc f) n (int_str k @ r) = match_number n (int_str k @ r)"
proof -
  have st: "int_str k @ r \<noteq> [] \<and> (is_digit (hd (int_str k @ r)) \<or>
     (hd (int_str k @ r) = CHR ''-'' \<and> tl (int_str k @ r) \<noteq> [] \<and> is_digit (hd (tl (int_str k @ r)))))"
    using int_str_start[of k] by (auto simp: hd_append tl_append2)
  then have "hd (int_str k @ r) \<noteq> quote_char \<and> hd (int_str k @ r) \<noteq> CHR ''{'' \<and> hd (int_str k @ r) \<noteq> CHR ''[''"
    by (auto simp: is_digit_def)
  with st show ?thesis using scan_once_other[of "int_str k @ r" f n]
    by (simp add: scan_literal_number del: scan_once.simps)
qed

lemma json_dumps_hd: "hd (json_dumps v) \<noteq> CHR '']''"
proof -
  have "hd (int_str k) \<noteq> CHR '']''" for k using int_str_start[of k] by (auto simp: is_digit_def)
  moreover have "int_str k \<noteq> []" for k using int_str_start[of k] by simp
  ultimately show ?thesis by (cases v) (simp_all add: hd_append)
qed

lemma join_items_hd: "vs \<noteq> [] \<Longrightarrow> hd (join_items (map json_dumps vs) @ r) = hd (json_dumps (hd vs))"
  using json_dumps_start[of "hd vs"] by (cases vs) (auto simp: join_items_Cons hd_append)

lemma scan_once_dumps:
  "json_printable v \<Longrightarrow> json_stop r \<Longrightarrow> 2 * length (json_dumps v @ r) < f \<Longrightarrow>
   scan_once f n (json_dumps v @ r) = Inr (v, r)"
proof (induction v arbitrary: r f)
  case PNone
  then obtain f' where "f = Suc f'" by (cases f) auto
  then show ?case by (simp add: scan_literal_def)
next
  case (PBool b)
  then obtain f' where "f = Suc f'" by (cases f) auto
  then show ?case by (simp add: scan_literal_def)
next
  case (PInt i)
  then obtain f' where "f = Suc f'" by (cases f) auto
  then show ?case using PInt by (simp add: scan_once_int_str match_number_int del: scan_once.simps)
next
  case (PFloat x)
  then obtain f' where "f = Suc f'" by (cases f) auto
  then show ?case using PFloat scan_once_int_str[of f' n "\<lfloor>x\<rfloor>" "''.0'' @ r"]
    match_number_float[OF PFloat(2), of n "\<lfloor>x\<rfloor>"] by (simp del: scan_once.simps)
next
  case (PStr s)
  then obtain f' where "f = Suc f'" by (cases f) auto
  then show ?case using PStr scan_str_plain[of s n _ "[]" r] by simp
next
  case (PList vs)
  then obtain f' where f: "f = Suc f'" by (cases f) auto
  show ?case
  proof (cases "vs = []")
    case True then show ?thesis using f by (simp add: skip_ws_def is_ws_def)
  next
    case False
    have IH: "\<And>x r f. x \<in> set vs \<Longrightarrow> json_stop r \<Longrightarrow> 2 * length (json_dumps x @ r) < f \<Longrightarrow>
        scan_once f n (json_dumps x @ r) = Inr (x, r)"
      using PList by auto
    have sk: "skip_ws (join_items (map json_dumps vs) @ '']'' @ r) = join_items (map json_dumps vs) @ '']'' @ r"
      using join_items_start[OF False] by (simp add: skip_ws_id)
    have "parse_array f' n [] (join_items (map json_dumps vs) @ '']'' @ r) = Inr (PList ([] @ vs), r)"
      using PList.prems f False by (intro array_loop[OF IH]) auto
    then show ?thesis using f False sk join_items_hd[OF False, of "'']'' @ r"] json_dumps_hd[of "hd vs"]
      by simp
  qed
next
  case (PDict kvs)
  then obtain f' where f: "f = Suc f'" by (cases f) auto
  define item where "item = (\<lambda>(k, v). quote_char # k @ quote_char # '': '' @ json_dumps v)"
  show ?case
  proof (cases "kvs = []")
    case True then show ?thesis using f by (simp add: skip_ws_def is_ws_def)
  next
    case False
    have IH: "\<And>k x r f. (k, x) \<in> set kvs \<Longrightarrow> json_stop r \<Longrightarrow> 2 * length (json_dumps x @ r) < f \<Longrightarrow>
        scan_once f n (json_dumps x @ r) = Inr (x, r)"
      using PDict by fastforce
    obtain a b rest where kvs: "kvs = (a, b) # rest" using False by (cases kvs) auto
    have h: "hd (join_items (map item kvs) @ ''}'' @ r) = quote_char"
      by (simp add: kvs item_def join_items_Cons)
    have sk: "skip_ws (join_items (map item kvs) @ ''}'' @ r) = join_items (map item kvs) @ ''}'' @ r"
      using h by (simp add: skip_ws_id is_ws_def kvs item_def join_items_Cons)
    have "parse_object f' n [] (join_items (map item kvs) @ ''}'' @ r) = Inr (PDict ([] @ kvs), r)"
      using PDict.prems f False unfolding item_def by (intro object_loop[OF IH]) auto
    then show ?thesis using f False sk h unfolding item_def by simp
  qed
qed

lemma json_decode_dumps: "json_printable v \<Longrightarrow> json_decode (json_dumps v) = Inr v"
proof -
  assume p: "json_printable v"
  have "skip_ws (json_dumps v) = json_dumps v" using json_dumps_start[of v] by (simp add: skip_ws_id)
  moreover have "scan_once (2 * length (json_dumps v) + 1) (length (json_dumps v)) (json_dumps v @ []) = Inr (v, [])"
    using p by (intro scan_once_dumps) (simp_all add: json_stop_def)
  ultimately show ?thesis by (simp add: json_decode_def skip_ws_def del: scan_once.simps)
qed
lemma digit_not_space: "is_digit c \<Longrightarrow> \<not> py_isspace c"
  by (auto simp: is_digit_def py_isspace_def Let_def)

lemma int_str_ends: "\<not> py_isspace (hd (int_str i)) \<and> \<not> py_isspace (last (int_str i))"
proof -
  have "last (int_str i) \<in> set (nat_str (nat \<bar>i\<bar>))"
    by (auto simp: int_str_def)
  then have "\<not> py_isspace (last (int_str i))" using nat_str_digits digit_not_space by blast
  moreover have "\<not> py_isspace (hd (int_str i))"
    using int_str_start[of i] digit_not_space by (auto simp: py_isspace_def)
  ultimately show ?thesis by simp
qed

lemma json_dumps_ends: "\<not> py_isspace (hd (json_dumps v)) \<and> \<not> py_isspace (last (json_dumps v))"
  using int_str_ends int_str_not_ws
  by (cases v) (simp_all add: hd_append, simp_all add: py_isspace_def)

lemma json_loads_str_dumps: "json_printable v \<Longrightarrow> json_loads_str (json_dumps v) = Inr v"
  by (simp add: json_loads_str_def json_decode_dumps)
end
