(* ===== verification/Pipeline.thy ===== *)
theory Pipeline
  imports Calculator Orchestrator Json
begin

text \<open>
  \<open>process_drawing_pipeline\<close> (src/backend/core/analysis.py, lines
  142--200): the drawing preprocessor and the composition of extraction and
  calculation. The file system is the explicit store \<open>fstore\<close>: \<open>pdf2image\<close>'s
  \<open>convert_from_path\<close> reads the page count of a PDF there (and raises on
  anything else), \<open>images[0].save\<close> writes a raster image at the temporary
  path (when the directory is writable), \<open>os.remove\<close> deletes it. The
  preprocessing block with its three early \<open>return None, None\<close> is
  \<open>to_raster\<close>; the loop over the produced image paths is \<open>run_images\<close>; the
  clean-up loop is \<open>cleanup\<close>. An exception raised by the calculator is not
  caught by the pipeline: it leaves the function before the clean-up, and the
  model returns it together with the file store as it stands.
\<close>

section \<open>The code\<close>

record pipeline_env =
  vision :: vision_env
  pdf2image_installed :: bool
  can_write :: "string \<Rightarrow> bool"

definition temp_path :: "string \<Rightarrow> string" where
  "temp_path input_path = py_replace input_path ''.pdf'' ''_temp.jpg''"

text \<open>Lines 145--170: the paths to process and the temporary images, or the
  early \<open>return None, None\<close>.\<close>

definition to_raster ::
  "pipeline_env \<Rightarrow> fstore \<Rightarrow> string \<Rightarrow> (string list \<times> string list) option \<times> fstore" where
  "to_raster penv fs input_path =
     (if py_endswith (py_lower input_path) ''.pdf'' then
        if \<not> pdf2image_installed penv then (None, fs)
        else (case fs input_path of
                Some (PdfDoc pages) \<Rightarrow>
                  if pages = 0 then (None, fs)
                  else (let temp_img_path = temp_path input_path in
                        if can_write penv temp_img_path
                        then (Some ([temp_img_path], [temp_img_path]), fs(temp_img_path \<mapsto> RasterImage))
                        else (None, fs))
              | _ \<Rightarrow> (None, fs))
      else (Some ([input_path], []), fs))"

text \<open>Lines 173--193: extract, skip an empty result, calculate, stop at the
  first weight that is not None. \<open>extracted_data\<close> is unbound until the first
  iteration.\<close>

fun run_images ::
  "pipeline_env \<Rightarrow> fstore \<Rightarrow> string option \<Rightarrow> string list \<Rightarrow> pyval \<Rightarrow> pyval option \<Rightarrow>
   (pyval \<times> pyval) pyres" where
  "run_images penv fs api_key [] final_weight extracted_data =
     (case extracted_data of
        None \<Rightarrow> Inl (UnboundLocalError ''extracted_data'')
      | Some d \<Rightarrow> Inr (final_weight, d))"
| "run_images penv fs api_key (img_path # rest) final_weight extracted_data =
     (let d = snd (extract_dimensions_with_gemini (vision penv) fs img_path api_key) in
      if \<not> py_truth d then run_images penv fs api_key rest final_weight (Some d)
      else (case calculate_from_dimensions calculator_init d of
              Inl e \<Rightarrow> Inl e
            | Inr w \<Rightarrow>
                if w \<noteq> PNone then Inr (w, d)
                else run_images penv fs api_key rest w (Some d)))"

text \<open>Lines 195--198.\<close>

fun cleanup :: "string list \<Rightarrow> fstore \<Rightarrow> fstore" where
  "cleanup [] fs = fs"
| "cleanup (tmp # rest) fs = cleanup rest (if fs tmp \<noteq> None then fs(tmp := None) else fs)"

definition process_drawing_pipeline ::
  "pipeline_env \<Rightarrow> fstore \<Rightarrow> string \<Rightarrow> string option \<Rightarrow> (pyval \<times> pyval) pyres \<times> fstore" where
  "process_drawing_pipeline penv fs input_path api_key =
     (case to_raster penv fs input_path of
        (None, fs1) \<Rightarrow> (Inr (PNone, PNone), fs1)
      | (Some (image_paths, temp_images), fs1) \<Rightarrow>
          (case run_images penv fs1 api_key image_paths PNone None of
             Inl e \<Rightarrow> (Inl e, fs1)
           | Inr r \<Rightarrow> (Inr r, cleanup temp_images fs1)))"


section \<open>Scenarios\<close>

text \<open>Recorded collaborator behaviour for the spec's scenarios: a client whose
  every model answers the rectangular scenario as fenced JSON, one whose every
  call hits its quota, and one whose JSON lacks \<open>outer_width\<close>. The
  answers are read by CPython's \<open>json.loads\<close> (\<open>json_loads_str\<close>).\<close>

definition rect_json :: string where
  "rect_json = ''{\"shape_type\": \"rectangular\", \"outer_width\": 100, \"outer_height\": 80, \"draw_width\": 60, \"draw_height\": 40, \"draw_depth\": 10}''"

definition rect_dims :: pyval where
  "rect_dims = PDict [(''shape_type'', PStr ''rectangular''), (''outer_width'', PInt 100),
     (''outer_height'', PInt 80), (''draw_width'', PInt 60), (''draw_height'', PInt 40), (''draw_depth'', PInt 10)]"

definition demo_env :: pipeline_env where
  "demo_env = \<lparr>vision = \<lparr>client_ok = (\<lambda>k. True),
       generate = (\<lambda>m. GenText (Some (''```json'' @ rect_json @ ''```''))),
       json_loads = json_loads_str\<rparr>,
     pdf2image_installed = True, can_write = (\<lambda>p. True)\<rparr>"

definition quota_pipeline_env :: pipeline_env where
  "quota_pipeline_env = \<lparr>vision = quota_env, pdf2image_installed = True, can_write = (\<lambda>p. True)\<rparr>"

definition bad_json_env :: pipeline_env where
  "bad_json_env = demo_env\<lparr>vision := (vision demo_env)\<lparr>generate :=
     (\<lambda>m. GenText (Some (''```json'' @ json_dumps (PDict [(''outer_height'', PInt 80)]) @ ''```'')))\<rparr>\<rparr>"

section \<open>Lemmas\<close>

text \<open>A printable value, fenced as the prompt's answers are and padded with
  whitespace, is cleaned and parsed back to itself.\<close>

lemma fenced_json_loads:
  assumes "json_printable v" "CHR ''`'' \<notin> set (pre @ json_dumps v @ suf)"
    and "list_all py_isspace pre" "list_all py_isspace suf"
  shows "json_loads_str (clean_response (''```json'' @ pre @ json_dumps v @ suf @ ''```'')) = Inr v"
proof -
  have "clean_response (''```json'' @ (pre @ json_dumps v @ suf) @ ''```'') = py_strip (pre @ json_dumps v @ suf)"
    using assms(2) by (rule clean_fenced)
  also have "\<dots> = json_dumps v"
    using assms(3,4) json_dumps_ends[of v] json_dumps_start[of v] by (intro py_strip_pad) auto
  finally show ?thesis using assms(1) by (simp add: json_loads_str_dumps)
qed

lemma rect_json_dumps: "rect_json = json_dumps rect_dims"
  by (simp add: rect_json_def rect_dims_def int_str_def nat_str.simps py_str_eval)

lemma rect_dims_printable: "json_printable rect_dims"
  by (simp add: rect_dims_def nat_str.simps plain_char_def)

lemma run_images_single:
  "run_images penv fs api_key [p] PNone None =
     (let d = snd (extract_dimensions_with_gemini (vision penv) fs p api_key) in
      if \<not> py_truth d then Inr (PNone, d)
      else (case calculate_from_dimensions calculator_init d of Inl e \<Rightarrow> Inl e | Inr w \<Rightarrow> Inr (w, d)))"
  by (simp add: Let_def run_images.simps split: sum.split)

lemma cleanup_single [simp]: "cleanup [tmp] fs = fs(tmp := None)"
  by auto

lemma to_raster_shapes:
  "(\<not> py_endswith (py_lower input_path) ''.pdf'' \<and>
      to_raster penv fs input_path = (Some ([input_path], []), fs)) \<or>
   (py_endswith (py_lower input_path) ''.pdf'' \<and>
      (to_raster penv fs input_path = (None, fs) \<or>
       to_raster penv fs input_path =
        (Some ([temp_path input_path], [temp_path input_path]), fs(temp_path input_path \<mapsto> RasterImage))))"
  by (auto simp: to_raster_def Let_def split: option.split disk_file.split)

lemma to_raster_one_image:
  "to_raster penv fs input_path = (None, fs) \<or>
   (\<exists>p ts fs1. to_raster penv fs input_path = (Some ([p], ts), fs1))"
  using to_raster_shapes[of input_path penv fs] by blast

declare run_images.simps(2) [simp del]

lemma pipeline_eq:
  "process_drawing_pipeline penv fs input_path api_key =
     (case to_raster penv fs input_path of
        (None, fs1) \<Rightarrow> (Inr (PNone, PNone), fs1)
      | (Some (paths, temps), fs1) \<Rightarrow>
          (case run_images penv fs1 api_key paths PNone None of
             Inl e \<Rightarrow> (Inl e, fs1) | Inr r \<Rightarrow> (Inr r, cleanup temps fs1)))"
  by (simp add: process_drawing_pipeline_def)

lemma run_single_weight:
  "run_images penv fs api_key [p] PNone None = Inr (w, d) \<Longrightarrow> w \<noteq> PNone \<Longrightarrow>
   py_truth d \<and> calculate_from_dimensions calculator_init d = Inr w"
  by (auto simp: run_images_single Let_def split: if_splits sum.splits)

lemma run_single_Inr_or_Inl:
  "run_images penv fs api_key [p] PNone None = Inl e \<Longrightarrow>
   calculate_from_dimensions calculator_init (snd (extract_dimensions_with_gemini (vision penv) fs p api_key)) = Inl e"
  by (auto simp: run_images_single Let_def split: if_splits sum.splits)

lemma extract_falsy_of_fails:
  "\<forall>m\<in>set models_to_try. fails env m \<Longrightarrow> snd (extract_dimensions_with_gemini env fs p k) = PDict []"
proof -
  assume a: "\<forall>m\<in>set models_to_try. fails env m"
  have t: "dropWhile (fails env) models_to_try = []"
    using a by (simp add: dropWhile_eq_Nil_conv)
  show ?thesis
    unfolding extract_dimensions_with_gemini_def try_models_first_success_eq first_success_def Let_def t
    by simp
qed

lemma demo_extract:
  "image_opens fs p \<Longrightarrow> extract_dimensions_with_gemini (vision demo_env) fs p k = ([(''gemini-2.0-flash'', Parsed)], rect_dims)"
proof -
  assume "image_opens fs p"
  moreover have "CHR ''`'' \<notin> set rect_json" by (simp add: rect_json_def)
  then have "json_loads_str (clean_response (''```json'' @ [] @ rect_json @ [] @ ''```'')) = Inr rect_dims"
    unfolding rect_json_dumps using rect_dims_printable by (intro fenced_json_loads) simp_all
  ultimately show ?thesis
    by (simp add: extract_dimensions_with_gemini_def demo_env_def models_to_try_def)
qed

lemma rect_dims_weight: "calculate_from_dimensions calculator_init rect_dims = Inr (PFloat 0.085)"
  by (simp add: rect_dims_def calc_eval round_digits_def round_half_even_def)

lemma rect_dims_truth: "py_truth rect_dims"
  by (simp add: rect_dims_def)

lemma demo_pdf_run:
  assumes "fs ''part.pdf'' = Some (PdfDoc 1)"
  shows "process_drawing_pipeline demo_env fs ''part.pdf'' (Some ''key'') =
           (Inr (PFloat 0.085, rect_dims), fs(''part_temp.jpg'' := None))"
proof -
  have tp: "temp_path ''part.pdf'' = ''part_temp.jpg''" by (simp add: temp_path_def py_str_eval)
  have "to_raster demo_env fs ''part.pdf'' =
          (Some ([''part_temp.jpg''], [''part_temp.jpg'']), fs(''part_temp.jpg'' \<mapsto> RasterImage))"
    using assms tp by (simp add: to_raster_def demo_env_def py_str_eval Let_def)
  moreover have "run_images demo_env (fs(''part_temp.jpg'' \<mapsto> RasterImage)) (Some ''key'') [''part_temp.jpg''] PNone None =
      Inr (PFloat 0.085, rect_dims)"
    using rect_dims_weight by (simp add: run_images_single demo_extract image_opens_def Let_def rect_dims_truth)
  ultimately show ?thesis by (simp add: pipeline_eq)
qed

lemma to_raster_pdf:
  "py_endswith (py_lower input_path) ''.pdf'' \<Longrightarrow> fs input_path = Some (PdfDoc (Suc n)) \<Longrightarrow>
   pdf2image_installed penv \<Longrightarrow> can_write penv (temp_path input_path) \<Longrightarrow>
   to_raster penv fs input_path =
     (Some ([temp_path input_path], [temp_path input_path]), fs(temp_path input_path \<mapsto> RasterImage))"
  by (simp add: to_raster_def Let_def)

lemma quota_env_fails: "\<forall>m \<in> set models_to_try. fails quota_env m"
  by (simp add: fails_def attempt_of_def quota_env_def)

lemma bad_json_run:
  "process_drawing_pipeline bad_json_env [''part.pdf'' \<mapsto> PdfDoc 1] ''part.pdf'' (Some ''key'') =
     (Inl (KeyError ''outer_width''), [''part.pdf'' \<mapsto> PdfDoc 1, ''part_temp.jpg'' \<mapsto> RasterImage])"
proof -
  have tp: "temp_path ''part.pdf'' = ''part_temp.jpg''" by (simp add: temp_path_def py_str_eval)
  have "to_raster bad_json_env [''part.pdf'' \<mapsto> PdfDoc 1] ''part.pdf'' =
          (Some ([''part_temp.jpg''], [''part_temp.jpg'']), [''part.pdf'' \<mapsto> PdfDoc 1, ''part_temp.jpg'' \<mapsto> RasterImage])"
    using tp by (simp add: to_raster_def bad_json_env_def demo_env_def py_str_eval Let_def)
  moreover have "run_images bad_json_env [''part.pdf'' \<mapsto> PdfDoc 1, ''part_temp.jpg'' \<mapsto> RasterImage] (Some ''key'')
      [''part_temp.jpg''] PNone None = Inl (KeyError ''outer_width'')"
  proof -
    have "json_loads_str (clean_response (''```json'' @ [] @ json_dumps (PDict [(''outer_height'', PInt 80)]) @ [] @ ''```'')) =
        Inr (PDict [(''outer_height'', PInt 80)])"
      by (intro fenced_json_loads) (simp_all add: nat_str.simps int_str_def py_str_eval plain_char_def)
    then show ?thesis
      by (simp add: run_images_single Let_def extract_dimensions_with_gemini_def bad_json_env_def demo_env_def
          image_opens_def models_to_try_def calculate_from_dimensions_def py_get_def py_getitem_def)
  qed
  ultimately show ?thesis by (simp add: pipeline_eq)
qed

section \<open>Properties\<close>

text \<open>C15 (safety): whenever the pipeline returns normally with a weight, the extracted mapping was non-empty and that weight is exactly what \<open>calculate_from_dimensions\<close> computes from it: no weight is reported without a usable extraction.\<close>

theorem weight_requires_extraction:
  assumes "fst (process_drawing_pipeline penv fs input_path api_key) = Inr (w, d)" "w \<noteq> PNone"
  shows "py_truth d \<and> calculate_from_dimensions calculator_init d = Inr w"
  using to_raster_one_image[of penv fs input_path]
proof
  assume "to_raster penv fs input_path = (None, fs)"
  with assms show ?thesis by (simp add: pipeline_eq)
next
  assume "\<exists>p ts fs1. to_raster penv fs input_path = (Some ([p], ts), fs1)"
  then obtain p ts fs1 where "to_raster penv fs input_path = (Some ([p], ts), fs1)" by blast
  with assms(1) have "run_images penv fs1 api_key [p] PNone None = Inr (w, d)"
    by (auto simp: pipeline_eq split: sum.splits)
  then show ?thesis using assms(2) by (rule run_single_weight)
qed

theorem weight_requires_extraction_witness:
  "py_truth rect_dims \<and> calculate_from_dimensions calculator_init rect_dims = Inr (PFloat 0.085)"
  using weight_requires_extraction[of demo_env "[''part.pdf'' \<mapsto> PdfDoc 1]" "''part.pdf''" "Some ''key''"
      "PFloat 0.085" rect_dims] demo_pdf_run[of "[''part.pdf'' \<mapsto> PdfDoc 1]"]
  by simp

text \<open>When every configured model fails on a raster input, the pipeline returns no weight together with the empty extraction \<open>{}\<close>, never reaches the calculator, and leaves the file system unchanged.\<close>

theorem exhausted_no_weight:
  "\<forall>m\<in>set models_to_try. fails (vision penv) m \<Longrightarrow> \<not> py_endswith (py_lower input_path) ''.pdf'' \<Longrightarrow>
   process_drawing_pipeline penv fs input_path api_key = (Inr (PNone, PDict []), fs)"
  using to_raster_shapes[of input_path penv fs]
  by (auto simp: pipeline_eq run_images_single extract_falsy_of_fails)

theorem exhausted_no_weight_witness:
  "process_drawing_pipeline quota_pipeline_env [''part.png'' \<mapsto> RasterImage] ''part.png'' None =
     (Inr (PNone, PDict []), [''part.png'' \<mapsto> RasterImage])"
  by (rule exhausted_no_weight) (simp_all add: quota_pipeline_env_def quota_env_fails py_str_eval)

text \<open>C16 (safety): on every normal return the only change to the file system is that the temporary image path is removed: the temporary raster never outlives a run that returns.\<close>

theorem normal_return_cleans_up:
  "process_drawing_pipeline penv fs input_path api_key = (Inr r, fs') \<Longrightarrow>
   fs' = fs \<or> fs' = fs(temp_path input_path := None)"
  using to_raster_shapes[of input_path penv fs]
  by (auto simp: pipeline_eq split: sum.splits)

theorem normal_return_cleans_up_witness:
  "[''part.pdf'' \<mapsto> PdfDoc 1, ''part_temp.jpg'' \<mapsto> OtherFile](''part_temp.jpg'' := None) = [''part.pdf'' \<mapsto> PdfDoc 1, ''part_temp.jpg'' \<mapsto> OtherFile] \<or>
   [''part.pdf'' \<mapsto> PdfDoc 1, ''part_temp.jpg'' \<mapsto> OtherFile](''part_temp.jpg'' := None) =
     [''part.pdf'' \<mapsto> PdfDoc 1, ''part_temp.jpg'' \<mapsto> OtherFile](temp_path ''part.pdf'' := None)"
  by (rule normal_return_cleans_up[OF demo_pdf_run]) simp

text \<open>C17 (safety, code bug): when the calculator raises on the extracted data of a PDF input, the exception leaves the pipeline before the clean-up loop and the temporary JPEG stays on disk.\<close>

theorem calculator_error_leaks_temp:
  "process_drawing_pipeline penv fs input_path api_key = (Inl e, fs') \<Longrightarrow>
   py_endswith (py_lower input_path) ''.pdf'' \<Longrightarrow> fs' = fs(temp_path input_path \<mapsto> RasterImage)"
  using to_raster_shapes[of input_path penv fs]
  by (auto simp: pipeline_eq split: sum.splits)

theorem calculator_error_leaks_temp_witness:
  "[''part.pdf'' \<mapsto> PdfDoc 1, ''part_temp.jpg'' \<mapsto> RasterImage] =
     [''part.pdf'' \<mapsto> PdfDoc 1](temp_path ''part.pdf'' \<mapsto> RasterImage)"
  by (rule calculator_error_leaks_temp[OF bad_json_run]) (simp add: py_str_eval)

text \<open>C18 (safety, code bug): for a PDF whose name ends in \<open>.PDF\<close> (no lower-case \<open>.pdf\<close> in the path), the temporary path equals the input path: the input document is overwritten by the JPEG and, on a normal return, deleted.\<close>

theorem uppercase_pdf_destroys_input:
  assumes "py_endswith (py_lower input_path) ''.pdf''" "\<not> py_in ''.pdf'' input_path"
    and "fs input_path = Some (PdfDoc (Suc n))" "pdf2image_installed penv" "can_write penv input_path"
  shows "snd (process_drawing_pipeline penv fs input_path api_key) input_path = None \<or>
         snd (process_drawing_pipeline penv fs input_path api_key) input_path = Some RasterImage"
proof -
  have tp: "temp_path input_path = input_path"
    using assms(2) by (simp add: temp_path_def py_replace_absent)
  have "to_raster penv fs input_path = (Some ([input_path], [input_path]), fs(input_path \<mapsto> RasterImage))"
    using to_raster_pdf[of input_path fs n penv] assms tp by simp
  then show ?thesis
    by (simp add: pipeline_eq split: sum.split)
qed

theorem uppercase_pdf_destroys_input_witness:
  "snd (process_drawing_pipeline demo_env [''DRAWING.PDF'' \<mapsto> PdfDoc 1] ''DRAWING.PDF'' (Some ''key'')) ''DRAWING.PDF'' = None \<or>
   snd (process_drawing_pipeline demo_env [''DRAWING.PDF'' \<mapsto> PdfDoc 1] ''DRAWING.PDF'' (Some ''key'')) ''DRAWING.PDF'' = Some RasterImage"
  by (rule uppercase_pdf_destroys_input[where n = 0]) (simp_all add: py_str_eval demo_env_def)

text \<open>C19 (error): a PDF with zero pages returns \<open>(None, None)\<close> and leaves no file behind.\<close>

theorem zero_page_pdf:
  "py_endswith (py_lower input_path) ''.pdf'' \<Longrightarrow> fs input_path = Some (PdfDoc 0) \<Longrightarrow>
   process_drawing_pipeline penv fs input_path api_key = (Inr (PNone, PNone), fs)"
  by (simp add: pipeline_eq to_raster_def)

theorem zero_page_pdf_witness:
  "process_drawing_pipeline demo_env [''blank.pdf'' \<mapsto> PdfDoc 0] ''blank.pdf'' (Some ''key'') =
     (Inr (PNone, PNone), [''blank.pdf'' \<mapsto> PdfDoc 0])"
  by (rule zero_page_pdf) (simp_all add: py_str_eval)

text \<open>C20 (safety): after a normal run on a PDF, whatever file previously existed at the derived temporary path (\<open><name>_temp.jpg\<close>) is gone.\<close>

theorem existing_temp_file_deleted:
  assumes "py_endswith (py_lower input_path) ''.pdf''" "fs input_path = Some (PdfDoc (Suc n))"
    and "pdf2image_installed penv" "can_write penv (temp_path input_path)"
    and "process_drawing_pipeline penv fs input_path api_key = (Inr r, fs')"
  shows "fs' (temp_path input_path) = None"
  using assms(5) to_raster_pdf[of input_path fs n penv, OF assms(1-4)] by (auto simp: pipeline_eq split: sum.splits)

theorem existing_temp_file_deleted_witness:
  "([''part.pdf'' \<mapsto> PdfDoc 1, ''part_temp.jpg'' \<mapsto> OtherFile](''part_temp.jpg'' := None)) (temp_path ''part.pdf'') = None"
  by (rule existing_temp_file_deleted[where n = 0, OF _ _ _ _ demo_pdf_run])
     (simp_all add: py_str_eval demo_env_def)

text \<open>End to end, a one-page \<open>part.pdf\<close> whose first model answers the spec's rectangular scenario as fenced JSON yields 0.085 kg with the extracted mapping, and the file system is as before.\<close>

theorem pdf_scenario_end_to_end:
  "process_drawing_pipeline demo_env [''part.pdf'' \<mapsto> PdfDoc 1] ''part.pdf'' (Some ''key'') =
     (Inr (PFloat 0.085, rect_dims), [''part.pdf'' \<mapsto> PdfDoc 1])"
  using demo_pdf_run[of "[''part.pdf'' \<mapsto> PdfDoc 1]"] by (simp add: fun_upd_twist)

end
