(* ===== verification/Cli.thy ===== *)
theory Cli
  imports Pipeline
begin

text \<open>
  The two command-line scripts around the analysis module: the
  \<open>__main__\<close> block of src/backend/core/analysis.py, which picks an API key
  and an input image and runs the pipeline, and src/verify_integration.py,
  which imports the module and reports whether the pipeline entry point is
  there. The environment variables are a function from names to values; the
  key literal of line 208 is the parameter \<open>builtin_key\<close> (a credential is
  not copied into the model). The import of the module is its outcome: the
  names it binds, or the message of the exception it raises.
\<close>

section \<open>analysis.py, lines 202--226\<close>

text \<open>Line 205--208: \<open>os.environ.get("GOOGLE_API_KEY")\<close>, replaced by the
  built-in key when it is unset or empty.\<close>

definition api_key_of :: "(string \<Rightarrow> string option) \<Rightarrow> string \<Rightarrow> string" where
  "api_key_of environ builtin_key =
     (case environ ''GOOGLE_API_KEY'' of
        Some k \<Rightarrow> if k = [] then builtin_key else k
      | None \<Rightarrow> builtin_key)"

definition candidates :: "string list" where
  "candidates = [''AMR1224TG_OUTER.png'']"

datatype cli_outcome =
    NoCandidateImage "string list"
  | PlaceholderKey string
  | PipelineRun "(pyval \<times> pyval) pyres"

text \<open>Lines 210--226: the first candidate that exists, then the placeholder
  check, then the run.\<close>

definition analysis_main ::
  "pipeline_env \<Rightarrow> (string \<Rightarrow> string option) \<Rightarrow> string \<Rightarrow> fstore \<Rightarrow> cli_outcome \<times> fstore" where
  "analysis_main penv environ builtin_key fs =
     (let api_key = api_key_of environ builtin_key;
          image_file = find (\<lambda>cand. fs cand \<noteq> None) candidates in
      case image_file of
        None \<Rightarrow> (NoCandidateImage candidates, fs)
      | Some img \<Rightarrow>
          if api_key = ''YOUR_GOOGLE_API_KEY'' then (PlaceholderKey img, fs)
          else (let (r, fs') = process_drawing_pipeline penv fs img (Some api_key) in (PipelineRun r, fs')))"

section \<open>verify_integration.py\<close>

datatype import_result = Imported "string list" | ImportRaised string

datatype report_line =
    ImportedOk
  | AvailableItems "string list"
  | PipelineAvailable
  | PipelineMissing
  | ImportFailed string

text \<open>Lines 7--18.\<close>

definition verify_integration :: "import_result \<Rightarrow> report_line list" where
  "verify_integration r =
     (case r of
        Imported names \<Rightarrow>
          [ImportedOk, AvailableItems (filter (\<lambda>item. \<not> py_startswith item ''__'') names),
           if ''process_drawing_pipeline'' \<in> set names then PipelineAvailable else PipelineMissing]
      | ImportRaised e \<Rightarrow> [ImportFailed e])"

text \<open>The names analysis.py binds at module level (lines 1--9, 64, 142),
  besides the interpreter's dunder names.\<close>

definition analysis_names :: "string list" where
  "analysis_names =
     [''os'', ''json'', ''math'', ''genai'', ''Image'', ''Path'', ''DrawnSteelCalculator'',
      ''extract_dimensions_with_gemini'', ''process_drawing_pipeline'']"

section \<open>Lemmas\<close>

lemma api_key_of_nonempty: "builtin_key \<noteq> [] \<Longrightarrow> api_key_of environ builtin_key \<noteq> []"
  by (simp add: api_key_of_def split: option.split)

lemma placeholder_only_from_environ:
  "builtin_key \<noteq> ''YOUR_GOOGLE_API_KEY'' \<Longrightarrow> fst (analysis_main penv environ builtin_key fs) = PlaceholderKey img \<Longrightarrow>
   environ ''GOOGLE_API_KEY'' = Some ''YOUR_GOOGLE_API_KEY''"
  by (auto simp: analysis_main_def api_key_of_def Let_def split_def split: option.splits if_splits)

lemma analysis_main_no_image:
  "fs ''AMR1224TG_OUTER.png'' = None \<Longrightarrow> analysis_main penv environ k fs = (NoCandidateImage candidates, fs)"
  by (simp add: analysis_main_def candidates_def)

lemma verify_integration_analysis:
  "verify_integration (Imported (''__name__'' # ''__file__'' # analysis_names)) =
     [ImportedOk, AvailableItems analysis_names, PipelineAvailable]"
  by (simp add: verify_integration_def analysis_names_def)

section \<open>Properties\<close>

text \<open>C23 (functional): when the candidate image exists, the script runs the
  pipeline on it with the key \<open>GOOGLE_API_KEY\<close> holds when that is set,
  non-empty and not the placeholder; with the built-in key when the variable
  is unset or empty; and stops at the placeholder check, leaving the files
  alone, when the variable holds the placeholder.\<close>

theorem analysis_main_runs:
  assumes "fs ''AMR1224TG_OUTER.png'' \<noteq> None" "builtin_key \<noteq> ''YOUR_GOOGLE_API_KEY''"
  shows "(environ ''GOOGLE_API_KEY'' = Some k \<and> k \<noteq> [] \<and> k \<noteq> ''YOUR_GOOGLE_API_KEY'' \<longrightarrow>
           analysis_main penv environ builtin_key fs =
             (case process_drawing_pipeline penv fs ''AMR1224TG_OUTER.png'' (Some k) of (r, fs') \<Rightarrow> (PipelineRun r, fs'))) \<and>
         (environ ''GOOGLE_API_KEY'' \<in> {None, Some []} \<longrightarrow>
           analysis_main penv environ builtin_key fs =
             (case process_drawing_pipeline penv fs ''AMR1224TG_OUTER.png'' (Some builtin_key) of
                (r, fs') \<Rightarrow> (PipelineRun r, fs'))) \<and>
         (environ ''GOOGLE_API_KEY'' = Some ''YOUR_GOOGLE_API_KEY'' \<longrightarrow>
           analysis_main penv environ builtin_key fs = (PlaceholderKey ''AMR1224TG_OUTER.png'', fs))"
  using assms by (auto simp: analysis_main_def api_key_of_def candidates_def Let_def split: prod.split)

theorem analysis_main_runs_witness:
  "analysis_main demo_env (\<lambda>v. Some ''env-key'') ''builtin'' [''AMR1224TG_OUTER.png'' \<mapsto> RasterImage] =
     (case process_drawing_pipeline demo_env [''AMR1224TG_OUTER.png'' \<mapsto> RasterImage] ''AMR1224TG_OUTER.png''
        (Some ''env-key'') of (r, fs') \<Rightarrow> (PipelineRun r, fs')) \<and>
   analysis_main demo_env (\<lambda>v. None) ''builtin'' [''AMR1224TG_OUTER.png'' \<mapsto> RasterImage] =
     (case process_drawing_pipeline demo_env [''AMR1224TG_OUTER.png'' \<mapsto> RasterImage] ''AMR1224TG_OUTER.png''
        (Some ''builtin'') of (r, fs') \<Rightarrow> (PipelineRun r, fs'))"
  using analysis_main_runs[of "[''AMR1224TG_OUTER.png'' \<mapsto> RasterImage]" "''builtin''" "\<lambda>v. Some ''env-key''" "''env-key''" demo_env]
    analysis_main_runs[of "[''AMR1224TG_OUTER.png'' \<mapsto> RasterImage]" "''builtin''" "\<lambda>v. None" _ demo_env]
  by simp

end
