(* ===== verification/Models.thy ===== *)
theory Models
  imports PyValue "HOL-Library.Word"
begin

text \<open>
  The persistence models of src/backend/models.py. A bson \<open>ObjectId\<close> is
  its 12 bytes, a 96-bit word; \<open>str(oid)\<close> is their lower-case hex spelling
  and \<open>ObjectId(s)\<close> parses a 24-character hex string (either case) or
  takes 12 raw bytes. \<open>validate_object_id\<close>, the pydantic before-validator
  of \<open>PyObjectId\<close>, is modelled over the values it can receive; the two
  pydantic models are records. The lemmas show that printing and parsing
  an id are inverse and which inputs the validator rejects.
\<close>

type_synonym oid = "96 word"

section \<open>bson's ObjectId\<close>

text \<open>One hex digit, lower case as \<open>binascii.hexlify\<close> writes it.\<close>

definition hex_digit :: "nat \<Rightarrow> char" where
  "hex_digit d = (if d < 10 then char_of (48 + d) else char_of (87 + d))"

text \<open>The value of a hex digit as \<open>bytes.fromhex\<close> reads it.\<close>

definition hex_val :: "char \<Rightarrow> nat option" where
  "hex_val c =
     (let n = of_char c :: nat in
      if 48 \<le> n \<and> n \<le> 57 then Some (n - 48)
      else if 97 \<le> n \<and> n \<le> 102 then Some (n - 87)
      else if 65 \<le> n \<and> n \<le> 70 then Some (n - 55)
      else None)"

text \<open>The \<open>k\<close> low hex digits of \<open>n\<close>, most significant first.\<close>

fun hex_nat :: "nat \<Rightarrow> nat \<Rightarrow> string" where
  "hex_nat 0 n = []"
| "hex_nat (Suc k) n = hex_nat k (n div 16) @ [hex_digit (n mod 16)]"

text \<open>Reading hex digits left to right into an accumulator.\<close>

fun hex_acc :: "nat \<Rightarrow> string \<Rightarrow> nat option" where
  "hex_acc acc [] = Some acc"
| "hex_acc acc (c # cs) = (case hex_val c of Some d \<Rightarrow> hex_acc (16 * acc + d) cs | None \<Rightarrow> None)"

text \<open>\<open>str(oid)\<close>: \<open>binascii.hexlify(self.__id).decode()\<close>.\<close>

definition oid_str :: "oid \<Rightarrow> string" where
  "oid_str oid = hex_nat 24 (unat oid)"

text \<open>\<open>ObjectId(s)\<close> for a \<open>str\<close>: \<open>InvalidId\<close> unless it has 24 characters
  that \<open>bytes.fromhex\<close> accepts.\<close>

definition oid_of_str :: "string \<Rightarrow> oid option" where
  "oid_of_str s = (if length s = 24 then map_option of_nat (hex_acc 0 s) else None)"

text \<open>\<open>ObjectId(b)\<close> for 12 raw bytes, big-endian.\<close>

definition oid_of_bytes :: "8 word list \<Rightarrow> oid" where
  "oid_of_bytes bs = of_nat (foldl (\<lambda>a b. 256 * a + unat b) 0 bs)"

text \<open>The values a \<open>PyObjectId\<close> field can be given: an ObjectId, a string,
  bytes, None, or anything else (numbers, lists, dicts), which \<open>ObjectId()\<close>
  rejects with \<open>TypeError\<close>.\<close>

datatype idval = IdObjectId oid | IdStr string | IdBytes "8 word list" | IdNone | IdOther

text \<open>\<open>ObjectId(v)\<close> for a given \<open>v\<close>: None when it raises \<open>InvalidId\<close>
  or \<open>TypeError\<close>.\<close>

fun objectid_new :: "idval \<Rightarrow> oid option" where
  "objectid_new (IdObjectId oid) = Some oid"
| "objectid_new (IdStr s) = oid_of_str s"
| "objectid_new (IdBytes bs) = (if length bs = 12 then Some (oid_of_bytes bs) else None)"
| "objectid_new IdNone = None"
| "objectid_new IdOther = None"

text \<open>\<open>ObjectId.is_valid\<close>: false on a falsy value, otherwise whether the
  constructor accepts it.\<close>

fun idval_truth :: "idval \<Rightarrow> bool" where
  "idval_truth (IdStr s) = (s \<noteq> [])"
| "idval_truth (IdBytes bs) = (bs \<noteq> [])"
| "idval_truth IdNone = False"
| "idval_truth _ = True"

definition objectid_is_valid :: "idval \<Rightarrow> bool" where
  "objectid_is_valid v \<longleftrightarrow> idval_truth v \<and> objectid_new v \<noteq> None"

section \<open>models.py\<close>

text \<open>Lines 5--10.\<close>

definition validate_object_id :: "idval \<Rightarrow> oid pyres" where
  "validate_object_id v =
     (case v of
        IdObjectId oid \<Rightarrow> Inr oid
      | _ \<Rightarrow> if objectid_is_valid v then Inr (the (objectid_new v))
            else Inl (ValueError ''Invalid ObjectId''))"

text \<open>Lines 19--23 and 33--39: the documents as the routers store them.\<close>

record UserModel =
  uid :: oid
  username :: string
  email :: string
  hashed_password :: string

text \<open>Lines 30--31: \<open>UserInDB\<close> adds nothing to \<open>UserModel\<close>.\<close>

type_synonym UserInDB = UserModel

record ScanHistoryModel =
  hid :: oid
  user_id :: oid
  filename :: string
  calculated_weight_kg :: real
  extracted_data :: pyval
  timestamp :: string

section \<open>Lemmas\<close>

lemma hex_val_digit: "d < 16 \<Longrightarrow> hex_val (hex_digit d) = Some d"
  by (auto simp: hex_val_def hex_digit_def Let_def)
lemma hex_acc_append:
  "hex_acc acc (xs @ ys) = (case hex_acc acc xs of Some a \<Rightarrow> hex_acc a ys | None \<Rightarrow> None)"
  by (induction acc xs rule: hex_acc.induct) (auto split: option.split)
lemma length_hex_nat [simp]: "length (hex_nat k n) = k"
  by (induction k arbitrary: n) auto
lemma hex_acc_hex_nat: "hex_acc 0 (hex_nat k n) = Some (n mod 16 ^ k)"
proof (induction k arbitrary: n)
  case 0 then show ?case by simp
next
  case (Suc k)
  have "16 * (n div 16 mod 16 ^ k) + n mod 16 = n mod 16 ^ Suc k"
    by (simp add: mod_mult2_eq)
  then show ?case by (simp add: hex_acc_append Suc.IH hex_val_digit)
qed
lemma unat_oid_bound: "unat (w :: oid) < 16 ^ 24"
  using unsigned_less[of w, where ?'a = nat] by simp
lemma oid_of_str_oid_str: "oid_of_str (oid_str w) = Some w"
proof -
  have "unat w mod 16 ^ 24 = unat w" using unat_oid_bound[of w] by (rule mod_less)
  then show ?thesis by (simp add: oid_of_str_def oid_str_def hex_acc_hex_nat del: power_numeral)
qed
lemma hex_val_lower:
  "hex_val c = Some d \<Longrightarrow> d < 16 \<and> hex_digit d = py_lower_char c"
  by (auto simp: hex_val_def hex_digit_def py_lower_char_def Let_def split: if_splits)
lemma hex_acc_lower:
  "hex_acc 0 s = Some n \<Longrightarrow> n < 16 ^ length s \<and> hex_nat (length s) n = py_lower s"
proof (induction s arbitrary: n rule: rev_induct)
  case Nil then show ?case by (simp add: py_lower_def)
next
  case (snoc c xs)
  then obtain a d where a: "hex_acc 0 xs = Some a" "hex_val c = Some d" "n = 16 * a + d"
    by (auto simp: hex_acc_append split: option.splits)
  with snoc.IH have ih: "a < 16 ^ length xs" "hex_nat (length xs) a = py_lower xs" by auto
  from hex_val_lower[OF a(2)] have d: "d < 16" "hex_digit d = py_lower_char c" by auto
  have "n div 16 = a" "n mod 16 = d" using a(3) d(1) by simp_all
  moreover have "n < 16 ^ Suc (length xs)" using a(3) d(1) ih(1) by simp
  ultimately show ?case using ih(2) d(2) by (simp add: py_lower_def)
qed
lemma oid_str_of_str: "oid_of_str s = Some w \<Longrightarrow> oid_str w = py_lower s"
proof -
  assume h: "oid_of_str s = Some w"
  then obtain n where n: "length s = 24" "hex_acc 0 s = Some n" "w = of_nat n"
    by (auto simp: oid_of_str_def split: if_splits)
  with hex_acc_lower[OF n(2)] have "n < 2 ^ 96" "hex_nat 24 n = py_lower s" by simp_all
  moreover have "unat w = n" using n(3) \<open>n < 2 ^ 96\<close> by (simp add: unat_of_nat)
  ultimately show ?thesis by (simp add: oid_str_def)
qed

text \<open>The validator accepts exactly what the \<open>ObjectId\<close> constructor accepts:
  the \<open>is_valid\<close> falsiness test never rejects a value the constructor
  takes, and the \<open>isinstance\<close> shortcut agrees with it.\<close>

lemma validate_object_id_new:
  "validate_object_id v =
     (case objectid_new v of Some oid \<Rightarrow> Inr oid | None \<Rightarrow> Inl (ValueError ''Invalid ObjectId''))"
  by (cases v) (auto simp: validate_object_id_def objectid_is_valid_def oid_of_str_def)

lemma validate_str_Inr: "validate_object_id (IdStr s) = Inr oid \<longleftrightarrow> oid_of_str s = Some oid"
  by (simp add: validate_object_id_new split: option.split)

section \<open>Properties\<close>

text \<open>The string an ObjectId prints as (\<open>str(oid)\<close>, as the
  routers return it in \<open>id\<close> fields) is accepted by \<open>validate_object_id\<close>
  and gives back the same ObjectId.\<close>

theorem validate_object_id_str_roundtrip: "validate_object_id (IdStr (oid_str oid)) = Inr oid"
  by (simp add: validate_str_Inr oid_of_str_oid_str)

text \<open>A string that \<open>validate_object_id\<close> accepts is the
  24-digit hex spelling of the resulting ObjectId up to case: printing the
  ObjectId gives the string in lower case.\<close>

theorem validate_object_id_canonical:
  "validate_object_id (IdStr s) = Inr oid \<Longrightarrow> length s = 24 \<and> oid_str oid = py_lower s"
  by (auto simp: validate_str_Inr oid_str_of_str oid_of_str_def split: if_splits)

theorem validate_object_id_canonical_witness:
  "length ''507F1F77BCF86CD799439011'' = 24 \<and>
   oid_str 0x507F1F77BCF86CD799439011 = py_lower ''507F1F77BCF86CD799439011''"
  by (rule validate_object_id_canonical)
     (simp add: validate_str_Inr oid_of_str_def hex_val_def)

end
