(* ===== verification/Users.thy ===== *)
theory Users
  imports Models
begin

text \<open>
  The user-account router, src/backend/routers/users.py. The \<open>users\<close>
  collection is a list of \<open>UserModel\<close> documents in natural (insertion)
  order, so that \<open>find_one\<close> returns the first match; MongoDB's unique index
  on \<open>_id\<close> is the only index. The password hashing and token functions
  of backend/auth.py, which the repository does not contain, are the record
  \<open>auth_env\<close>; \<open>get_current_user\<close> is the document it hands to the
  handler. Each handler is a function from the store to its result and the
  new store. Because every \<open>await\<close> is a point where another request may
  run, \<open>register\<close> is also given as a per-request state machine
  (\<open>reg_step\<close>) whose interleavings are the executions of concurrent
  registrations.
\<close>

record auth_env =
  get_password_hash :: "string \<Rightarrow> string"
  verify_password :: "string \<Rightarrow> string \<Rightarrow> bool"
  create_access_token :: "string \<Rightarrow> string"

text \<open>The request body of \<open>/register\<close> and the response of \<open>/register\<close>
  and \<open>/me\<close> (schemas.py), with the fields the handlers use.\<close>

record UserCreate =
  uc_username :: string
  uc_email :: string
  uc_password :: string

record UserResponse =
  ur_id :: string
  ur_username :: string
  ur_email :: string

type_synonym user_store = "UserModel list"

section \<open>The collection operations\<close>

definition find_one_email :: "user_store \<Rightarrow> string \<Rightarrow> UserModel option" where
  "find_one_email users e = find (\<lambda>u. email u = e) users"

definition find_one_username :: "user_store \<Rightarrow> string \<Rightarrow> UserModel option" where
  "find_one_username users n = find (\<lambda>u. username u = n) users"

definition find_one_id :: "user_store \<Rightarrow> oid \<Rightarrow> UserModel option" where
  "find_one_id users i = find (\<lambda>u. uid u = i) users"

text \<open>\<open>insert_one\<close>: the driver's fresh \<open>_id\<close> is given; a clash with a
  stored \<open>_id\<close> raises \<open>DuplicateKeyError\<close>.\<close>

definition insert_one :: "user_store \<Rightarrow> UserModel \<Rightarrow> user_store pyres" where
  "insert_one users doc =
     (if uid doc \<in> set (map uid users) then Inl DuplicateKeyError else Inr (users @ [doc]))"

text \<open>\<open>delete_one\<close>: removes the first match and reports how many it removed.\<close>

fun delete_first :: "('a \<Rightarrow> bool) \<Rightarrow> 'a list \<Rightarrow> 'a list \<times> nat" where
  "delete_first P [] = ([], 0)"
| "delete_first P (x # xs) =
     (if P x then (xs, 1) else (let (ys, n) = delete_first P xs in (x # ys, n)))"

section \<open>The handlers\<close>

definition user_response :: "UserModel \<Rightarrow> UserResponse" where
  "user_response u = \<lparr>ur_id = oid_str (uid u), ur_username = username u, ur_email = email u\<rparr>"

text \<open>Lines 11--31. The document built by \<open>UserModel(...)\<close> is dumped with
  \<open>exclude=["id"]\<close>, so its \<open>_id\<close> is the one \<open>insert_one\<close> generates
  (\<open>new_id\<close>).\<close>

definition register ::
  "auth_env \<Rightarrow> oid \<Rightarrow> UserCreate \<Rightarrow> user_store \<Rightarrow> UserResponse pyres \<times> user_store" where
  "register auth new_id user users =
     (case find_one_email users (uc_email user) of
        Some _ \<Rightarrow> (Inl (HTTPException 400 ''Email already registered''), users)
      | None \<Rightarrow>
          (let hashed = get_password_hash auth (uc_password user);
               doc = \<lparr>uid = new_id, username = uc_username user, email = uc_email user,
                      hashed_password = hashed\<rparr> in
           case insert_one users doc of
             Inl e \<Rightarrow> (Inl e, users)
           | Inr users' \<Rightarrow>
               (case find_one_id users' new_id of
                  None \<Rightarrow> (Inl TypeError, users')
                | Some created \<Rightarrow> (Inr (user_response created), users'))))"

text \<open>Lines 33--52: look the form's \<open>username\<close> up as an email, then as a
  username; the token's subject is the found user's email.\<close>

definition login_for_access_token ::
  "auth_env \<Rightarrow> string \<Rightarrow> string \<Rightarrow> user_store \<Rightarrow> (string \<times> string) pyres" where
  "login_for_access_token auth form_username form_password users =
     (let user = (case find_one_email users form_username of
                    Some u \<Rightarrow> Some u
                  | None \<Rightarrow> find_one_username users form_username) in
      case user of
        None \<Rightarrow> Inl (HTTPException 401 ''Incorrect username or password'')
      | Some u \<Rightarrow>
          if \<not> verify_password auth form_password (hashed_password u)
          then Inl (HTTPException 401 ''Incorrect username or password'')
          else Inr (create_access_token auth (email u), ''bearer''))"

text \<open>Lines 54--59.\<close>

definition delete_user :: "UserModel \<Rightarrow> user_store \<Rightarrow> string pyres \<times> user_store" where
  "delete_user current_user users =
     (let (users', deleted_count) = delete_first (\<lambda>u. uid u = uid current_user) users in
      if deleted_count = 1 then (Inr ''User deleted successfully'', users')
      else (Inl (HTTPException 404 ''User not found''), users'))"

text \<open>Lines 61--67.\<close>

definition read_users_me :: "UserModel \<Rightarrow> UserResponse" where
  "read_users_me current_user = user_response current_user"

section \<open>Concurrent registrations\<close>

text \<open>One \<open>register\<close> request between its awaits: before the email lookup,
  after it (no user found), after the insert, and finished with its result.\<close>

datatype reg_thread =
    RegStart oid UserCreate
  | RegChecked oid UserCreate
  | RegInserted oid
  | RegDone "UserResponse pyres"

definition new_user_doc :: "auth_env \<Rightarrow> oid \<Rightarrow> UserCreate \<Rightarrow> UserModel" where
  "new_user_doc auth new_id user =
     \<lparr>uid = new_id, username = uc_username user, email = uc_email user,
      hashed_password = get_password_hash auth (uc_password user)\<rparr>"

text \<open>One step of one request \<open>i\<close>; the other requests wait.\<close>

inductive reg_step ::
  "auth_env \<Rightarrow> user_store \<times> reg_thread list \<Rightarrow> user_store \<times> reg_thread list \<Rightarrow> bool" for auth where
  found: "i < length ts \<Longrightarrow> ts ! i = RegStart n u \<Longrightarrow> find_one_email users (uc_email u) = Some x \<Longrightarrow>
     reg_step auth (users, ts) (users, ts[i := RegDone (Inl (HTTPException 400 ''Email already registered''))])"
| free: "i < length ts \<Longrightarrow> ts ! i = RegStart n u \<Longrightarrow> find_one_email users (uc_email u) = None \<Longrightarrow>
     reg_step auth (users, ts) (users, ts[i := RegChecked n u])"
| insert_ok: "i < length ts \<Longrightarrow> ts ! i = RegChecked n u \<Longrightarrow>
     insert_one users (new_user_doc auth n u) = Inr users' \<Longrightarrow>
     reg_step auth (users, ts) (users', ts[i := RegInserted n])"
| insert_err: "i < length ts \<Longrightarrow> ts ! i = RegChecked n u \<Longrightarrow>
     insert_one users (new_user_doc auth n u) = Inl e \<Longrightarrow>
     reg_step auth (users, ts) (users, ts[i := RegDone (Inl e)])"
| fetch: "i < length ts \<Longrightarrow> ts ! i = RegInserted n \<Longrightarrow>
     reg_step auth (users, ts)
       (users, ts[i := RegDone (case find_one_id users n of
                                  None \<Rightarrow> Inl TypeError | Some c \<Rightarrow> Inr (user_response c))])"

text \<open>The store invariant: ids and emails are unique.\<close>

definition users_inv :: "user_store \<Rightarrow> bool" where
  "users_inv users \<longleftrightarrow> distinct (map uid users) \<and> distinct (map email users)"

section \<open>The router as a sequential server\<close>

text \<open>The requests of the router, each served to completion before the next.\<close>

datatype user_op =
    OpRegister oid UserCreate
  | OpLogin string string
  | OpDelete UserModel
  | OpMe UserModel

fun user_op_step :: "auth_env \<Rightarrow> user_store \<Rightarrow> user_op \<Rightarrow> user_store" where
  "user_op_step auth users (OpRegister n u) = snd (register auth n u users)"
| "user_op_step auth users (OpLogin name pw) = users"
| "user_op_step auth users (OpDelete cu) = snd (delete_user cu users)"
| "user_op_step auth users (OpMe cu) = users"

definition run_ops :: "auth_env \<Rightarrow> user_store \<Rightarrow> user_op list \<Rightarrow> user_store" where
  "run_ops auth users ops = foldl (user_op_step auth) users ops"

section \<open>Scenarios\<close>

text \<open>A hash that tags the password and its checker, and a token that is
  the subject.\<close>

definition demo_auth :: auth_env where
  "demo_auth = \<lparr>get_password_hash = (\<lambda>p. ''h:'' @ p), verify_password = (\<lambda>p h. h = ''h:'' @ p),
     create_access_token = (\<lambda>s. ''tok:'' @ s)\<rparr>"

definition alice :: UserCreate where
  "alice = \<lparr>uc_username = ''alice'', uc_email = ''alice@example.com'', uc_password = ''pw''\<rparr>"

text \<open>Two accounts where the second one's username is the first one's email.\<close>

definition shadow_users :: user_store where
  "shadow_users =
     [\<lparr>uid = 1, username = ''carol'', email = ''carol@example.com'', hashed_password = ''h:c''\<rparr>,
      \<lparr>uid = 2, username = ''carol@example.com'', email = ''mallory@example.com'', hashed_password = ''h:m''\<rparr>]"

section \<open>The accounts as an abstract map\<close>

text \<open>What the router promises, independent of document order: a map from
  email to the account's id, username and password hash. \<open>acc_register\<close>
  refuses a known email (400) and an id already taken (the driver's
  \<open>DuplicateKeyError\<close>), and otherwise adds the account and answers with it;
  \<open>acc_delete\<close> removes the account with the caller's id, or answers 404.
  Login and \<open>/me\<close> leave the accounts unchanged.\<close>

type_synonym account = "oid \<times> string \<times> string"
type_synonym accounts = "string \<rightharpoonup> account"

definition accounts_of :: "user_store \<Rightarrow> accounts" where
  "accounts_of users = map_of (map (\<lambda>u. (email u, (uid u, username u, hashed_password u))) users)"

definition acc_register :: "auth_env \<Rightarrow> oid \<Rightarrow> UserCreate \<Rightarrow> accounts \<Rightarrow> UserResponse pyres \<times> accounts" where
  "acc_register auth n u A =
     (if uc_email u \<in> dom A then (Inl (HTTPException 400 ''Email already registered''), A)
      else if n \<in> fst ` ran A then (Inl DuplicateKeyError, A)
      else (Inr \<lparr>ur_id = oid_str n, ur_username = uc_username u, ur_email = uc_email u\<rparr>,
            A(uc_email u \<mapsto> (n, uc_username u, get_password_hash auth (uc_password u)))))"

definition acc_delete :: "oid \<Rightarrow> accounts \<Rightarrow> string pyres \<times> accounts" where
  "acc_delete i A =
     (if i \<in> fst ` ran A
      then (Inr ''User deleted successfully'', (\<lambda>e. case A e of Some a \<Rightarrow> if fst a = i then None else Some a | None \<Rightarrow> None))
      else (Inl (HTTPException 404 ''User not found''), A))"

fun acc_step :: "auth_env \<Rightarrow> accounts \<Rightarrow> user_op \<Rightarrow> accounts" where
  "acc_step auth A (OpRegister n u) = snd (acc_register auth n u A)"
| "acc_step auth A (OpLogin name pw) = A"
| "acc_step auth A (OpDelete cu) = snd (acc_delete (uid cu) A)"
| "acc_step auth A (OpMe cu) = A"

section \<open>Lemmas\<close>

lemma find_one_email_None: "find_one_email users e = None \<longleftrightarrow> e \<notin> set (map email users)"
  by (auto simp: find_one_email_def find_None_iff)

lemma find_unique:
  "distinct (map f xs) \<Longrightarrow> x \<in> set xs \<Longrightarrow> find (\<lambda>y. f y = f x) xs = Some x"
  by (induction xs) (auto simp: image_iff)

lemma register_fresh:
  assumes "uc_email user \<notin> set (map email users)" "new_id \<notin> set (map uid users)"
  shows "register auth new_id user users =
     (Inr (user_response (new_user_doc auth new_id user)), users @ [new_user_doc auth new_id user])"
proof -
  have "find (\<lambda>u. uid u = new_id) users = None"
    using assms(2) by (auto simp: find_None_iff)
  then have "find_one_id (users @ [new_user_doc auth new_id user]) new_id = Some (new_user_doc auth new_id user)"
    by (simp add: find_one_id_def new_user_doc_def find_append)
  moreover have "find_one_email users (uc_email user) = None"
    using assms(1) by (simp add: find_one_email_None)
  ultimately show ?thesis using assms(2)
    by (simp add: register_def insert_one_def new_user_doc_def Let_def)
qed

lemma register_cases:
  "register auth new_id user users = (r, users') \<Longrightarrow>
   users' = users \<or> (uc_email user \<notin> set (map email users) \<and> new_id \<notin> set (map uid users) \<and>
     users' = users @ [new_user_doc auth new_id user])"
  by (auto simp: register_def insert_one_def new_user_doc_def Let_def find_one_email_None
      split: option.splits if_splits sum.splits)

lemma delete_first_set: "set (fst (delete_first P xs)) \<subseteq> set xs"
  by (induction P xs rule: delete_first.induct) (auto simp: split_def Let_def)

lemma delete_first_distinct:
  "distinct (map f xs) \<Longrightarrow> distinct (map f (fst (delete_first P xs)))"
proof (induction P xs rule: delete_first.induct)
  case (2 P x xs)
  then show ?case using delete_first_set[of P xs] by (cases "delete_first P xs") auto
qed simp

lemma register_inv: "users_inv users \<Longrightarrow> users_inv (snd (register auth n u users))"
  using register_cases[of auth n u users "fst (register auth n u users)" "snd (register auth n u users)"]
  by (auto simp: users_inv_def new_user_doc_def)

lemma delete_user_inv: "users_inv users \<Longrightarrow> users_inv (snd (delete_user cu users))"
  using delete_first_distinct[of uid users "\<lambda>u. uid u = uid cu"] delete_first_distinct[of email users "\<lambda>u. uid u = uid cu"]
  by (simp add: users_inv_def delete_user_def split_def Let_def)

lemma user_op_step_inv: "users_inv users \<Longrightarrow> users_inv (user_op_step auth users op)"
  by (cases op) (simp_all add: register_inv delete_user_inv)

subsection \<open>Refinement of the account map\<close>

lemma accounts_of_dom: "dom (accounts_of users) = set (map email users)"
  by (force simp: accounts_of_def dom_map_of_conv_image_fst)

lemma accounts_of_ran:
  "distinct (map email users) \<Longrightarrow> fst ` ran (accounts_of users) = set (map uid users)"
  by (simp add: accounts_of_def ran_distinct comp_def image_image)

lemma accounts_of_snoc:
  "email u \<notin> set (map email users) \<Longrightarrow>
   accounts_of (users @ [u]) = (accounts_of users)(email u \<mapsto> (uid u, username u, hashed_password u))"
  by (simp add: accounts_of_def map_add_upd_left dom_map_of_conv_image_fst image_image)

lemma accounts_of_unmatched:
  "distinct (map email users) \<Longrightarrow> i \<notin> set (map uid users) \<Longrightarrow>
   (\<lambda>e. case accounts_of users e of Some a \<Rightarrow> if fst a = i then None else Some a | None \<Rightarrow> None) = accounts_of users"
  using accounts_of_ran[of users] by (force simp: fun_eq_iff ran_def split: option.split)

lemma delete_first_count: "snd (delete_first P xs) = (if \<exists>x\<in>set xs. P x then 1 else 0)"
  by (induction P xs rule: delete_first.induct) (auto simp: split_def Let_def)

lemma accounts_of_delete_first:
  "distinct (map uid users) \<Longrightarrow> distinct (map email users) \<Longrightarrow>
   accounts_of (fst (delete_first (\<lambda>u. uid u = i) users)) =
     (\<lambda>e. case accounts_of users e of Some a \<Rightarrow> if fst a = i then None else Some a | None \<Rightarrow> None)"
proof (induction users)
  case Nil then show ?case by (simp add: accounts_of_def fun_eq_iff)
next
  case (Cons x xs)
  have ids: "fst ` ran (accounts_of xs) = set (map uid xs)" using Cons.prems by (simp add: accounts_of_ran)
  show ?case
  proof (cases "uid x = i")
    case True
    have "\<And>e a. accounts_of xs e = Some a \<Longrightarrow> fst a \<noteq> i"
      using ids Cons.prems True by (force simp: ran_def)
    moreover have "accounts_of xs (email x) = None"
      using Cons.prems accounts_of_dom[of xs] by auto
    ultimately show ?thesis using True
      by (auto simp: fun_eq_iff accounts_of_def split: option.split)
  next
    case False
    then show ?thesis using Cons
      by (auto simp: fun_eq_iff accounts_of_def split_def Let_def split: option.split)
  qed
qed

lemma register_refines:
  "users_inv users \<Longrightarrow>
   map_prod id accounts_of (register auth n u users) = acc_register auth n u (accounts_of users)"
proof -
  assume inv: "users_inv users"
  then have ids: "fst ` ran (accounts_of users) = set (map uid users)"
    by (simp add: users_inv_def accounts_of_ran)
  consider (dup) "uc_email u \<in> set (map email users)"
    | (clash) "uc_email u \<notin> set (map email users)" "n \<in> set (map uid users)"
    | (fresh) "uc_email u \<notin> set (map email users)" "n \<notin> set (map uid users)" by blast
  then show ?thesis
  proof cases
    case dup
    then obtain v where "find_one_email users (uc_email u) = Some v"
      using find_one_email_None[of users "uc_email u"] by auto
    with dup show ?thesis by (simp add: register_def acc_register_def accounts_of_dom)
  next
    case clash
    then have "find_one_email users (uc_email u) = None"
      by (force simp: find_one_email_def find_None_iff)
    then show ?thesis using ids clash
      by (simp add: register_def acc_register_def accounts_of_dom insert_one_def)
  next
    case fresh
    then show ?thesis using ids
      by (simp add: register_fresh acc_register_def accounts_of_dom accounts_of_snoc
          new_user_doc_def user_response_def)
  qed
qed

lemma delete_user_refines:
  "users_inv users \<Longrightarrow>
   map_prod id accounts_of (delete_user cu users) = acc_delete (uid cu) (accounts_of users)"
proof -
  assume "users_inv users"
  then have d: "distinct (map uid users)" "distinct (map email users)" by (simp_all add: users_inv_def)
  then show ?thesis
  proof (cases "uid cu \<in> set (map uid users)")
    case True
    then show ?thesis using d
      by (auto simp: delete_user_def acc_delete_def split_def delete_first_count accounts_of_ran
          accounts_of_delete_first)
  next
    case False
    then show ?thesis using d
      by (auto simp: delete_user_def acc_delete_def split_def delete_first_count accounts_of_ran
          accounts_of_delete_first accounts_of_unmatched image_iff)
  qed
qed

lemma user_op_step_refines:
  "users_inv users \<Longrightarrow> accounts_of (user_op_step auth users op) = acc_step auth (accounts_of users) op"
proof (cases op)
  case (OpRegister n u)
  assume "users_inv users"
  from arg_cong[OF register_refines[OF this, of auth n u], of snd] OpRegister show ?thesis by simp
next
  case (OpDelete cu)
  assume "users_inv users"
  from arg_cong[OF delete_user_refines[OF this, of cu], of snd] OpDelete show ?thesis by simp
qed simp_all

lemma run_ops_accounts:
  "users_inv users \<Longrightarrow> accounts_of (run_ops auth users ops) = foldl (acc_step auth) (accounts_of users) ops"
  unfolding run_ops_def
proof (induction ops arbitrary: users)
  case (Cons op ops)
  then show ?case by (simp add: user_op_step_inv user_op_step_refines)
qed simp

section \<open>Properties\<close>

text \<open>C24 (invariant): served one request at a time, the router keeps emails
  and ids unique: from a store with unique emails and ids, every sequence of
  register, login, delete and me requests leaves them unique.\<close>

theorem users_inv_run_ops: "users_inv users \<Longrightarrow> users_inv (run_ops auth users ops)"
  unfolding run_ops_def
  by (induction ops arbitrary: users rule: rev_induct) (simp_all add: user_op_step_inv)

theorem users_inv_run_ops_witness:
  "users_inv (run_ops demo_auth [] [OpRegister 1 alice, OpRegister 2 alice, OpMe (new_user_doc demo_auth 1 alice)])"
  by (rule users_inv_run_ops) (simp add: users_inv_def)

text \<open>C25 (refinement): on a store with unique ids and emails, the router
  implements the abstract account map: \<open>register\<close> and \<open>delete_user\<close> give
  the abstract answers (400, \<open>DuplicateKeyError\<close>, the new account; 404 or
  success) and the abstract accounts, and any sequence of requests served
  one at a time leaves the store abstracting to the accounts the abstract
  steps compute.\<close>

theorem users_refine_accounts:
  assumes "users_inv users"
  shows "map_prod id accounts_of (register auth n u users) = acc_register auth n u (accounts_of users) \<and>
    map_prod id accounts_of (delete_user cu users) = acc_delete (uid cu) (accounts_of users) \<and>
    accounts_of (run_ops auth users ops) = foldl (acc_step auth) (accounts_of users) ops"
  using assms by (simp add: register_refines delete_user_refines run_ops_accounts)

theorem users_refine_accounts_witness:
  "map_prod id accounts_of (register demo_auth 3 alice shadow_users) = acc_register demo_auth 3 alice (accounts_of shadow_users) \<and>
   map_prod id accounts_of (delete_user (shadow_users ! 0) shadow_users) = acc_delete 1 (accounts_of shadow_users) \<and>
   accounts_of (run_ops demo_auth shadow_users [OpRegister 3 alice, OpDelete (shadow_users ! 1)]) =
     foldl (acc_step demo_auth) (accounts_of shadow_users) [OpRegister 3 alice, OpDelete (shadow_users ! 1)]"
  using users_refine_accounts[of shadow_users demo_auth 3 alice "shadow_users ! 0"
      "[OpRegister 3 alice, OpDelete (shadow_users ! 1)]"]
  by (simp add: users_inv_def shadow_users_def)

text \<open>Registering an email that is already stored is refused
  with HTTP 400 and the store is unchanged.\<close>

theorem register_duplicate_email:
  "uc_email user \<in> set (map email users) \<Longrightarrow>
   register auth new_id user users = (Inl (HTTPException 400 ''Email already registered''), users)"
proof -
  assume "uc_email user \<in> set (map email users)"
  then obtain v where "find_one_email users (uc_email user) = Some v"
    by (cases "find_one_email users (uc_email user)") (auto simp: find_one_email_None)
  then show ?thesis by (simp add: register_def)
qed

theorem register_duplicate_email_witness:
  "register demo_auth 2 alice [new_user_doc demo_auth 1 alice] =
     (Inl (HTTPException 400 ''Email already registered''), [new_user_doc demo_auth 1 alice])"
  by (rule register_duplicate_email) (simp add: new_user_doc_def alice_def)

text \<open>In a store with unique emails, a user who logs in
  with their email and a password the hash verifies gets a bearer token
  whose subject is their email.\<close>

theorem login_by_email:
  assumes "users_inv users" "u \<in> set users" "verify_password auth pw (hashed_password u)"
  shows "login_for_access_token auth (email u) pw users = Inr (create_access_token auth (email u), ''bearer'')"
proof -
  have "find_one_email users (email u) = Some u"
    using assms(1,2) find_unique[of email users u] by (simp add: users_inv_def find_one_email_def)
  then show ?thesis using assms(3) by (simp add: login_for_access_token_def)
qed

theorem login_by_email_witness:
  "login_for_access_token demo_auth ''alice@example.com'' ''pw'' [new_user_doc demo_auth 1 alice] =
     Inr (create_access_token demo_auth ''alice@example.com'', ''bearer'')"
  using login_by_email[of "[new_user_doc demo_auth 1 alice]" "new_user_doc demo_auth 1 alice" demo_auth "''pw''"]
  by (simp add: users_inv_def new_user_doc_def alice_def demo_auth_def)

text \<open>C26 (functional): the lookup by email comes first: when the login name
  is some user's email, only that user's password is checked, and a user whose
  username is that string can never log in by username.\<close>

theorem login_email_shadows_username:
  "find_one_email users s = Some v \<Longrightarrow>
   login_for_access_token auth s pw users =
     (if verify_password auth pw (hashed_password v) then Inr (create_access_token auth (email v), ''bearer'')
      else Inl (HTTPException 401 ''Incorrect username or password''))"
  by (simp add: login_for_access_token_def)

theorem login_email_shadows_username_witness:
  "login_for_access_token demo_auth ''carol@example.com'' ''m'' shadow_users =
     Inl (HTTPException 401 ''Incorrect username or password'')"
  using login_email_shadows_username[of shadow_users "''carol@example.com''" "hd shadow_users" demo_auth "''m''"]
  by (simp add: shadow_users_def find_one_email_def demo_auth_def)

text \<open>C27 (safety): \<open>register\<close> checks and inserts in separate awaits and
  the collection has no unique index on email: two concurrent registrations
  of the same email can both pass the check and both succeed, leaving two
  accounts with one email.\<close>

theorem concurrent_register_duplicates:
  "(reg_step auth)\<^sup>*\<^sup>* ([], [RegStart 1 alice, RegStart 2 alice])
     ([new_user_doc auth 1 alice, new_user_doc auth 2 alice],
      [RegDone (Inr (user_response (new_user_doc auth 1 alice))),
       RegDone (Inr (user_response (new_user_doc auth 2 alice)))]) \<and>
   \<not> users_inv [new_user_doc auth 1 alice, new_user_doc auth 2 alice]"
proof -
  let ?d1 = "new_user_doc auth 1 alice" and ?d2 = "new_user_doc auth 2 alice"
  have s1: "reg_step auth ([], [RegStart 1 alice, RegStart 2 alice]) ([], [RegChecked 1 alice, RegStart 2 alice])"
    using reg_step.free[of 0 "[RegStart 1 alice, RegStart 2 alice]" 1 alice "[]" auth] by (simp add: find_one_email_def)
  have s2: "reg_step auth ([], [RegChecked 1 alice, RegStart 2 alice]) ([], [RegChecked 1 alice, RegChecked 2 alice])"
    using reg_step.free[of 1 "[RegChecked 1 alice, RegStart 2 alice]" 2 alice "[]" auth] by (simp add: find_one_email_def)
  have s3: "reg_step auth ([], [RegChecked 1 alice, RegChecked 2 alice]) ([?d1], [RegInserted 1, RegChecked 2 alice])"
    using reg_step.insert_ok[where i = 0 and ts = "[RegChecked 1 alice, RegChecked 2 alice]" and n = 1 and u = alice and users = "[]" and users' = "[?d1]" and auth = auth]
    by (simp add: insert_one_def)
  have s4: "reg_step auth ([?d1], [RegInserted 1, RegChecked 2 alice]) ([?d1, ?d2], [RegInserted 1, RegInserted 2])"
    using reg_step.insert_ok[where i = 1 and ts = "[RegInserted 1, RegChecked 2 alice]" and n = 2 and u = alice and users = "[?d1]" and users' = "[?d1, ?d2]" and auth = auth]
    by (simp add: insert_one_def new_user_doc_def)
  have s5: "reg_step auth ([?d1, ?d2], [RegInserted 1, RegInserted 2])
      ([?d1, ?d2], [RegDone (Inr (user_response ?d1)), RegInserted 2])"
    using reg_step.fetch[where i = 0 and ts = "[RegInserted 1, RegInserted 2]" and n = 1 and users = "[?d1, ?d2]" and auth = auth]
    by (simp add: find_one_id_def new_user_doc_def)
  have s6: "reg_step auth ([?d1, ?d2], [RegDone (Inr (user_response ?d1)), RegInserted 2])
      ([?d1, ?d2], [RegDone (Inr (user_response ?d1)), RegDone (Inr (user_response ?d2))])"
    using reg_step.fetch[where i = 1 and ts = "[RegDone (Inr (user_response ?d1)), RegInserted 2]" and n = 2 and users = "[?d1, ?d2]" and auth = auth]
    by (simp add: find_one_id_def new_user_doc_def)
  have "\<not> users_inv [?d1, ?d2]" by (simp add: users_inv_def new_user_doc_def)
  with s1 s2 s3 s4 s5 s6 show ?thesis
    by (meson converse_rtranclp_into_rtranclp rtranclp.rtrancl_refl)
qed
end
