(* ===== verification/Scans.thy ===== *)
theory Scans
  imports Models "HOL-Library.List_Lexorder" "HOL-Library.Char_ord"
begin

text \<open>
  The history endpoint of src/backend/routers/scans.py (the analysis
  endpoint above it is commented out). The \<open>history\<close> collection is a list
  of stored documents in natural order; a document's \<open>user_id\<close> may be an
  ObjectId or, in older records, its string. A query
  \<open>find({"user_id": k}).sort("timestamp", -1).to_list(n)\<close> keeps the
  documents whose \<open>user_id\<close> equals \<open>k\<close> (BSON equality: an ObjectId never
  equals a string), orders them by \<open>timestamp\<close> descending under MongoDB's
  binary string order, which is the lexicographic order on characters, and
  keeps the first \<open>n\<close>. MongoDB leaves the order of equal timestamps open;
  the model keeps them in natural order. The lemmas show that the endpoint
  returns only the caller's records, at most 100 of them, newest first, and
  the newest ones when there are more.
\<close>

record history_doc =
  h_id :: oid
  h_user_id :: idval
  h_filename :: string
  h_weight :: real
  h_extracted :: pyval
  h_timestamp :: string

type_synonym history_store = "history_doc list"

section \<open>The query\<close>

text \<open>\<open>.sort("timestamp", -1)\<close>: descending, equal keys in natural order.\<close>

definition sort_desc :: "history_doc list \<Rightarrow> history_doc list" where
  "sort_desc docs = rev (sort_key h_timestamp (rev docs))"

definition find_history :: "history_store \<Rightarrow> idval \<Rightarrow> nat \<Rightarrow> history_doc list" where
  "find_history docs key n = take n (sort_desc (filter (\<lambda>d. h_user_id d = key) docs))"

section \<open>The handler\<close>

text \<open>Lines 67--88: the ObjectId query, the string query when the first
  finds nothing, and \<open>item["id"] = str(item["_id"])\<close> on each result.\<close>

definition get_history :: "UserModel \<Rightarrow> history_store \<Rightarrow> (string \<times> history_doc) list" where
  "get_history current_user docs =
     (let history = find_history docs (IdObjectId (uid current_user)) 100;
          history = (if history = [] then find_history docs (IdStr (oid_str (uid current_user))) 100
                     else history)
      in map (\<lambda>item. (oid_str (h_id item), item)) history)"

section \<open>Scenarios\<close>

text \<open>A user with one ObjectId-keyed record and one legacy record keyed by
  the string of the same id, and another user's record.\<close>

definition demo_user :: UserModel where
  "demo_user = \<lparr>uid = 7, username = ''alice'', email = ''alice@example.com'', hashed_password = ''h:pw''\<rparr>"

definition demo_history :: history_store where
  "demo_history =
     [\<lparr>h_id = 1, h_user_id = IdStr (oid_str 7), h_filename = ''old.pdf'', h_weight = 0.2,
       h_extracted = PDict [], h_timestamp = ''2024-01-01T00:00:00+00:00''\<rparr>,
      \<lparr>h_id = 2, h_user_id = IdObjectId 7, h_filename = ''part.pdf'', h_weight = 0.085,
       h_extracted = PDict [], h_timestamp = ''2025-03-01T10:00:00+00:00''\<rparr>,
      \<lparr>h_id = 3, h_user_id = IdObjectId 8, h_filename = ''other.pdf'', h_weight = 1,
       h_extracted = PDict [], h_timestamp = ''2025-03-02T10:00:00+00:00''\<rparr>]"



section \<open>Lemmas\<close>

lemma sort_desc_sorted: "sorted_wrt (\<lambda>a b. h_timestamp b \<le> h_timestamp a) (sort_desc xs)"
proof -
  have "sorted (map h_timestamp (sort_key h_timestamp (rev xs)))" by simp
  then have "sorted_wrt (\<lambda>a b. h_timestamp a \<le> h_timestamp b) (sort_key h_timestamp (rev xs))"
    by (simp add: sorted_wrt_map)
  then show ?thesis by (simp add: sort_desc_def sorted_wrt_rev)
qed

lemma set_sort_desc [simp]: "set (sort_desc xs) = set xs"
  by (simp add: sort_desc_def)

lemma find_history_sorted: "sorted_wrt (\<lambda>a b. h_timestamp b \<le> h_timestamp a) (find_history docs k n)"
  by (simp add: find_history_def sorted_wrt_take sort_desc_sorted)

lemma find_history_set: "d \<in> set (find_history docs k n) \<Longrightarrow> d \<in> set docs \<and> h_user_id d = k"
  by (auto simp: find_history_def dest: in_set_takeD)

lemma find_history_length: "length (find_history docs k n) \<le> n"
  by (simp add: find_history_def)

lemma find_history_nonempty:
  "d \<in> set docs \<Longrightarrow> h_user_id d = k \<Longrightarrow> 0 < n \<Longrightarrow> find_history docs k n \<noteq> []"
proof -
  assume "d \<in> set docs" "h_user_id d = k" "0 < n"
  then have "d \<in> set (sort_desc (filter (\<lambda>e. h_user_id e = k) docs))" by simp
  then have "sort_desc (filter (\<lambda>e. h_user_id e = k) docs) \<noteq> []" by (metis empty_iff empty_set)
  with \<open>0 < n\<close> show ?thesis by (simp add: find_history_def)
qed

lemma get_history_snd:
  "map snd (get_history cu docs) =
     (if find_history docs (IdObjectId (uid cu)) 100 = [] then find_history docs (IdStr (oid_str (uid cu))) 100
      else find_history docs (IdObjectId (uid cu)) 100)"
  by (simp add: get_history_def Let_def comp_def)

lemma get_history_fst: "(i, d) \<in> set (get_history cu docs) \<Longrightarrow> i = oid_str (h_id d)"
  by (auto simp: get_history_def Let_def)

lemma get_history_mem: "(i, d) \<in> set (get_history cu docs) \<Longrightarrow> d \<in> set (map snd (get_history cu docs))"
  by force


lemma demo_history_result:
  "get_history demo_user demo_history = [(oid_str 2, demo_history ! 1)]"
  by (simp add: get_history_def find_history_def sort_desc_def demo_history_def demo_user_def)







section \<open>Properties\<close>

text \<open>C28 (safety): every record the history endpoint returns is a stored
  record of the calling user, keyed by the user's ObjectId or by its string,
  and its \<open>id\<close> field is the string of its \<open>_id\<close>.\<close>

theorem get_history_owned:
  "(i, d) \<in> set (get_history cu docs) \<Longrightarrow>
   d \<in> set docs \<and> (h_user_id d = IdObjectId (uid cu) \<or> h_user_id d = IdStr (oid_str (uid cu))) \<and>
   i = oid_str (h_id d)"
  using get_history_mem[of i d cu docs] get_history_fst[of i d cu docs]
  by (auto simp: get_history_snd split: if_splits dest: find_history_set)

theorem get_history_owned_witness:
  "demo_history ! 1 \<in> set demo_history \<and>
   (h_user_id (demo_history ! 1) = IdObjectId (uid demo_user) \<or>
    h_user_id (demo_history ! 1) = IdStr (oid_str (uid demo_user))) \<and>
   oid_str 2 = oid_str (h_id (demo_history ! 1))"
  by (rule get_history_owned) (simp add: demo_history_result)

text \<open>C29 (bounds): the endpoint returns at most 100 records, newest first
  by timestamp.\<close>

theorem get_history_bounded_sorted:
  "length (get_history cu docs) \<le> 100 \<and>
   sorted_wrt (\<lambda>a b. h_timestamp b \<le> h_timestamp a) (map snd (get_history cu docs))"
proof -
  have "length (map snd (get_history cu docs)) \<le> 100"
    by (simp only: get_history_snd) (simp add: find_history_length)
  moreover have "sorted_wrt (\<lambda>a b. h_timestamp b \<le> h_timestamp a) (map snd (get_history cu docs))"
    by (simp only: get_history_snd) (simp add: find_history_sorted)
  ultimately show ?thesis by simp
qed

text \<open>C30 (functional): once a user has one record keyed by their ObjectId,
  the records keyed by the string of that id are never returned: the string
  query runs only when the ObjectId query finds nothing, and the two are never
  merged.\<close>

theorem get_history_hides_legacy:
  "d \<in> set docs \<Longrightarrow> h_user_id d = IdObjectId (uid cu) \<Longrightarrow>
   \<forall>r \<in> set (map snd (get_history cu docs)). h_user_id r = IdObjectId (uid cu)"
proof -
  assume "d \<in> set docs" "h_user_id d = IdObjectId (uid cu)"
  then have "find_history docs (IdObjectId (uid cu)) 100 \<noteq> []"
    by (rule find_history_nonempty) simp
  then show ?thesis by (auto simp: get_history_snd dest: find_history_set)
qed

theorem get_history_hides_legacy_witness:
  "list_all (\<lambda>r. h_user_id r = IdObjectId (uid demo_user)) (map snd (get_history demo_user demo_history))"
  using get_history_hides_legacy[where d = "demo_history ! 1" and docs = demo_history and cu = demo_user]
  by (simp add: list_all_iff demo_history_def demo_user_def)



end
