(* ===== verification/App.thy ===== *)
theory App
  imports Users Scans
begin

text \<open>
  The HTTP application: src/backend/main.py mounts the users router under
  \<open>/users\<close> and the scans router under \<open>/analysis\<close> and serves \<open>/\<close> itself;
  src/backend/database.py gives both routers one MongoDB database. The
  application is modelled as FastAPI runs it: a request is matched against
  the route table in registration order (first the path and the method,
  then 405 for a path served under another method, 404 otherwise); the
  \<open>OAuth2PasswordBearer\<close> dependency answers 401 when no bearer token is
  sent; a missing or ill-typed body is a 422; an \<open>HTTPException\<close> becomes its
  status and detail and any other exception a 500. The database, with its
  \<open>users\<close> and \<open>history\<close> collections, is the server's state, and a sequence
  of requests is served one after the other. \<open>get_current_user\<close> (auth.py,
  not in the repository) is a parameter, and the driver's fresh ObjectIds
  are drawn from a counter.
\<close>

section \<open>database.py\<close>

definition DB_NAME :: string where
  "DB_NAME = ''ocr_system''"

text \<open>Lines 7--10: the client connects to \<open>MONGO_URL\<close> from the environment;
  \<open>AsyncIOMotorClient(None)\<close> connects to the default local server.\<close>

definition mongo_url :: "(string \<Rightarrow> string option) \<Rightarrow> string" where
  "mongo_url environ =
     (case environ ''MONGO_URL'' of Some u \<Rightarrow> u | None \<Rightarrow> ''mongodb://localhost:27017'')"

text \<open>The database \<open>db\<close>: the two collections the routers use, and the
  driver's generator of fresh ObjectIds.\<close>

record database =
  db_users :: user_store
  db_history :: history_store
  next_id :: nat

text \<open>Lines 12--13.\<close>

definition get_database :: "database \<Rightarrow> database" where
  "get_database db = db"

section \<open>main.py and the routers' route tables\<close>

datatype http_method = GET | POST | PUT | DELETE | OPTIONS

datatype handler = ReadRoot | Register | LoginForAccessToken | DeleteUser | ReadUsersMe | GetHistory

type_synonym routes = "(http_method \<times> string \<times> handler) list"

text \<open>The decorators of users.py (lines 11, 33, 54, 61) and scans.py (line 67).\<close>

definition users_router :: routes where
  "users_router =
     [(POST, ''/register'', Register), (POST, ''/token'', LoginForAccessToken),
      (DELETE, ''/me'', DeleteUser), (GET, ''/me'', ReadUsersMe)]"

definition scans_router :: routes where
  "scans_router = [(GET, ''/history'', GetHistory)]"

definition include_router :: "string \<Rightarrow> routes \<Rightarrow> routes" where
  "include_router prefix r = map (\<lambda>(m, p, h). (m, prefix @ p, h)) r"

text \<open>Lines 13--29, in registration order.\<close>

definition app_routes :: routes where
  "app_routes = include_router ''/users'' users_router @ include_router ''/analysis'' scans_router @
     [(GET, ''/'', ReadRoot)]"

definition route_request :: "http_method \<Rightarrow> string \<Rightarrow> handler pyres" where
  "route_request m p =
     (case find (\<lambda>(m', p', h). m' = m \<and> p' = p) app_routes of
        Some (_, _, h) \<Rightarrow> Inr h
      | None \<Rightarrow>
          if list_ex (\<lambda>(m', p', h). p' = p) app_routes
          then Inl (HTTPException 405 ''Method Not Allowed'')
          else Inl (HTTPException 404 ''Not Found''))"

section \<open>Requests and responses\<close>

datatype request_body = NoBody | JsonBody pyval | FormBody "(string \<times> string) list"

record http_request =
  req_method :: http_method
  req_path :: string
  req_token :: "string option"
  req_body :: request_body

datatype response_body =
    Detail string
  | ValidationError
  | InternalError
  | Message string
  | UserBody UserResponse
  | TokenBody string string
  | HistoryBody "(string \<times> history_doc) list"

type_synonym response = "int \<times> response_body"

record app_env =
  app_auth :: auth_env
  app_current_user :: "string \<Rightarrow> user_store \<Rightarrow> UserModel pyres"

text \<open>An \<open>HTTPException\<close> is its status and detail; any other exception is
  Starlette's 500.\<close>

fun error_response :: "pyexc \<Rightarrow> response" where
  "error_response (HTTPException s d) = (s, Detail d)"
| "error_response _ = (500, InternalError)"

text \<open>The \<open>UserCreate\<close> body: a JSON object with string fields.\<close>

definition user_create_of :: "request_body \<Rightarrow> UserCreate option" where
  "user_create_of b =
     (case b of
        JsonBody (PDict kvs) \<Rightarrow>
          (case (map_of kvs ''username'', map_of kvs ''email'', map_of kvs ''password'') of
             (Some (PStr n), Some (PStr e), Some (PStr p)) \<Rightarrow>
               Some \<lparr>uc_username = n, uc_email = e, uc_password = p\<rparr>
           | _ \<Rightarrow> None)
      | _ \<Rightarrow> None)"

text \<open>\<open>OAuth2PasswordRequestForm\<close>: the form fields \<open>username\<close> and \<open>password\<close>.\<close>

definition password_form_of :: "request_body \<Rightarrow> (string \<times> string) option" where
  "password_form_of b =
     (case b of
        FormBody kvs \<Rightarrow>
          (case (map_of kvs ''username'', map_of kvs ''password'') of
             (Some n, Some p) \<Rightarrow> Some (n, p)
           | _ \<Rightarrow> None)
      | _ \<Rightarrow> None)"

text \<open>\<open>Depends(get_current_user)\<close> behind \<open>OAuth2PasswordBearer\<close>.\<close>

definition current_user :: "app_env \<Rightarrow> database \<Rightarrow> http_request \<Rightarrow> UserModel pyres" where
  "current_user env db r =
     (case req_token r of
        None \<Rightarrow> Inl (HTTPException 401 ''Not authenticated'')
      | Some t \<Rightarrow> app_current_user env t (db_users db))"

section \<open>Serving a request\<close>

definition dispatch :: "app_env \<Rightarrow> database \<Rightarrow> http_request \<Rightarrow> response \<times> database" where
  "dispatch env db r =
     (case route_request (req_method r) (req_path r) of
        Inl e \<Rightarrow> (error_response e, db)
      | Inr ReadRoot \<Rightarrow> ((200, Message ''Welcome to OCR System Backend''), db)
      | Inr Register \<Rightarrow>
          (case user_create_of (req_body r) of
             None \<Rightarrow> ((422, ValidationError), db)
           | Some u \<Rightarrow>
               (let (res, users') = register (app_auth env) (of_nat (next_id db)) u (db_users db);
                    db' = db\<lparr>db_users := users', next_id := Suc (next_id db)\<rparr> in
                case res of
                  Inl e \<Rightarrow> (error_response e, db')
                | Inr resp \<Rightarrow> ((200, UserBody resp), db')))
      | Inr LoginForAccessToken \<Rightarrow>
          (case password_form_of (req_body r) of
             None \<Rightarrow> ((422, ValidationError), db)
           | Some (n, pw) \<Rightarrow>
               (case login_for_access_token (app_auth env) n pw (db_users db) of
                  Inl e \<Rightarrow> (error_response e, db)
                | Inr (tok, ty) \<Rightarrow> ((200, TokenBody tok ty), db)))
      | Inr DeleteUser \<Rightarrow>
          (case current_user env db r of
             Inl e \<Rightarrow> (error_response e, db)
           | Inr cu \<Rightarrow>
               (let (res, users') = delete_user cu (db_users db); db' = db\<lparr>db_users := users'\<rparr> in
                case res of
                  Inl e \<Rightarrow> (error_response e, db')
                | Inr m \<Rightarrow> ((200, Message m), db')))
      | Inr ReadUsersMe \<Rightarrow>
          (case current_user env db r of
             Inl e \<Rightarrow> (error_response e, db)
           | Inr cu \<Rightarrow> ((200, UserBody (read_users_me cu)), db))
      | Inr GetHistory \<Rightarrow>
          (case current_user env db r of
             Inl e \<Rightarrow> (error_response e, db)
           | Inr cu \<Rightarrow> ((200, HistoryBody (get_history cu (db_history (get_database db)))), db)))"

text \<open>Requests served one after the other: the statuses and the final database.\<close>

fun serve :: "app_env \<Rightarrow> database \<Rightarrow> http_request list \<Rightarrow> int list \<times> database" where
  "serve env db [] = ([], db)"
| "serve env db (r # rs) =
     (let (resp, db') = dispatch env db r; (sts, db'') = serve env db' rs in (fst resp # sts, db''))"

section \<open>Scenario\<close>

text \<open>The run of src/test_backend.py against an empty database: a token is
  \<open>tok:\<close> and the subject, and \<open>get_current_user\<close> finds the user by that
  email.\<close>

definition test_app_env :: app_env where
  "test_app_env = \<lparr>app_auth = demo_auth,
     app_current_user = (\<lambda>t users.
       case (if take 4 t = ''tok:'' then find_one_email users (drop 4 t) else None) of
         Some u \<Rightarrow> Inr u
       | None \<Rightarrow> Inl (HTTPException 401 ''Could not validate credentials''))\<rparr>"

definition empty_db :: database where
  "empty_db = \<lparr>db_users = [], db_history = [], next_id = 1\<rparr>"

definition test_email :: string where "test_email = ''test_1700000000@example.com''"

definition test_backend_requests :: "http_request list" where
  "test_backend_requests =
     [\<lparr>req_method = GET, req_path = ''/'', req_token = None, req_body = NoBody\<rparr>,
      \<lparr>req_method = POST, req_path = ''/users/register'', req_token = None,
       req_body = JsonBody (PDict [(''username'', PStr ''testuser''), (''email'', PStr test_email),
                                   (''password'', PStr ''securepassword123'')])\<rparr>,
      \<lparr>req_method = POST, req_path = ''/users/token'', req_token = None,
       req_body = FormBody [(''username'', test_email), (''password'', ''securepassword123'')]\<rparr>,
      \<lparr>req_method = GET, req_path = ''/users/me'', req_token = Some (''tok:'' @ test_email), req_body = NoBody\<rparr>,
      \<lparr>req_method = POST, req_path = ''/analysis/analyze'', req_token = Some (''tok:'' @ test_email), req_body = NoBody\<rparr>,
      \<lparr>req_method = DELETE, req_path = ''/users/me'', req_token = Some (''tok:'' @ test_email), req_body = NoBody\<rparr>]"

section \<open>Lemmas\<close>

lemma dispatch_inv:
  "users_inv (db_users db) \<Longrightarrow>
   users_inv (db_users (snd (dispatch env db r))) \<and> db_history (snd (dispatch env db r)) = db_history db"
  by (auto simp: dispatch_def Let_def split_def register_inv delete_user_inv split: sum.split handler.split option.split)

lemma route_auth:
  "route_request DELETE ''/users/me'' = Inr DeleteUser"
  "route_request GET ''/users/me'' = Inr ReadUsersMe"
  "route_request GET ''/analysis/history'' = Inr GetHistory"
  by (simp_all add: route_request_def app_routes_def include_router_def users_router_def scans_router_def)



section \<open>Properties\<close>

text \<open>C32 (invariant): served one request at a time, the application keeps
  the ids and emails of the \<open>users\<close> collection unique, and no request of
  any kind changes the \<open>history\<close> collection: no route of the application
  writes it.\<close>

theorem serve_inv:
  "users_inv (db_users db) \<Longrightarrow>
   users_inv (db_users (snd (serve env db rs))) \<and> db_history (snd (serve env db rs)) = db_history db"
proof (induction rs arbitrary: db)
  case Nil then show ?case by simp
next
  case (Cons r rs)
  from dispatch_inv[OF Cons.prems] Cons.IH[of "snd (dispatch env db r)"] show ?case
    by (simp add: split_def Let_def)
qed

theorem serve_inv_witness:
  "users_inv (db_users (snd (serve test_app_env empty_db test_backend_requests))) \<and>
   db_history (snd (serve test_app_env empty_db test_backend_requests)) = db_history empty_db"
  by (rule serve_inv) (simp add: empty_db_def users_inv_def)

text \<open>A request without a bearer token to \<open>DELETE /users/me\<close>,
  \<open>GET /users/me\<close> or \<open>GET /analysis/history\<close> is answered 401
  \<open>Not authenticated\<close> and changes nothing.\<close>

theorem unauthenticated_401:
  "req_token r = None \<Longrightarrow>
   (req_method r, req_path r) \<in> {(DELETE, ''/users/me''), (GET, ''/users/me''), (GET, ''/analysis/history'')} \<Longrightarrow>
   dispatch env db r = ((401, Detail ''Not authenticated''), db)"
  by (auto simp: dispatch_def route_auth current_user_def)

theorem unauthenticated_401_witness:
  "dispatch test_app_env empty_db \<lparr>req_method = GET, req_path = ''/analysis/history'', req_token = None, req_body = NoBody\<rparr> =
     ((401, Detail ''Not authenticated''), empty_db)"
  by (rule unauthenticated_401) simp_all



text \<open>The requests of src/test_backend.py, served from an empty database,
  are answered 200, 200, 200, 200, 404, 200 (root, register,
  login by email, me, analyze, delete), and the account is gone at the end.\<close>

theorem test_backend_run:
  "serve test_app_env empty_db test_backend_requests = ([200, 200, 200, 200, 404, 200], empty_db\<lparr>next_id := 2\<rparr>)"
  by (simp add: test_backend_requests_def dispatch_def route_request_def app_routes_def include_router_def
      users_router_def scans_router_def user_create_of_def password_form_of_def current_user_def
      test_app_env_def empty_db_def register_def login_for_access_token_def delete_user_def
      find_one_email_def find_one_id_def find_one_username_def insert_one_def demo_auth_def test_email_def Let_def)

end
