(* ===== verification/Answers.thy ===== *)
theory Answers
  imports Pipeline
begin

text \<open>
  The extraction path of src/backend/core/analysis.py put together: the
  orchestrator (\<open>try_models\<close>, lines 114--139) with CPython's \<open>json.loads\<close>
  (theory \<open>Json\<close>) in place of a recorded parser, and the pipeline
  (\<open>process_drawing_pipeline\<close>, lines 142--200) feeding the extracted mapping
  to the calculator. A model's answer is taken in the form the prompt asks
  for: the JSON object inside a \<open>```json\<close> fence, each fence on a line of
  its own (\<open>fenced_answer\<close>). The properties: such an answer is parsed
  back to the value it encodes and ends the fallback loop, and a raster
  drawing whose first model answers with an integral dimension set yields
  the weight of the specification's formula.
\<close>

definition fenced_answer :: "pyval \<Rightarrow> string" where
  "fenced_answer v = ''```json'' @ [CHR 0x0A] @ json_dumps v @ [CHR 0x0A] @ ''```''"

text \<open>The spec's rectangular scenario as the prompt asks for it (floats), and
  a client whose first model answers it.\<close>

definition float_rect :: dimension_set where
  "float_rect = \<lparr>ds_shape = Rectangular, ds_outer_width = 100, ds_outer_height = 80, ds_draw_depth = 10,
     ds_draw_width = 60, ds_draw_height = 40, ds_draw_diameter = 0, ds_cutout_diameter = 0\<rparr>"

definition float_rect_env :: pipeline_env where
  "float_rect_env = demo_env\<lparr>vision := (vision demo_env)\<lparr>generate :=
     (\<lambda>m. GenText (Some (fenced_answer (dims_dict float_rect))))\<rparr>\<rparr>"

section \<open>Lemmas\<close>

lemma int_str_no_backtick: "CHR ''`'' \<notin> set (int_str i)"
proof
  assume "CHR ''`'' \<in> set (int_str i)"
  then have "CHR ''`'' \<in> set (nat_str (nat \<bar>i\<bar>))" by (auto simp: int_str_def split: if_splits)
  then have "is_digit (CHR ''`'')" by (rule nat_str_digits)
  then show False by (simp add: is_digit_def)
qed

lemma dims_dict_printable_iff:
  "json_printable (dims_dict D) \<longleftrightarrow>
     list_all (\<lambda>x. x = of_int \<lfloor>x\<rfloor> \<and> \<bar>x\<bar> < 10 ^ 16)
       [ds_outer_width D, ds_outer_height D, ds_draw_depth D, ds_draw_width D, ds_draw_height D,
        ds_draw_diameter D, ds_cutout_diameter D]"
  by (cases "ds_shape D") (simp_all add: dims_dict_def plain_char_def)

lemma dims_dict_no_backtick: "CHR ''`'' \<notin> set (json_dumps (dims_dict D))"
  by (cases "ds_shape D") (simp_all add: dims_dict_def int_str_no_backtick)

lemma try_models_fenced:
  assumes "json_printable v" "CHR ''`'' \<notin> set (json_dumps v)"
    and "json_loads env = json_loads_str" "generate env m = GenText (Some (fenced_answer v))"
  shows "try_models env (m # ms) = ([(m, Parsed)], v)"
proof -
  have "json_loads_str (clean_response (''```json'' @ [CHR 0x0A] @ json_dumps v @ [CHR 0x0A] @ ''```'')) = Inr v"
    using assms(1,2) by (intro fenced_json_loads) (simp_all add: py_isspace_def)
  then show ?thesis using assms(3,4) by (simp add: fenced_answer_def)
qed

section \<open>Properties\<close>

text \<open>C21 (roundtrip): an answer in the prompt's format -- any value
  \<open>json.dumps\<close> writes without escapes (null, bools, ints, integral floats,
  plain strings, lists, objects with distinct keys), with no backtick in it,
  fenced as \<open>```json\<close> on lines of their own -- is cleaned and parsed by
  \<open>json.loads\<close> back to exactly that value, and the orchestrator returns it
  after a single logged attempt.\<close>

theorem fenced_answer_roundtrip:
  assumes "json_printable v" "CHR ''`'' \<notin> set (json_dumps v)"
    and "json_loads env = json_loads_str" "generate env m = GenText (Some (fenced_answer v))"
  shows "json_loads_str (clean_response (fenced_answer v)) = Inr v \<and> try_models env (m # ms) = ([(m, Parsed)], v)"
proof
  show "json_loads_str (clean_response (fenced_answer v)) = Inr v"
    unfolding fenced_answer_def using assms(1,2) by (intro fenced_json_loads) (simp_all add: py_isspace_def)
  show "try_models env (m # ms) = ([(m, Parsed)], v)" using assms by (rule try_models_fenced)
qed

theorem fenced_answer_roundtrip_witness:
  "json_loads_str (clean_response (fenced_answer rect_dims)) = Inr rect_dims \<and>
   try_models (vision demo_env\<lparr>generate := (\<lambda>m. GenText (Some (fenced_answer rect_dims)))\<rparr>) models_to_try =
     ([(''gemini-2.0-flash'', Parsed)], rect_dims)"
  using fenced_answer_roundtrip[of rect_dims "vision demo_env\<lparr>generate := (\<lambda>m. GenText (Some (fenced_answer rect_dims)))\<rparr>"
      "''gemini-2.0-flash''" "tl models_to_try"]
  by (simp add: rect_dims_printable rect_json_dumps[symmetric] rect_json_def demo_env_def models_to_try_def)

text \<open>C22 (refinement): end to end, for any dimension set whose fields are
  integral (below \<open>10\<^sup>1\<^sup>6\<close>), a raster drawing whose first model answers
  with that set in the prompt's format (every number a float, as the
  prompt asks) makes \<open>process_drawing_pipeline\<close> return the weight of the
  specification's formula for steel together with the extracted mapping,
  and leave the file system unchanged.\<close>

theorem raster_pipeline_weight:
  assumes "json_printable (dims_dict D)"
    and "json_loads (vision penv) = json_loads_str" "client_ok (vision penv) (strip_key api_key)"
    and "generate (vision penv) (hd models_to_try) = GenText (Some (fenced_answer (dims_dict D)))"
    and "fs p = Some RasterImage" "\<not> py_endswith (py_lower p) ''.pdf''"
  shows "process_drawing_pipeline penv fs p api_key = (Inr (PFloat (compute_weight steel D), dims_dict D), fs)"
proof -
  have ex: "extract_dimensions_with_gemini (vision penv) fs p api_key = ([(hd models_to_try, Parsed)], dims_dict D)"
    using try_models_fenced[OF assms(1) dims_dict_no_backtick assms(2,4), of "tl models_to_try"] assms(3,5)
    by (simp add: extract_dimensions_with_gemini_def image_opens_def models_to_try_def)
  obtain D' where D': "dims_of (dims_dict D) = Some D'" "net_area steel D' = net_area steel D"
    using dims_of_dims_dict by blast
  have w: "calculate_from_dimensions calculator_init (dims_dict D) = Inr (PFloat (compute_weight steel D))"
    using calculate_from_dimensions_dims_of[OF D'(1)] compute_weight_net_eq[OF D'(2)] by simp
  have "py_truth (dims_dict D)" by (simp add: dims_dict_def)
  then show ?thesis using assms(6) ex w
    by (simp add: pipeline_eq to_raster_def run_images_single Let_def)
qed
theorem raster_pipeline_weight_witness:
  "process_drawing_pipeline float_rect_env [''part.png'' \<mapsto> RasterImage] ''part.png'' (Some ''key'') =
     (Inr (PFloat (compute_weight steel float_rect), dims_dict float_rect), [''part.png'' \<mapsto> RasterImage])"
  by (rule raster_pipeline_weight)
     (simp_all add: dims_dict_printable_iff float_rect_def float_rect_env_def demo_env_def py_str_eval)

end
