(* ===== verification/Cors.thy ===== *)
theory Cors
  imports App Json "HOL-Library.AList"
begin

text \<open>
  The CORS middleware that src/backend/main.py lines 11--18 installs:
  Starlette's \<open>CORSMiddleware\<close> with \<open>allow_origins=["*"]\<close>,
  \<open>allow_credentials=True\<close>, \<open>allow_methods=["*"]\<close> and
  \<open>allow_headers=["*"]\<close> (and the defaults \<open>expose_headers=()\<close>,
  \<open>max_age=600\<close>, no origin regex). \<open>cors_init\<close> is its constructor, which
  precomputes the headers of simple and preflight responses;
  \<open>preflight_response\<close>, \<open>simple_headers_for\<close> and \<open>cors_app\<close> are its
  \<open>preflight_response\<close>, \<open>send\<close> and \<open>__call__\<close>, wrapped around the
  application's \<open>dispatch\<close>. A request carries, besides what the
  application reads, its \<open>Origin\<close>, \<open>Access-Control-Request-Method\<close> and
  \<open>Access-Control-Request-Headers\<close> headers and whether it has a cookie.
  Response headers are an association list updated as a dict; the headers
  the application itself sets (content type and length) are left out.
\<close>

type_synonym headers = "(string \<times> string) list"

record cors_config =
  allow_origins :: "string list"
  allow_methods :: "string list"
  allow_headers :: "string list"
  allow_credentials :: bool
  expose_headers :: "string list"
  max_age :: nat

definition ALL_METHODS :: "string list" where
  "ALL_METHODS = [''DELETE'', ''GET'', ''HEAD'', ''OPTIONS'', ''PATCH'', ''POST'', ''PUT'']"

definition SAFELISTED_HEADERS :: "string list" where
  "SAFELISTED_HEADERS = [''Accept'', ''Accept-Language'', ''Content-Language'', ''Content-Type'']"

text \<open>main.py lines 12--18.\<close>

definition app_cors :: cors_config where
  "app_cors = \<lparr>allow_origins = [''*''], allow_methods = [''*''], allow_headers = [''*''],
     allow_credentials = True, expose_headers = [], max_age = 600\<rparr>"

text \<open>The middleware's attributes after \<open>__init__\<close>.\<close>

record cors_mw =
  mw_allow_origins :: "string list"
  mw_allow_methods :: "string list"
  mw_allow_headers :: "string list"
  mw_allow_all_origins :: bool
  mw_allow_all_headers :: bool
  mw_preflight_explicit_allow_origin :: bool
  mw_simple_headers :: headers
  mw_preflight_headers :: headers

definition cors_init :: "cors_config \<Rightarrow> cors_mw" where
  "cors_init c =
     (let methods = (if ''*'' \<in> set (allow_methods c) then ALL_METHODS else allow_methods c);
          all_origins = ''*'' \<in> set (allow_origins c);
          all_headers = ''*'' \<in> set (allow_headers c);
          explicit = (\<not> all_origins \<or> allow_credentials c);
          simple = (if all_origins then [(''Access-Control-Allow-Origin'', ''*'')] else []) @
                   (if allow_credentials c then [(''Access-Control-Allow-Credentials'', ''true'')] else []) @
                   (if expose_headers c \<noteq> [] then [(''Access-Control-Expose-Headers'', join_items (expose_headers c))] else []);
          hdrs = sort (remdups (SAFELISTED_HEADERS @ allow_headers c));
          preflight = (if explicit then [(''Vary'', ''Origin'')] else [(''Access-Control-Allow-Origin'', ''*'')]) @
                      [(''Access-Control-Allow-Methods'', join_items methods), (''Access-Control-Max-Age'', nat_str (max_age c))] @
                      (if hdrs \<noteq> [] \<and> \<not> all_headers then [(''Access-Control-Allow-Headers'', join_items hdrs)] else []) @
                      (if allow_credentials c then [(''Access-Control-Allow-Credentials'', ''true'')] else []) in
      \<lparr>mw_allow_origins = allow_origins c, mw_allow_methods = methods, mw_allow_headers = map py_lower hdrs,
       mw_allow_all_origins = all_origins, mw_allow_all_headers = all_headers,
       mw_preflight_explicit_allow_origin = explicit, mw_simple_headers = simple, mw_preflight_headers = preflight\<rparr>)"

definition is_allowed_origin :: "cors_mw \<Rightarrow> string \<Rightarrow> bool" where
  "is_allowed_origin mw origin \<longleftrightarrow> mw_allow_all_origins mw \<or> origin \<in> set (mw_allow_origins mw)"

text \<open>\<open>str.split(",")\<close>.\<close>

fun split_comma :: "string \<Rightarrow> string list" where
  "split_comma [] = [[]]"
| "split_comma (c # cs) =
     (let r = split_comma cs in if c = CHR '','' then [] # r else (c # hd r) # tl r)"

text \<open>The answer to a preflight: status and text, and the headers.\<close>

definition preflight_response ::
  "cors_mw \<Rightarrow> string \<Rightarrow> string \<Rightarrow> string option \<Rightarrow> (int \<times> string) \<times> headers" where
  "preflight_response mw requested_origin requested_method requested_headers =
     (let h0 = mw_preflight_headers mw;
          (h1, f1) = (if is_allowed_origin mw requested_origin
                      then (if mw_preflight_explicit_allow_origin mw
                            then AList.update ''Access-Control-Allow-Origin'' requested_origin h0 else h0, [])
                      else (h0, [''origin'']));
          f2 = (if requested_method \<in> set (mw_allow_methods mw) then [] else [''method'']);
          (h2, f3) = (case requested_headers of
                        None \<Rightarrow> (h1, [])
                      | Some rh \<Rightarrow>
                          if mw_allow_all_headers mw then (AList.update ''Access-Control-Allow-Headers'' rh h1, [])
                          else (h1, if list_all (\<lambda>h. py_strip h \<in> set (mw_allow_headers mw)) (split_comma (py_lower rh))
                                    then [] else [''headers'']));
          failures = f1 @ f2 @ f3 in
      if failures \<noteq> [] then ((400, ''Disallowed CORS '' @ join_items failures), h2) else ((200, ''OK''), h2))"

text \<open>\<open>allow_explicit_origin\<close>: the origin, and \<open>Origin\<close> added to \<open>Vary\<close>.\<close>

definition allow_explicit_origin :: "headers \<Rightarrow> string \<Rightarrow> headers" where
  "allow_explicit_origin h origin =
     (let h' = AList.update ''Access-Control-Allow-Origin'' origin h in
      case map_of h' ''Vary'' of
        None \<Rightarrow> AList.update ''Vary'' ''Origin'' h'
      | Some v \<Rightarrow> AList.update ''Vary'' (v @ '', Origin'') h')"

text \<open>\<open>send\<close>: the headers added to the application's response.\<close>

definition simple_headers_for :: "cors_mw \<Rightarrow> string \<Rightarrow> bool \<Rightarrow> headers" where
  "simple_headers_for mw origin has_cookie =
     (let h = mw_simple_headers mw in
      if mw_allow_all_origins mw \<and> has_cookie then allow_explicit_origin h origin
      else if \<not> mw_allow_all_origins mw \<and> is_allowed_origin mw origin then allow_explicit_origin h origin
      else h)"

record cors_request =
  http :: http_request
  origin_hdr :: "string option"
  acr_method :: "string option"
  acr_headers :: "string option"
  has_cookie :: bool

text \<open>\<open>__call__\<close>: no \<open>Origin\<close>, straight to the application; an
  \<open>OPTIONS\<close> request with \<open>Access-Control-Request-Method\<close>, answered by the
  middleware; otherwise the application's answer with the CORS headers.
  Starlette's stack is \<open>ServerErrorMiddleware\<close>, then the user middleware,
  then \<open>ExceptionMiddleware\<close> and the router: an \<open>HTTPException\<close> (404, 405,
  401, the handlers' own) and FastAPI's validation error (422) are turned
  into responses inside the CORS middleware and get its headers, while any
  other exception passes through it before \<open>send\<close> is called and
  \<open>ServerErrorMiddleware\<close> answers 500 without them. In \<open>dispatch\<close> that
  500 is the response whose body is \<open>InternalError\<close>.\<close>

definition cors_app ::
  "cors_mw \<Rightarrow> app_env \<Rightarrow> database \<Rightarrow> cors_request \<Rightarrow> (response \<times> headers) \<times> database" where
  "cors_app mw env db r =
     (case origin_hdr r of
        None \<Rightarrow> (let (resp, db') = dispatch env db (http r) in ((resp, []), db'))
      | Some origin \<Rightarrow>
          (case (req_method (http r), acr_method r) of
             (OPTIONS, Some m) \<Rightarrow>
               (let ((st, txt), h) = preflight_response mw origin m (acr_headers r) in (((st, Message txt), h), db))
           | _ \<Rightarrow> (let (resp, db') = dispatch env db (http r) in
                    if snd resp = InternalError then ((resp, []), db')
                    else ((resp, simple_headers_for mw origin (has_cookie r)), db'))))"

text \<open>The application of main.py with its middleware.\<close>

definition main_app :: "app_env \<Rightarrow> database \<Rightarrow> cors_request \<Rightarrow> (response \<times> headers) \<times> database" where
  "main_app = cors_app (cors_init app_cors)"

section \<open>Lemmas\<close>

lemma main_mw:
  "cors_init app_cors = \<lparr>mw_allow_origins = [''*''], mw_allow_methods = ALL_METHODS,
     mw_allow_headers = map py_lower (sort (remdups (SAFELISTED_HEADERS @ [''*'']))),
     mw_allow_all_origins = True, mw_allow_all_headers = True, mw_preflight_explicit_allow_origin = True,
     mw_simple_headers = [(''Access-Control-Allow-Origin'', ''*''), (''Access-Control-Allow-Credentials'', ''true'')],
     mw_preflight_headers = [(''Vary'', ''Origin''), (''Access-Control-Allow-Methods'', join_items ALL_METHODS),
        (''Access-Control-Max-Age'', nat_str 600), (''Access-Control-Allow-Credentials'', ''true'')]\<rparr>"
  by (simp add: cors_init_def app_cors_def Let_def)

lemma cors_app_cases:
  "cors_app mw env db r =
     (if req_method (http r) = OPTIONS \<and> origin_hdr r \<noteq> None \<and> acr_method r \<noteq> None then
        (let ((st, txt), h) = preflight_response mw (the (origin_hdr r)) (the (acr_method r)) (acr_headers r) in
         (((st, Message txt), h), db))
      else ((fst (dispatch env db (http r)),
              case origin_hdr r of
                None \<Rightarrow> []
              | Some org \<Rightarrow> if snd (fst (dispatch env db (http r))) = InternalError then []
                            else simple_headers_for mw org (has_cookie r)),
            snd (dispatch env db (http r))))"
  by (auto simp: cors_app_def split_def Let_def split: option.split http_method.split)

section \<open>Properties\<close>

text \<open>C34 (safety): with main.py's configuration, every origin is granted
  credentialed access: a preflight from any origin for any method is
  answered 200 with that origin in \<open>Access-Control-Allow-Origin\<close> and
  \<open>Access-Control-Allow-Credentials: true\<close>, without reaching the
  application, and a request that carries a cookie gets the same two
  headers. The wildcard the configuration gives is never what a browser
  sees together with credentials; the code's TODO to restrict the origins is
  what stands between any web page and the API.\<close>

theorem main_app_reflects_any_origin:
  assumes "m \<in> set ALL_METHODS"
  shows "fst (fst (main_app env db \<lparr>http = q\<lparr>req_method := OPTIONS\<rparr>, origin_hdr = Some origin,
             acr_method = Some m, acr_headers = rh, has_cookie = c\<rparr>)) = (200, Message ''OK'') \<and>
    snd (main_app env db \<lparr>http = q\<lparr>req_method := OPTIONS\<rparr>, origin_hdr = Some origin,
             acr_method = Some m, acr_headers = rh, has_cookie = c\<rparr>) = db \<and>
    map_of (snd (fst (main_app env db \<lparr>http = q\<lparr>req_method := OPTIONS\<rparr>, origin_hdr = Some origin,
             acr_method = Some m, acr_headers = rh, has_cookie = c\<rparr>))) ''Access-Control-Allow-Origin'' = Some origin \<and>
    map_of (snd (fst (main_app env db \<lparr>http = q\<lparr>req_method := OPTIONS\<rparr>, origin_hdr = Some origin,
             acr_method = Some m, acr_headers = rh, has_cookie = c\<rparr>))) ''Access-Control-Allow-Credentials'' = Some ''true'' \<and>
    (snd (fst (dispatch env db q')) \<noteq> InternalError \<longrightarrow>
     map_of (snd (fst (main_app env db \<lparr>http = q', origin_hdr = Some origin,
             acr_method = None, acr_headers = rh', has_cookie = True\<rparr>))) ''Access-Control-Allow-Origin'' = Some origin \<and>
     map_of (snd (fst (main_app env db \<lparr>http = q', origin_hdr = Some origin,
             acr_method = None, acr_headers = rh', has_cookie = True\<rparr>))) ''Access-Control-Allow-Credentials'' = Some ''true'')"
  using assms
  by (simp add: main_app_def cors_app_cases main_mw preflight_response_def is_allowed_origin_def
      simple_headers_for_def allow_explicit_origin_def update_conv' Let_def split: option.split)


theorem main_app_reflects_any_origin_witness:
  "fst (fst (main_app test_app_env empty_db \<lparr>http = \<lparr>req_method = DELETE, req_path = ''/users/me'', req_token = None,
       req_body = NoBody\<rparr>\<lparr>req_method := OPTIONS\<rparr>, origin_hdr = Some ''https://evil.example'',
       acr_method = Some ''DELETE'', acr_headers = Some ''authorization'', has_cookie = False\<rparr>)) = (200, Message ''OK'') \<and>
   snd (main_app test_app_env empty_db \<lparr>http = \<lparr>req_method = DELETE, req_path = ''/users/me'', req_token = None,
       req_body = NoBody\<rparr>\<lparr>req_method := OPTIONS\<rparr>, origin_hdr = Some ''https://evil.example'',
       acr_method = Some ''DELETE'', acr_headers = Some ''authorization'', has_cookie = False\<rparr>) = empty_db \<and>
   map_of (snd (fst (main_app test_app_env empty_db \<lparr>http = \<lparr>req_method = DELETE, req_path = ''/users/me'', req_token = None,
       req_body = NoBody\<rparr>\<lparr>req_method := OPTIONS\<rparr>, origin_hdr = Some ''https://evil.example'',
       acr_method = Some ''DELETE'', acr_headers = Some ''authorization'', has_cookie = False\<rparr>))) ''Access-Control-Allow-Origin'' =
     Some ''https://evil.example'' \<and>
   map_of (snd (fst (main_app test_app_env empty_db \<lparr>http = \<lparr>req_method = DELETE, req_path = ''/users/me'', req_token = None,
       req_body = NoBody\<rparr>\<lparr>req_method := OPTIONS\<rparr>, origin_hdr = Some ''https://evil.example'',
       acr_method = Some ''DELETE'', acr_headers = Some ''authorization'', has_cookie = False\<rparr>))) ''Access-Control-Allow-Credentials'' =
     Some ''true'' \<and>
   map_of (snd (fst (main_app test_app_env empty_db \<lparr>http = \<lparr>req_method = GET, req_path = ''/users/me'', req_token = None,
       req_body = NoBody\<rparr>, origin_hdr = Some ''https://evil.example'',
       acr_method = None, acr_headers = None, has_cookie = True\<rparr>))) ''Access-Control-Allow-Origin'' = Some ''https://evil.example'' \<and>
   map_of (snd (fst (main_app test_app_env empty_db \<lparr>http = \<lparr>req_method = GET, req_path = ''/users/me'', req_token = None,
       req_body = NoBody\<rparr>, origin_hdr = Some ''https://evil.example'',
       acr_method = None, acr_headers = None, has_cookie = True\<rparr>))) ''Access-Control-Allow-Credentials'' = Some ''true''"
proof -
  have "snd (fst (dispatch test_app_env empty_db \<lparr>req_method = GET, req_path = ''/users/me'', req_token = None,
       req_body = NoBody\<rparr>)) \<noteq> InternalError"
    by (simp add: dispatch_def route_auth current_user_def)
  moreover have "ALL_METHODS \<noteq> [] \<and> ''DELETE'' \<in> set ALL_METHODS" by (simp add: ALL_METHODS_def)
  ultimately show ?thesis using main_app_reflects_any_origin[of "''DELETE''"] by blast
qed

text \<open>C35 (functional): the middleware leaves the application's behaviour
  alone except for preflights: every request that is not a preflight
  (\<open>OPTIONS\<close> with \<open>Origin\<close> and \<open>Access-Control-Request-Method\<close>) gets
  exactly the status, body and database change of \<open>dispatch\<close>, the
  middleware adding headers only; a preflight never reaches a route and
  leaves the database as it was.\<close>

theorem cors_app_transparent:
  "snd (cors_app mw env db r) =
     (if req_method (http r) = OPTIONS \<and> origin_hdr r \<noteq> None \<and> acr_method r \<noteq> None then db
      else snd (dispatch env db (http r))) \<and>
   (\<not> (req_method (http r) = OPTIONS \<and> origin_hdr r \<noteq> None \<and> acr_method r \<noteq> None) \<longrightarrow>
      fst (fst (cors_app mw env db r)) = fst (dispatch env db (http r)))"
  by (auto simp: cors_app_cases split_def Let_def)

theorem cors_app_transparent_witness:
  "snd (main_app test_app_env empty_db \<lparr>http = hd test_backend_requests, origin_hdr = Some ''https://evil.example'',
      acr_method = None, acr_headers = None, has_cookie = False\<rparr>) = snd (dispatch test_app_env empty_db (hd test_backend_requests)) \<and>
   fst (fst (main_app test_app_env empty_db \<lparr>http = hd test_backend_requests, origin_hdr = Some ''https://evil.example'',
      acr_method = None, acr_headers = None, has_cookie = False\<rparr>)) = fst (dispatch test_app_env empty_db (hd test_backend_requests))"
  using cors_app_transparent[of "cors_init app_cors" test_app_env empty_db
      "\<lparr>http = hd test_backend_requests, origin_hdr = Some ''https://evil.example'',
        acr_method = None, acr_headers = None, has_cookie = False\<rparr>"]
  by (simp add: main_app_def test_backend_requests_def)

end
