(* ===== verification/Spec2Isabelle.thy ===== *)
theory Spec2Isabelle
  imports Cli App Answers Cors
begin

text \<open>
  \<^bold>\<open>Drawn-steel weight estimation: a verification development of
  src/backend/core/analysis.py and its surroundings.\<close>

  \<^medskip>\<^bold>\<open>The program.\<close> A drawing (PDF or raster image) goes through three
  stages in \<open>process_drawing_pipeline\<close>: the preprocessor turns a PDF into a
  temporary JPEG of its first page; \<open>extract_dimensions_with_gemini\<close> asks four
  Gemini models in a fixed order for a JSON object of eight dimension fields,
  falling back to the next model on any failure; \<open>DrawnSteelCalculator\<close>
  turns the first non-empty mapping into a mass in kg. The temporary JPEG is
  removed before the pipeline returns. Around the core, a FastAPI
  application serves user accounts (routers/users.py) and the scan history
  (routers/scans.py) from a MongoDB database through the pydantic models of
  models.py; the route that would connect the pipeline to the history
  (\<open>/analyze\<close>) is commented out, so the two halves do not call each other.
  main.py mounts the two routers on one application; database.py gives
  them one database. Two scripts sit beside the package: the \<open>__main__\<close>
  block of analysis.py runs the pipeline on a fixed image, and
  verify_integration.py checks that the module imports.

  \<^medskip>\<^bold>\<open>Theories.\<close>
  \<^item> \<open>Prelude\<close>: exceptions as the left summand of a sum with \<open>py_bind\<close>; the
    CPython string methods the code calls (\<open>strip\<close>, \<open>lower\<close>, \<open>endswith\<close>,
    \<open>replace\<close>, \<open>in\<close>) on byte strings, with the replace and strip lemmas the
    response cleaning and the temp-file naming rest on.
  \<^item> \<open>PyValue\<close>: the values \<open>json.loads\<close> produces (\<open>pyval\<close>), Python's
    exceptions (\<open>pyexc\<close>), truthiness, \<open>or\<close>, the numeric tower
    (\<open>bool \<subseteq> int \<subseteq> float\<close>) with \<open>*\<close>, \<open>+\<close>, \<open>-\<close>, \<open>/\<close>, \<open>** 2\<close>,
    sequence repetition, \<open>round(x, n)\<close> (round-half-even), \<open>dict.get\<close> and
    \<open>d[k]\<close>.
  \<^item> \<open>Calculator\<close> (analysis.py lines 9--61): the class as the record
    \<open>calculator\<close> and \<open>calculator_init\<close>; \<open>calculate_weight\<close>,
    \<open>cutout_area_of\<close>, \<open>wall_area_of\<close> and \<open>calculate_from_dimensions\<close>,
    statement by statement over \<open>pyval\<close>. The specification of the spec's
    section 4.1 is \<open>compute_weight\<close> over \<open>dimension_set\<close>; \<open>dims_of\<close>
    normalises an extracted mapping. Properties C1--C7: the refinement of the
    spec formula, the spec's round scenario (with \<open>3.1305 < pi < 3.19\<close>, from
    the degree-6 Maclaurin polynomial of \<open>cos\<close> and its remainder), that the
    result is always a float, monotonicity in the draw depth, unknown shapes,
    the TypeError of a null required field, and the absence of clamping for
    every negative net area.
  \<^item> \<open>Orchestrator\<close> (lines 64--139): the collaborators as the record
    \<open>vision_env\<close> (client construction, \<open>generate_content\<close> per model name,
    \<open>json.loads\<close>) and the file store for \<open>Image.open\<close>; \<open>models_to_try\<close>,
    \<open>clean_response\<close>, \<open>classify_error\<close>, the loop \<open>try_models\<close> returning
    the attempt log the code prints, and \<open>extract_dimensions_with_gemini\<close>.
    The spec's "first success wins" is \<open>first_success\<close>; its state machine
    is the inductive \<open>orch_step\<close>, whose step relation is well-founded
    (measure: the models left). Properties C8, C9 and C11--C14: equivalence
    with \<open>first_success\<close>, that the machine reaches a terminal state agreeing
    with \<open>try_models\<close>, that the log extraction returns is a duplicate-free
    prefix of the model list (the machine's invariant, by rule induction,
    carried to the loop through that terminal state), exhaustion, the stop at
    the first parsable answer, and the classification of parse errors.
  \<^item> \<open>Json\<close>: CPython's \<open>json.loads\<close> (the C scanner of Modules/_json.c and
    \<open>JSONDecoder.decode\<close>) over the suffix still to read, with
    \<open>JSONDecodeError\<close> messages, positions, lines and columns as CPython
    prints them, and repeated keys as dict assignment. Every call spends fuel;
    \<open>json_decode_no_fuel\<close> shows that \<open>2 n + 1\<close> is enough for a document of
    length \<open>n\<close>. \<open>json_dumps\<close> writes the values \<open>json.dumps\<close> prints without
    escapes, and \<open>json_decode_dumps\<close> reads every one of them back.
  \<^item> \<open>Pipeline\<close> (lines 142--200): \<open>to_raster\<close>, \<open>run_images\<close>, \<open>cleanup\<close>
    and \<open>process_drawing_pipeline\<close> over the file store, with pdf2image and
    directory permissions in \<open>pipeline_env\<close>; its scenarios read the model's
    answers with \<open>Json\<close>. Properties C15--C20: a weight only from a non-empty
    extraction, clean-up on every normal return, the temp-file leak when the
    calculator raises, the destruction of a \<open>.PDF\<close> input, the zero-page PDF,
    the loss of a pre-existing \<open><name>_temp.jpg\<close>.
  \<^item> \<open>Answers\<close>: the extraction path put together. Properties C10, C21 and C22:
    \<open>json.loads\<close> finishes on every cleaned answer (the scanner's fuel
    suffices, the development's termination property); an
    answer in the prompt's format is cleaned and parsed back to the value it
    encodes and ends the fallback; for every integral dimension set, a raster
    drawing whose first model answers with it yields the weight of the spec's
    formula (orchestrator, \<open>json.loads\<close>, pipeline and calculator composed).
  \<^item> \<open>Cli\<close> (analysis.py lines 202--226 and verify_integration.py): the
    choice of the API key and of the image and the run of the pipeline, and
    the import check. Property C23: the key the run uses, from the
    environment or the built-in one, and the placeholder stop.
  \<^item> \<open>Models\<close> (models.py): a bson ObjectId as a 96-bit word (\<open>oid\<close>), its
    \<open>str()\<close> and the parsing of \<open>ObjectId(s)\<close>; \<open>validate_object_id\<close>; the
    pydantic models as records (\<open>UserInDB\<close> is \<open>UserModel\<close>). Lemmas: printing
    and parsing an id are inverse both ways.
  \<^item> \<open>Users\<close> (routers/users.py): the \<open>users\<close> collection as a list in
    natural order; \<open>register\<close>, \<open>login_for_access_token\<close>, \<open>delete_user\<close>,
    \<open>read_users_me\<close>; the requests as \<open>user_op\<close> served by \<open>run_ops\<close>;
    \<open>register\<close> once more as the step relation \<open>reg_step\<close>, one step per
    \<open>await\<close>; and the abstract specification, a map from email to account
    (\<open>accounts_of\<close>, \<open>acc_register\<close>, \<open>acc_delete\<close>, \<open>acc_step\<close>).
    Properties C24--C27: unique emails and ids under sequential service, the
    refinement of the account map (answers and state), the email lookup
    shadowing usernames, and the interleaving of two registrations that stores
    one email twice.
  \<^item> \<open>Scans\<close> (routers/scans.py): the history documents, \<open>find_history\<close>
    (filter, descending timestamp sort, limit) and \<open>get_history\<close> with its
    string-id fallback. Properties C28--C31: ownership, the bound and the
    order, the hidden legacy records, and that an omitted record means the
    limit was reached.
  \<^item> \<open>App\<close> (main.py, database.py): the database as the server state, the
    route table from the decorators and the mount prefixes, FastAPI's matching
    (404, 405), the bearer dependency (401), body validation (422), and
    \<open>dispatch\<close>; \<open>serve\<close> answers a sequence. Properties C32--C33: the
    database invariant, and the 404 and 405 of every request the route table
    does not serve (the commented-out analyze route among them). A lemma runs
    test_backend.py's requests (200, 200, 200, 200, 404, 200).
  \<^item> \<open>Cors\<close> (main.py lines 11--18): Starlette's \<open>CORSMiddleware\<close> with the
    configuration of main.py (\<open>app_cors\<close>), its constructor, preflight answer
    and added headers, around \<open>dispatch\<close> (\<open>main_app\<close>); the 500 of an unhandled exception
    is sent by Starlette's \<open>ServerErrorMiddleware\<close>, outside the CORS
    middleware, without its headers. Properties C34--C35: every origin is
    granted credentialed access, and the middleware changes nothing of the
    application but the headers and the preflights.
  \<^item> This theory: C36, that the ids the history returns validate back to the
    records' ObjectIds (Scans with Models).

  \<^medskip>\<^bold>\<open>Modelling decisions.\<close> Python floats are exact reals: the claims
  hold for exact arithmetic, and float rounding error, overflow to infinity
  and NaN are not modelled; \<open>round\<close> is round-half-even on the exact value.
  No claim bounds the distance of the reported weight from the exact mass:
  on large areas CPython's inexact products move it by more than the half
  gram of \<open>round(x, 3)\<close>.
  Strings are byte strings and the whitespace of \<open>strip\<close> is its ASCII part.
  The external services are recorded behaviour (a function from model name
  to response, as each model is called at most once per run); \<open>json.loads\<close>
  is the library model of theory \<open>Json\<close>, whose inputs outside the model
  (\<open>\\u\<close> escapes, NaN and the infinities, ints beyond 4300 digits) give an
  explicit mark that no claim relies on. The loops of the code run over
  finite lists and are structural recursion; the only fuel is the JSON
  scanner's, with the lemma that it suffices; termination of the
  orchestration is proved of its state machine. MongoDB collections are
  lists in natural order; a sort keeps equal keys in that order, one of the
  orders MongoDB may return. backend/auth.py and backend/schemas.py, which
  the routers import, are not in the repository: hashing, password checking
  and token creation are the parameters in \<open>auth_env\<close>, the request and
  response bodies are records with the fields the handlers use, and
  \<open>get_current_user\<close> is a parameter of the application. The application
  serves requests one at a time; the concurrent interleavings are modelled
  for \<open>register\<close> only. The driver's fresh ObjectIds come from a counter in
  the database record.

  \<^medskip>\<^bold>\<open>Not modelled.\<close> What is left of the sources is not code the
  model could translate: the imports, comments, and the \<open>/analyze\<close> route of
  scans.py (lines 17--65), which is commented out. Besides, the printed
  messages of the scripts beyond the outcome they report, the network
  connection of the database driver, pydantic's \<open>EmailStr\<close> validation, the
  JSON schemas of the responses (schemas.py is absent), the headers the
  application itself sets (content type and length), the \<open>RecursionError\<close>
  of JSON documents nested deeper than the interpreter's limit, and the
  whitespace \<open>bytes.fromhex\<close> skips inside a 24-character id.
\<close>

section \<open>Properties across components\<close>

text \<open>C36 (roundtrip): every \<open>id\<close> the history endpoint returns is accepted by
  the \<open>PyObjectId\<close> validator of models.py and gives back the record's
  ObjectId, so a client can send it back wherever an ObjectId is expected.\<close>

theorem history_ids_validate:
  "(i, d) \<in> set (get_history cu docs) \<Longrightarrow> validate_object_id (IdStr i) = Inr (h_id d)"
  using get_history_fst[of i d cu docs] by (simp add: validate_str_Inr oid_of_str_oid_str)

theorem history_ids_validate_witness:
  "validate_object_id (IdStr (oid_str 2)) = Inr (h_id (demo_history ! 1))"
  by (rule history_ids_validate[where cu = demo_user and docs = demo_history]) (simp add: demo_history_result)

end
